(* ===== verification/Synth_Prelude.thy ===== *)
theory Synth_Prelude
  imports Complex_Main "HOL-Library.Word"
begin

text \<open>
  Shared vocabulary of the MIDI synthesiser development.
  \<^item> \<open>byte\<close>: a MIDI data or status byte. Web MIDI hands the handler a
    \<open>Uint8Array\<close>, so every byte the code reads is an 8-bit unsigned value.
  \<^item> \<open>js_error\<close> and \<open>'s js\<close>: the outcome of a JavaScript handler. An
    exception in a DOM event listener does not undo the writes the listener made
    before it threw, so a throw carries the state reached at the throw point.
  \<^item> \<open>js_truthy_get\<close>: reading a key of a plain object literal \<open>{}\<close>, which
    falls back to the members of \<open>Object.prototype\<close>.
  \<^item> The collection \<open>synth_simps\<close> gathers the unfolding facts of the
    component theories that their invariant proofs share.
\<close>

type_synonym byte = "8 word"
type_synonym node_id = nat

named_theorems synth_simps "definitions unfolded by the component proofs"

text \<open>
  Byte values enter real arithmetic as \<open>real (unat b)\<close>; the library's simp rule
  that rewrites this to \<open>unsigned b\<close> would cut the link to the \<open>unat\<close>
  lemmas, so it is taken out of the simpset.
\<close>

declare of_nat_unat [simp del]

datatype js_error = TypeError | InvalidStateError

datatype 's js = Ret 's | Throw js_error 's

fun js_bind :: "'s js \<Rightarrow> ('s \<Rightarrow> 's js) \<Rightarrow> 's js" where
  "js_bind (Ret s) f = f s"
| "js_bind (Throw e s) f = Throw e s"

fun js_state :: "'s js \<Rightarrow> 's" where
  "js_state (Ret s) = s"
| "js_state (Throw e s) = s"

fun js_map :: "('s \<Rightarrow> 't) \<Rightarrow> 's js \<Rightarrow> 't js" where
  "js_map f (Ret s) = Ret (f s)"
| "js_map f (Throw e s) = Throw e (f s)"

text \<open>
  The own-or-inherited members of a fresh object literal: \<open>o[k]\<close> is truthy for
  these keys even when \<open>o\<close> has no own property \<open>k\<close>.
\<close>

definition object_prototype_keys :: "string set" where
  "object_prototype_keys =
     {''constructor'', ''__proto__'', ''hasOwnProperty'', ''isPrototypeOf'',
      ''propertyIsEnumerable'', ''toString'', ''toLocaleString'', ''valueOf'',
      ''__defineGetter__'', ''__defineSetter__'', ''__lookupGetter__'', ''__lookupSetter__''}"

definition js_truthy_get :: "(string \<rightharpoonup> 'a) \<Rightarrow> string \<Rightarrow> bool" where
  "js_truthy_get m k \<longleftrightarrow> m k \<noteq> None \<or> k \<in> object_prototype_keys"

subsection \<open>Lemmas on handler outcomes\<close>

lemma js_bind_Ret_iff [simp]:
  "js_bind m f = Ret t \<longleftrightarrow> (\<exists>s. m = Ret s \<and> f s = Ret t)"
  by (cases m) auto

lemma js_bind_assoc [simp]:
  "js_bind (js_bind m f) g = js_bind m (\<lambda>s. js_bind (f s) g)"
  by (cases m) auto

lemma js_bind_Ret_right [simp]: "js_bind m Ret = m"
  by (cases m) auto

lemma js_map_Ret_iff [simp]: "js_map f m = Ret t \<longleftrightarrow> (\<exists>s. m = Ret s \<and> t = f s)"
  by (cases m) auto

lemma js_state_js_map [simp]: "js_state (js_map f m) = f (js_state m)"
  by (cases m) auto

lemma js_map_comp [simp]: "js_map f (js_map g r) = js_map (f \<circ> g) r"
  by (cases r) simp_all

subsection \<open>Lemmas on maps\<close>

lemma ran_upd_subset: "ran (m(k \<mapsto> v)) \<subseteq> insert v (ran m)"
  by (auto simp: ran_def)

lemma ran_delete_subset: "ran (m(k := None)) \<subseteq> ran m"
  by (auto simp: ran_def)

lemma inj_on_dom_upd_fresh [intro]:
  "inj_on m (dom m) \<Longrightarrow> v \<notin> ran m \<Longrightarrow> inj_on (m(k \<mapsto> v)) (insert k (dom m))"
  by (auto simp: inj_on_def ran_def dom_def)

lemma inj_on_dom_delete [intro]:
  "inj_on m (dom m) \<Longrightarrow> inj_on (m(k := None)) (dom m - {k})"
  by (auto simp: inj_on_def dom_def)

lemma ran_delete_inj:
  "inj_on m (dom m) \<Longrightarrow> m k = Some v \<Longrightarrow> ran (m(k := None)) = ran m - {v}"
  by (force simp add: ran_def domI inj_onD)

subsection \<open>Lemmas on bytes\<close>

lemma byte_neq_unat: "unat (x :: byte) \<noteq> unat y \<Longrightarrow> x \<noteq> y"
  by auto

lemma byte_unat_le_255 [simp]: "unat (b :: byte) \<le> 255"
  using unsigned_less [of b, where ?'a = nat] by simp

end
