(* ===== verification/Midi_Decoder.thy ===== *)
theory Midi_Decoder
  imports Synth_Prelude
begin

text \<open>
  The classification of a raw MIDI message in \<open>onMidiMessage\<close>
  (src/midiSynth.js, lines 82--121). The handler destructures the message into
  \<open>statusByte, data1, data2\<close> and tests the status byte against the ranges of
  \<open>isNoteOn\<close> and \<open>isNoteOff\<close> and the constants 176 and 224. \<open>decode\<close>
  names the branch taken as a value of \<open>midi_event\<close>; the actions of each branch
  are modelled in \<open>Voice_Synth\<close>.
\<close>

definition isNoteOn :: "byte \<Rightarrow> bool" where
  "isNoteOn statusByte \<longleftrightarrow> 144 \<le> statusByte \<and> statusByte \<le> 159"

definition isNoteOff :: "byte \<Rightarrow> bool" where
  "isNoteOff statusByte \<longleftrightarrow> 128 \<le> statusByte \<and> statusByte \<le> 143"

datatype midi_event =
    NoteOn byte byte        \<comment> \<open>note, velocity\<close>
  | NoteOff byte            \<comment> \<open>note; the release velocity is not read\<close>
  | ControlChange byte byte \<comment> \<open>controller, value\<close>
  | PitchBend byte          \<comment> \<open>the high data byte only\<close>
  | Other

definition decode :: "byte \<Rightarrow> byte \<Rightarrow> byte \<Rightarrow> midi_event" where
  "decode statusByte data1 data2 =
     (if isNoteOn statusByte then NoteOn data1 data2
      else if isNoteOff statusByte then NoteOff data1
      else if statusByte = 176 then ControlChange data1 data2
      else if statusByte = 224 then PitchBend data2
      else Other)"

text \<open>
  \<open>encode_event ch\<close> writes an event as the bytes a keyboard sends on MIDI channel
  \<open>ch + 1\<close> (a NoteOff with release velocity 0, pitch bend with LSB 0, a
  system-exclusive status for \<open>Other\<close>). midiSynth.js compares the status of control
  change and pitch bend with 176 and 224, the values of channel 1, so those two are
  encoded on channel 1.
\<close>

fun encode_event :: "byte \<Rightarrow> midi_event \<Rightarrow> byte \<times> byte \<times> byte" where
  "encode_event ch (NoteOn n v) = (144 + ch, n, v)"
| "encode_event ch (NoteOff n) = (128 + ch, n, 0)"
| "encode_event ch (ControlChange c v) = (176, c, v)"
| "encode_event ch (PitchBend v) = (224, 0, v)"
| "encode_event ch Other = (240, 0, 0)"

declare isNoteOn_def [synth_simps] isNoteOff_def [synth_simps] decode_def [synth_simps]

subsection \<open>Reading a status byte through its value\<close>

lemma isNoteOn_unat: "isNoteOn s \<longleftrightarrow> 144 \<le> unat s \<and> unat s \<le> 159"
  by (simp add: isNoteOn_def word_le_nat_alt)

lemma isNoteOff_unat: "isNoteOff s \<longleftrightarrow> 128 \<le> unat s \<and> unat s \<le> 143"
  by (simp add: isNoteOff_def word_le_nat_alt)

subsection \<open>The status classes are disjoint\<close>

lemma isNoteOn_not_isNoteOff: "isNoteOn s \<Longrightarrow> \<not> isNoteOff s"
  by (simp add: isNoteOn_unat isNoteOff_unat)

lemma isNoteOn_not_special: "isNoteOn s \<Longrightarrow> s \<noteq> 176 \<and> s \<noteq> 224"
  by (auto simp: isNoteOn_def)

lemma isNoteOff_not_special: "isNoteOff s \<Longrightarrow> s \<noteq> 176 \<and> s \<noteq> 224"
  by (auto simp: isNoteOff_def)

lemmas status_classes_disjoint =
  isNoteOn_not_isNoteOff isNoteOn_not_special isNoteOff_not_special

subsection \<open>Channels\<close>

lemma unat_add_channel:
  "unat ch < 16 \<Longrightarrow> k \<le> 240 \<Longrightarrow> unat (of_nat k + ch :: byte) = k + unat ch"
  by (simp add: unat_add_lem [THEN iffD1] unat_of_nat)

text \<open>
  C25: Decoding inverts encoding: a note message on any of the 16 channels, and a control
  change, pitch bend or other message on channel 1, decodes to the event it encodes.
\<close>

theorem decode_encode:
  assumes "unat ch < 16"
  shows "(case encode_event ch ev of (st, d1, d2) \<Rightarrow> decode st d1 d2) = ev"
proof (cases ev)
  case (NoteOn n v)
  have "unat (144 + ch) = 144 + unat ch"
    using unat_add_channel [OF assms, of 144] by simp
  then have "isNoteOn (144 + ch)" using assms by (simp add: isNoteOn_unat)
  with NoteOn show ?thesis by (simp add: decode_def)
next
  case (NoteOff n)
  have "unat (128 + ch) = 128 + unat ch"
    using unat_add_channel [OF assms, of 128] by simp
  then have "isNoteOff (128 + ch)" and "\<not> isNoteOn (128 + ch)"
    using assms by (simp_all add: isNoteOff_unat isNoteOn_unat)
  with NoteOff show ?thesis by (simp add: decode_def)
qed (simp_all add: decode_def isNoteOn_def isNoteOff_def)

theorem decode_encode_witness:
  "unat (3::byte) < 16 \<and>
   (case encode_event 3 (NoteOn 60 100) of (st, d1, d2) \<Rightarrow> decode st d1 d2) = NoteOn 60 100"
  using decode_encode [of 3 "NoteOn 60 100"] by simp

text \<open>
  Control change and pitch bend on channels 2--16 (status 177--191 and 225--239) fall
  into no branch of \<open>onMidiMessage\<close>: they are ignored.
\<close>

lemma decode_control_other_channels:
  assumes pos: "0 < unat ch" and lt: "unat ch < 16"
  shows "decode (176 + ch) c v = Other \<and> decode (224 + ch) c v = Other"
proof -
  have u1: "unat (176 + ch) = 176 + unat ch" and u2: "unat (224 + ch) = 224 + unat ch"
    using unat_add_channel [OF lt, of 176] unat_add_channel [OF lt, of 224] by simp_all
  have "176 + ch \<noteq> 176" "176 + ch \<noteq> 224" "224 + ch \<noteq> 176" "224 + ch \<noteq> 224"
    using pos lt by (rule_tac byte_neq_unat, simp add: u1 u2)+
  with u1 u2 show ?thesis
    by (simp add: decode_def isNoteOn_unat isNoteOff_unat)
qed

end
