(* ===== verification/Param_Mappers.thy ===== *)
theory Param_Mappers
  imports Synth_Prelude
begin

text \<open>
  The numeric conversions of src/midiSynth.js: \<open>midiNoteToFreq\<close> (line 124),
  \<open>midiVelocityToGain\<close> (line 128), the volume scaling \<open>data2 / 127\<close> of the
  control-change branch of \<open>onMidiMessage\<close> (line 104) and the cutoff formula
  \<open>(data / 64) * 1000\<close> of \<open>setMasterFilterFreq\<close> (line 208). JavaScript numbers
  are modelled as reals: every input is a byte, so no intermediate value of these
  formulas leaves the range of doubles (\<open>Math.pow(10, 255)\<close> is finite), and the
  lemmas describe the exact real values the floating-point code approximates.
\<close>

definition midiNoteToFreq :: "byte \<Rightarrow> real" where
  "midiNoteToFreq note = 2 powr ((real (unat note) - 69) / 12) * 440"

definition midiVelocityToGain :: "byte \<Rightarrow> real" where
  "midiVelocityToGain velocity = ln (10 powr real (unat velocity)) / 292.4283068102438"

definition controlVolumeToGain :: "byte \<Rightarrow> real" where
  "controlVolumeToGain data2 = real (unat data2) / 127"

definition pitchBendToFilterFreq :: "byte \<Rightarrow> real" where
  "pitchBendToFilterFreq data = (real (unat data) / 64) * 1000"

text \<open>The inverse of the tuning formula, as the MIDI tuning standard states it.\<close>

definition freqToNote :: "real \<Rightarrow> real" where
  "freqToNote f = 69 + 12 * log 2 (f / 440)"

subsection \<open>Numeric facts shared by the bounds\<close>

lemma ln_10_le: "ln (10::real) \<le> 2.32"
proof -
  have "(1 + 0.145 + 0.145\<^sup>2 / 2 :: real) ^ 16 \<le> exp 0.145 ^ 16"
    by (rule power_mono [OF exp_lower_Taylor_quadratic]) simp_all
  also have "\<dots> = exp 2.32"
    by (simp add: exp_of_nat_mult [symmetric])
  finally have le: "(1 + 0.145 + 0.145\<^sup>2 / 2 :: real) ^ 16 \<le> exp 2.32" .
  have "(1 + 0.145 + 0.145\<^sup>2 / 2 :: real) = 92441 / 80000"
    by (simp add: power_divide)
  then have "(10::real) \<le> (1 + 0.145 + 0.145\<^sup>2 / 2) ^ 16"
    by (simp add: power_divide)
  with le have "ln 10 \<le> ln (exp (2.32::real))"
    by (subst ln_le_cancel_iff) simp_all
  then show ?thesis by simp
qed

lemma ln_10_pos: "0 < ln (10::real)"
  by simp

lemma unat_less_iff: "unat (a :: byte) < unat b \<longleftrightarrow> a < b"
  by (simp add: word_less_nat_alt)

lemma unat_le_iff: "unat (a :: byte) \<le> unat b \<longleftrightarrow> a \<le> b"
  by (simp add: word_le_nat_alt)

lemma midiVelocityToGain_eq:
  "midiVelocityToGain v = real (unat v) * (ln 10 / 292.4283068102438)"
  by (simp add: midiVelocityToGain_def)

subsection \<open>Note to frequency\<close>

text \<open>
  C26: The MIDI tuning formula \<open>69 + 12 log\<^sub>2 (f / 440)\<close> recovers the note
  from the frequency \<open>midiNoteToFreq\<close> gives it, for every byte: the map loses no
  information (note 69 is A4 at 440 Hz).
\<close>

theorem midiNoteToFreq_roundtrip: "freqToNote (midiNoteToFreq n) = real (unat n)"
  by (simp add: freqToNote_def midiNoteToFreq_def field_simps)

text \<open>Twelve semitones up doubles the frequency (equal temperament).\<close>

theorem midiNoteToFreq_octave:
  assumes "unat b = unat a + 12"
  shows "midiNoteToFreq b = 2 * midiNoteToFreq a"
proof -
  have e: "(real (unat b) - 69) / 12 = (real (unat a) - 69) / 12 + 1"
    using assms by (simp add: field_simps)
  have "2 powr ((real (unat b) - 69) / 12) = 2 powr ((real (unat a) - 69) / 12) * 2 powr 1"
    unfolding e by (rule powr_add)
  then show ?thesis by (simp add: midiNoteToFreq_def)
qed

text \<open>Higher notes give strictly higher frequencies, over the whole byte range.\<close>

theorem midiNoteToFreq_strict_mono: "midiNoteToFreq a < midiNoteToFreq b \<longleftrightarrow> a < b"
  by (simp add: midiNoteToFreq_def divide_strict_right_mono word_less_nat_alt)

text \<open>
  C34: Every note of the MIDI range 0--127 gets a frequency between 440/64 Hz and
  14080 Hz, below the Nyquist frequency of the usual sample rates.
\<close>

theorem midiNoteToFreq_bounds:
  assumes "unat n \<le> 127"
  shows "440 / 64 \<le> midiNoteToFreq n \<and> midiNoteToFreq n \<le> 14080"
proof -
  have "2 powr (-6) \<le> 2 powr ((real (unat n) - 69) / 12)"
    by (rule powr_mono) simp_all
  then have lo: "1 / 64 \<le> 2 powr ((real (unat n) - 69) / 12)"
    by (simp add: powr_minus_divide)
  have "(real (unat n) - 69) / 12 \<le> 5"
    using assms by simp
  then have "2 powr ((real (unat n) - 69) / 12) \<le> 2 powr 5"
    by (rule powr_mono) simp
  then have hi: "2 powr ((real (unat n) - 69) / 12) \<le> 32"
    by simp
  from lo hi show ?thesis
    unfolding midiNoteToFreq_def by linarith
qed

theorem midiNoteToFreq_bounds_witness:
  "unat (127::byte) \<le> 127 \<and> 440 / 64 \<le> midiNoteToFreq 127 \<and> midiNoteToFreq 127 \<le> 14080"
  using midiNoteToFreq_bounds [of 127] by simp

subsection \<open>Velocity to gain\<close>

text \<open>
  C35: \<open>Math.log(Math.pow(10, v)) / 292.4283068102438\<close> is a linear function of
  the velocity: \<open>ln (10 ^ v) = v * ln 10\<close>, so the gain is a constant multiple of
  \<open>v\<close> (the constant is \<open>ln 10 / 292.428...\<close>, about 1/127), not the
  non-linear curve the specification describes.
\<close>

theorem midiVelocityToGain_linear:
  "\<exists>c > 0. \<forall>v. midiVelocityToGain v = c * real (unat v)"
proof (intro exI conjI allI)
  show "0 < ln 10 / (292.4283068102438 :: real)" by simp
  fix v
  show "midiVelocityToGain v = ln 10 / 292.4283068102438 * real (unat v)"
    by (simp add: midiVelocityToGain_eq)
qed

text \<open>A harder key press gives a strictly larger gain.\<close>

theorem midiVelocityToGain_strict_mono:
  "midiVelocityToGain a < midiVelocityToGain b \<longleftrightarrow> a < b"
  by (simp add: midiVelocityToGain_eq word_less_nat_alt)

text \<open>Velocities of the MIDI range give gains in [0, 1.01).\<close>

theorem midiVelocityToGain_bounds:
  assumes "unat v \<le> 127"
  shows "0 \<le> midiVelocityToGain v \<and> midiVelocityToGain v < 1.01"
proof -
  have "real (unat v) * ln 10 \<le> 127 * 2.32"
    using assms ln_10_le by (intro mult_mono) simp_all
  then show ?thesis by (simp add: midiVelocityToGain_eq)
qed

subsection \<open>Volume\<close>

text \<open>
  Controller 7 values of the MIDI range give a master gain in [0, 1], with 0
  silent and 127 full scale.
\<close>

theorem controlVolumeToGain_range:
  "unat d \<le> 127 \<Longrightarrow>
     0 \<le> controlVolumeToGain d \<and> controlVolumeToGain d \<le> 1 \<and>
     controlVolumeToGain 0 = 0 \<and> controlVolumeToGain 127 = 1"
  by (simp add: controlVolumeToGain_def)

end
