(* ===== verification/Audio_Engine.thy ===== *)
theory Audio_Engine
  imports Synth_Prelude
begin

text \<open>
  The Web Audio objects the synthesiser uses, modelled from the interface the
  specification names (section 6) and the defaults of the Web Audio API: the engine is
  not code of this repository. Nodes live in a store addressed by \<open>node_id\<close>
  with a fresh-address counter; \<open>connect\<close> records an edge. An oscillator is a
  scheduled source with three playback states: \<open>start()\<close> on a started node and
  \<open>stop()\<close> on a node never started throw \<open>InvalidStateError\<close>; a second
  \<open>stop()\<close> is allowed. Creating a node gives the API defaults: a sine oscillator
  at 440 Hz, a gain of 1, a low-pass filter at 350 Hz with Q 1.
\<close>

datatype oscillator_type = Sine | Square | Sawtooth | Triangle

datatype filter_type = Lowpass | Highpass | Bandpass | Notch | Allpass

datatype playback = Unstarted | Started | Stopped

datatype audio_node =
    OscillatorNode oscillator_type real playback   \<comment> \<open>type, frequency.value, state\<close>
  | GainNode real                                  \<comment> \<open>gain.value\<close>
  | BiquadFilterNode filter_type real real         \<comment> \<open>type, frequency.value, Q.value\<close>

datatype audio_target = ToNode node_id | ToDestination

record audio_graph =
  nodes :: "node_id \<rightharpoonup> audio_node"
  next_node :: node_id
  edges :: "(node_id \<times> audio_target) set"

definition empty_graph :: audio_graph where
  "empty_graph = \<lparr>nodes = Map.empty, next_node = 0, edges = {}\<rparr>"

definition add_node :: "audio_node \<Rightarrow> audio_graph \<Rightarrow> node_id \<times> audio_graph" where
  "add_node n g =
     (next_node g, g\<lparr>nodes := (nodes g)(next_node g \<mapsto> n), next_node := Suc (next_node g)\<rparr>)"

definition ctx_createOscillator :: "audio_graph \<Rightarrow> node_id \<times> audio_graph" where
  "ctx_createOscillator g = add_node (OscillatorNode Sine 440 Unstarted) g"

definition ctx_createGain :: "audio_graph \<Rightarrow> node_id \<times> audio_graph" where
  "ctx_createGain g = add_node (GainNode 1) g"

definition ctx_createBiquadFilter :: "audio_graph \<Rightarrow> node_id \<times> audio_graph" where
  "ctx_createBiquadFilter g = add_node (BiquadFilterNode Lowpass 350 1) g"

definition node_connect :: "node_id \<Rightarrow> audio_target \<Rightarrow> audio_graph \<Rightarrow> audio_graph" where
  "node_connect i t g = g\<lparr>edges := insert (i, t) (edges g)\<rparr>"

definition update_node :: "node_id \<Rightarrow> (audio_node \<Rightarrow> audio_node) \<Rightarrow> audio_graph \<Rightarrow> audio_graph" where
  "update_node i f g = g\<lparr>nodes := (nodes g)(i := map_option f (nodes g i))\<rparr>"

text \<open>Attribute writers: each changes its own kind of node and leaves the others.\<close>

fun set_osc_type :: "oscillator_type \<Rightarrow> audio_node \<Rightarrow> audio_node" where
  "set_osc_type t (OscillatorNode _ f p) = OscillatorNode t f p"
| "set_osc_type t n = n"

fun set_osc_frequency :: "real \<Rightarrow> audio_node \<Rightarrow> audio_node" where
  "set_osc_frequency f (OscillatorNode t _ p) = OscillatorNode t f p"
| "set_osc_frequency f n = n"

fun set_gain_value :: "real \<Rightarrow> audio_node \<Rightarrow> audio_node" where
  "set_gain_value v (GainNode _) = GainNode v"
| "set_gain_value v n = n"

fun set_filter_type :: "filter_type \<Rightarrow> audio_node \<Rightarrow> audio_node" where
  "set_filter_type t (BiquadFilterNode _ f q) = BiquadFilterNode t f q"
| "set_filter_type t n = n"

fun set_filter_frequency :: "real \<Rightarrow> audio_node \<Rightarrow> audio_node" where
  "set_filter_frequency f (BiquadFilterNode t _ q) = BiquadFilterNode t f q"
| "set_filter_frequency f n = n"

fun set_filter_Q :: "real \<Rightarrow> audio_node \<Rightarrow> audio_node" where
  "set_filter_Q q (BiquadFilterNode t f _) = BiquadFilterNode t f q"
| "set_filter_Q q n = n"

definition osc_start :: "node_id \<Rightarrow> audio_graph \<Rightarrow> audio_graph js" where
  "osc_start i g =
     (case nodes g i of
        Some (OscillatorNode t f Unstarted) \<Rightarrow>
          Ret (g\<lparr>nodes := (nodes g)(i \<mapsto> OscillatorNode t f Started)\<rparr>)
      | _ \<Rightarrow> Throw InvalidStateError g)"

definition osc_stop :: "node_id \<Rightarrow> audio_graph \<Rightarrow> audio_graph js" where
  "osc_stop i g =
     (case nodes g i of
        Some (OscillatorNode t f Unstarted) \<Rightarrow> Throw InvalidStateError g
      | Some (OscillatorNode t f _) \<Rightarrow>
          Ret (g\<lparr>nodes := (nodes g)(i \<mapsto> OscillatorNode t f Stopped)\<rparr>)
      | _ \<Rightarrow> Throw TypeError g)"

text \<open>
  Well-formedness of the store: every allocated address is below the counter, so the
  next allocation is fresh.
\<close>

definition graph_wf :: "audio_graph \<Rightarrow> bool" where
  "graph_wf g \<longleftrightarrow> (\<forall>i \<in> dom (nodes g). i < next_node g)"

datatype node_kind = KOscillator | KGain | KFilter

fun kind_of :: "audio_node \<Rightarrow> node_kind" where
  "kind_of (OscillatorNode _ _ _) = KOscillator"
| "kind_of (GainNode _) = KGain"
| "kind_of (BiquadFilterNode _ _ _) = KFilter"

definition kind_at :: "audio_graph \<Rightarrow> node_id \<Rightarrow> node_kind option" where
  "kind_at g i = map_option kind_of (nodes g i)"

definition sounding :: "audio_graph \<Rightarrow> node_id set" where
  "sounding g = {i. \<exists>t f. nodes g i = Some (OscillatorNode t f Started)}"

text \<open>
  The signal chain the code builds has a type discipline: an oscillator feeds a gain
  stage, a gain stage feeds a gain stage or a filter, a filter feeds the destination.
  \<open>graph_typed\<close> says every connection of the store respects it (so no connection
  leaves or enters an unallocated address, and nothing feeds a source).
\<close>

definition edge_typed :: "audio_graph \<Rightarrow> node_id \<times> audio_target \<Rightarrow> bool" where
  "edge_typed g e \<longleftrightarrow>
     (case e of
        (i, ToNode j) \<Rightarrow>
          (kind_at g i = Some KOscillator \<and> kind_at g j = Some KGain) \<or>
          (kind_at g i = Some KGain \<and> (kind_at g j = Some KGain \<or> kind_at g j = Some KFilter))
      | (i, ToDestination) \<Rightarrow> kind_at g i = Some KFilter)"

definition graph_typed :: "audio_graph \<Rightarrow> bool" where
  "graph_typed g \<longleftrightarrow> (\<forall>e \<in> edges g. edge_typed g e)"

subsection \<open>Store lemmas\<close>

lemma add_node_fresh:
  "graph_wf g \<Longrightarrow> nodes g (next_node g) = None"
  by (auto simp: graph_wf_def)

lemma graph_wf_above: "graph_wf g \<Longrightarrow> next_node g \<le> i \<Longrightarrow> nodes g i = None"
  unfolding graph_wf_def by (metis domIff not_less)

lemma graph_wf_empty [simp]: "graph_wf empty_graph"
  by (simp add: graph_wf_def empty_graph_def)

lemma graph_wf_add_node:
  assumes "graph_wf g" and "add_node n g = (i, g')"
  shows "graph_wf g'"
proof -
  from assms(2) have "dom (nodes g') = insert (next_node g) (dom (nodes g))"
    and "next_node g' = Suc (next_node g)"
    by (auto simp: add_node_def)
  with assms(1) show ?thesis
    unfolding graph_wf_def by (metis insert_iff lessI less_SucI)
qed

lemma add_node_result:
  "add_node n g = (i, g') \<Longrightarrow>
     i = next_node g \<and> nodes g' = (nodes g)(i \<mapsto> n) \<and> edges g' = edges g \<and>
     next_node g' = Suc i"
  by (auto simp: add_node_def)

lemma graph_wf_update_node [simp]: "graph_wf (update_node i f g) = graph_wf g"
  by (auto simp: graph_wf_def update_node_def)

lemma graph_wf_node_connect [simp]: "graph_wf (node_connect i t g) = graph_wf g"
  by (simp add: graph_wf_def node_connect_def)

lemma nodes_update_node:
  "nodes (update_node i f g) j = (if j = i then map_option f (nodes g i) else nodes g j)"
  by (simp add: update_node_def)

lemma edges_update_node [simp]: "edges (update_node i f g) = edges g"
  by (simp add: update_node_def)

lemma next_node_update_node [simp]: "next_node (update_node i f g) = next_node g"
  by (simp add: update_node_def)

lemma nodes_node_connect [simp]: "nodes (node_connect i t g) = nodes g"
  by (simp add: node_connect_def)

lemma edges_node_connect [simp]: "edges (node_connect i t g) = insert (i, t) (edges g)"
  by (simp add: node_connect_def)

lemma next_node_node_connect [simp]: "next_node (node_connect i t g) = next_node g"
  by (simp add: node_connect_def)

lemma kind_of_setters [simp]:
  "kind_of (set_osc_type t n) = kind_of n" "kind_of (set_osc_frequency f n) = kind_of n"
  "kind_of (set_gain_value v n) = kind_of n" "kind_of (set_filter_type ft n) = kind_of n"
  "kind_of (set_filter_frequency f n) = kind_of n" "kind_of (set_filter_Q q n) = kind_of n"
  by (cases n; simp)+

lemma kind_at_update_node [simp]:
  "(\<And>n. kind_of (h n) = kind_of n) \<Longrightarrow> kind_at (update_node i h g) = kind_at g"
  by (rule ext) (simp add: kind_at_def update_node_def option.map_comp comp_def)

lemma kind_at_node_connect [simp]: "kind_at (node_connect i t g) = kind_at g"
  by (rule ext) (simp add: kind_at_def node_connect_def)

lemma osc_start_Ret:
  "osc_start i g = Ret g' \<longleftrightarrow>
     (\<exists>t f. nodes g i = Some (OscillatorNode t f Unstarted) \<and>
            g' = g\<lparr>nodes := (nodes g)(i \<mapsto> OscillatorNode t f Started)\<rparr>)"
  by (auto simp: osc_start_def split: option.splits audio_node.splits playback.splits)

lemma osc_stop_Ret:
  "osc_stop i g = Ret g' \<longleftrightarrow>
     (\<exists>t f p. nodes g i = Some (OscillatorNode t f p) \<and> p \<noteq> Unstarted \<and>
            g' = g\<lparr>nodes := (nodes g)(i \<mapsto> OscillatorNode t f Stopped)\<rparr>)"
  by (auto simp: osc_stop_def split: option.splits audio_node.splits playback.splits)

lemma kind_at_osc_start: "osc_start i g = Ret g' \<Longrightarrow> kind_at g' = kind_at g"
  by (auto simp: osc_start_Ret kind_at_def)

lemma kind_at_osc_stop: "osc_stop i g = Ret g' \<Longrightarrow> kind_at g' = kind_at g"
  by (auto simp: osc_stop_Ret kind_at_def)

lemma sounding_update_node:
  "kind_at g i \<noteq> Some KOscillator \<Longrightarrow> (\<And>n. kind_of (h n) = kind_of n) \<Longrightarrow>
   sounding (update_node i h g) = sounding g"
  by (auto simp: sounding_def kind_at_def nodes_update_node split: if_splits)
     (metis kind_of.simps(1) option.simps(9))+

lemma sounding_node_connect [simp]: "sounding (node_connect i t g) = sounding g"
  by (simp add: sounding_def)

subsection \<open>Typing of connections\<close>

lemma graph_typed_empty: "graph_typed empty_graph"
  by (simp add: graph_typed_def empty_graph_def)

lemma edge_typed_dom:
  "edge_typed g (i, t) \<Longrightarrow> i \<in> dom (nodes g) \<and> (\<forall>j. t = ToNode j \<longrightarrow> j \<in> dom (nodes g))"
  by (auto simp: edge_typed_def kind_at_def split: audio_target.splits)

lemma edge_typed_frame:
  assumes "edge_typed g e" and "\<And>i. i \<in> dom (nodes g) \<Longrightarrow> kind_at g' i = kind_at g i"
  shows "edge_typed g' e"
proof (cases e)
  case (Pair i t)
  with assms edge_typed_dom [of g i t] show ?thesis
    by (cases t) (auto simp: edge_typed_def)
qed

lemma graph_typed_extend:
  assumes "graph_typed g" and "\<And>i. i \<in> dom (nodes g) \<Longrightarrow> kind_at g' i = kind_at g i"
    and "edges g' = E \<union> edges g" and "\<And>e. e \<in> E \<Longrightarrow> edge_typed g' e"
  shows "graph_typed g'"
  using assms edge_typed_frame [OF _ assms(2)] unfolding graph_typed_def by blast

lemma graph_typed_kinds:
  "(\<And>i. kind_at g' i = kind_at g i) \<Longrightarrow> edges g' = edges g \<Longrightarrow> graph_typed g' = graph_typed g"
  by (auto simp: graph_typed_def edge_typed_def split: prod.splits audio_target.splits)

lemma graph_typed_update_node:
  "(\<And>n. kind_of (h n) = kind_of n) \<Longrightarrow> graph_typed (update_node i h g) = graph_typed g"
  by (rule graph_typed_kinds) (simp_all add: kind_at_update_node)

end
