(* ===== verification/Voice_Synth.thy ===== *)
theory Voice_Synth
  imports Midi_Decoder Param_Mappers Audio_Engine
begin

text \<open>
  The audio half of src/midiSynth.js: the globals \<open>audioContext\<close>,
  \<open>masterGainNode\<close>, \<open>masterFilter\<close> and \<open>pressedKeys\<close> (lines 5--10) as the
  record \<open>synth\<close>, the Web Audio store as its field \<open>audio\<close>, and the functions
  \<open>createAudio\<close>, \<open>createFilter\<close>, \<open>playNote\<close>, \<open>stopNote\<close>,
  \<open>createOscillator\<close>, \<open>createGain\<close>, \<open>setMasterGain\<close>,
  \<open>setMasterFilterFreq\<close> and \<open>onMidiMessage\<close> (lines 82--210), one definition
  each. The voice registry of the specification is \<open>pressedKeys\<close>; the master
  channel is the pair of master nodes. \<open>onMidiMessage_chain\<close> is the
  \<open>else if\<close> variant of the handler in src/unnamed/part_000 (lines 86--114 and
  548--576), \<open>createFilter_class\<close> the class variant of \<open>createFilter\<close>
  (lines 618--624). Handlers that may throw return \<open>synth js\<close>.
\<close>

record synth =
  audio :: audio_graph
  audioContext :: bool
  masterGainNode :: "node_id option"
  masterFilter :: "node_id option"
  pressedKeys :: "byte \<rightharpoonup> node_id"

definition synth_init :: synth where
  "synth_init = \<lparr>audio = empty_graph, audioContext = False, masterGainNode = None,
                 masterFilter = None, pressedKeys = Map.empty\<rparr>"

text \<open>
  \<open>createFilter\<close> of midiSynth.js assigns \<open>filter.frequency = 1000\<close> and
  \<open>filter.Q = 8\<close>. Both are read-only \<open>AudioParam\<close> attributes, and the
  script is not in strict mode, so the assignments are silently dropped: only the type
  is written. The class variant writes \<open>frequency.value\<close> and \<open>Q.value\<close>.
\<close>

definition createFilter :: "audio_graph \<Rightarrow> node_id \<times> audio_graph" where
  "createFilter g =
     (let (filter, g1) = ctx_createBiquadFilter g
      in (filter, update_node filter (set_filter_type Lowpass) g1))"

definition createFilter_class :: "audio_graph \<Rightarrow> node_id \<times> audio_graph" where
  "createFilter_class g =
     (let (filter, g1) = ctx_createBiquadFilter g;
          g2 = update_node filter (set_filter_type Lowpass) g1;
          g3 = update_node filter (set_filter_frequency 1000) g2
      in (filter, update_node filter (set_filter_Q 8) g3))"

text \<open>
  \<open>createAudio\<close>: without an \<open>AudioContext\<close> constructor the function logs and
  returns; otherwise it creates the master gain at 0.5 and the filter and chains
  master gain, filter and destination.
\<close>

definition createAudio :: "bool \<Rightarrow> synth \<Rightarrow> synth" where
  "createAudio has_ctor s =
     (if \<not> has_ctor then s
      else
        (let (master, g1) = ctx_createGain (audio s);
             g2 = update_node master (set_gain_value 0.5) g1;
             (filter, g3) = createFilter g2;
             g4 = node_connect master (ToNode filter) g3;
             g5 = node_connect filter ToDestination g4
         in s\<lparr>audio := g5, audioContext := True, masterGainNode := Some master,
              masterFilter := Some filter\<rparr>))"

definition createOscillator :: "real \<Rightarrow> audio_graph \<Rightarrow> node_id \<times> audio_graph" where
  "createOscillator frequency g =
     (let (osc, g1) = ctx_createOscillator g;
          g2 = update_node osc (set_osc_type Square) g1
      in (osc, update_node osc (set_osc_frequency frequency) g2))"

text \<open>
  \<open>createGain\<close> connects the new node to the global \<open>masterGainNode\<close>; when that
  global is unset, \<open>connect(undefined)\<close> throws a \<open>TypeError\<close> after the node was
  created.
\<close>

definition createGain :: "real \<Rightarrow> node_id option \<Rightarrow> audio_graph \<Rightarrow> (node_id \<times> audio_graph) js" where
  "createGain value master g =
     (let (gainNode, g1) = ctx_createGain g
      in case master of
           None \<Rightarrow> Throw TypeError (gainNode, g1)
         | Some m \<Rightarrow>
             Ret (gainNode, update_node gainNode (set_gain_value value)
                              (node_connect gainNode (ToNode m) g1)))"

text \<open>
  \<open>playNote\<close>: the entry \<open>pressedKeys[note] = osc\<close> is written before
  \<open>osc.start()\<close>, so a throwing start leaves it in place.
\<close>

definition playNote :: "byte \<Rightarrow> byte \<Rightarrow> synth \<Rightarrow> synth js" where
  "playNote note velocity s =
     (if \<not> audioContext s then Ret s
      else
        (let freq = midiNoteToFreq note;
             (osc, g1) = createOscillator freq (audio s);
             gainVal = midiVelocityToGain velocity
         in case createGain gainVal (masterGainNode s) g1 of
              Throw e (_, g2) \<Rightarrow> Throw e (s\<lparr>audio := g2\<rparr>)
            | Ret (gainNode, g2) \<Rightarrow>
                (let g3 = node_connect osc (ToNode gainNode) g2;
                     s3 = s\<lparr>audio := g3, pressedKeys := (pressedKeys s)(note \<mapsto> osc)\<rparr>
                 in case osc_start osc g3 of
                      Throw e g4 \<Rightarrow> Throw e (s3\<lparr>audio := g4\<rparr>)
                    | Ret g4 \<Rightarrow> Ret (s3\<lparr>audio := g4\<rparr>))))"

definition stopNote :: "byte \<Rightarrow> synth \<Rightarrow> synth js" where
  "stopNote note s =
     (case pressedKeys s note of
        None \<Rightarrow> Ret s
      | Some osc \<Rightarrow>
          (case osc_stop osc (audio s) of
             Throw e g \<Rightarrow> Throw e (s\<lparr>audio := g\<rparr>)
           | Ret g \<Rightarrow> Ret (s\<lparr>audio := g, pressedKeys := (pressedKeys s)(note := None)\<rparr>)))"

definition setMasterGain :: "real \<Rightarrow> synth \<Rightarrow> synth" where
  "setMasterGain value s =
     (case masterGainNode s of
        None \<Rightarrow> s
      | Some m \<Rightarrow> s\<lparr>audio := update_node m (set_gain_value value) (audio s)\<rparr>)"

definition setMasterFilterFreq :: "byte \<Rightarrow> synth \<Rightarrow> synth" where
  "setMasterFilterFreq data s =
     (case masterFilter s of
        None \<Rightarrow> s
      | Some f \<Rightarrow> s\<lparr>audio := update_node f (set_filter_frequency (pitchBendToFilterFreq data)) (audio s)\<rparr>)"

text \<open>
  The \<open>switch (data1)\<close> of the control-change branch: controller 1 (modulation)
  breaks, controller 7 (volume) sets the master gain, others fall through.
\<close>

definition controlChange :: "byte \<Rightarrow> byte \<Rightarrow> synth \<Rightarrow> synth" where
  "controlChange data1 data2 s =
     (if data1 = 1 then s
      else if data1 = 7 then setMasterGain (controlVolumeToGain data2) s
      else s)"

text \<open>
  \<open>onMidiMessage\<close> of midiSynth.js tests the four cases in four independent
  \<open>if\<close> statements, each run on the state the previous one left.
\<close>

definition onMidiMessage :: "byte \<Rightarrow> byte \<Rightarrow> byte \<Rightarrow> synth \<Rightarrow> synth js" where
  "onMidiMessage statusByte data1 data2 s =
     js_bind (if isNoteOn statusByte then playNote data1 data2 s else Ret s) (\<lambda>s1.
     js_bind (if isNoteOff statusByte then stopNote data1 s1 else Ret s1) (\<lambda>s2.
     (let s3 = (if statusByte = 176 then controlChange data1 data2 s2 else s2)
      in Ret (if statusByte = 224 then setMasterFilterFreq data2 s3 else s3))))"

definition onMidiMessage_chain :: "byte \<Rightarrow> byte \<Rightarrow> byte \<Rightarrow> synth \<Rightarrow> synth js" where
  "onMidiMessage_chain statusByte data1 data2 s =
     (if isNoteOn statusByte then playNote data1 data2 s
      else if isNoteOff statusByte then stopNote data1 s
      else if statusByte = 176 then Ret (controlChange data1 data2 s)
      else if statusByte = 224 then Ret (setMasterFilterFreq data2 s)
      else Ret s)"

text \<open>
  The per-event contract of the specification's session controller (section 4.5),
  over the decoded event: the abstract dispatch the handlers refine.
\<close>

fun handle_event :: "midi_event \<Rightarrow> synth \<Rightarrow> synth js" where
  "handle_event (NoteOn n v) s = playNote n v s"
| "handle_event (NoteOff n) s = stopNote n s"
| "handle_event (ControlChange c v) s =
     Ret (if c = 7 then setMasterGain (controlVolumeToGain v) s else s)"
| "handle_event (PitchBend v) s = Ret (setMasterFilterFreq v s)"
| "handle_event Other s = Ret s"

subsection \<open>The invariant\<close>

text \<open>
  A registered voice is a started square oscillator at its note's frequency whose output
  reaches the master gain through a gain stage; the master gain feeds the filter and the
  filter the destination. While the audio context is unset no voice and no master node
  exist; \<open>pressedKeys\<close> never maps two notes to one oscillator.
\<close>

definition voice_ok :: "audio_graph \<Rightarrow> node_id \<Rightarrow> byte \<Rightarrow> node_id \<Rightarrow> bool" where
  "voice_ok g m note osc \<longleftrightarrow>
     nodes g osc = Some (OscillatorNode Square (midiNoteToFreq note) Started) \<and>
     (\<exists>gn. (osc, ToNode gn) \<in> edges g \<and> (gn, ToNode m) \<in> edges g)"

definition master_ok :: "audio_graph \<Rightarrow> node_id \<Rightarrow> node_id \<Rightarrow> bool" where
  "master_ok g m f \<longleftrightarrow> kind_at g m = Some KGain \<and> kind_at g f = Some KFilter \<and>
     (m, ToNode f) \<in> edges g \<and> (f, ToDestination) \<in> edges g"

definition synth_inv :: "synth \<Rightarrow> bool" where
  "synth_inv s \<longleftrightarrow>
     graph_wf (audio s) \<and> inj_on (pressedKeys s) (dom (pressedKeys s)) \<and>
     (if audioContext s
      then (\<exists>m f. masterGainNode s = Some m \<and> masterFilter s = Some f \<and>
                  master_ok (audio s) m f \<and>
                  (\<forall>note osc. pressedKeys s note = Some osc \<longrightarrow> voice_ok (audio s) m note osc))
      else pressedKeys s = Map.empty \<and> masterGainNode s = None \<and> masterFilter s = None)"

text \<open>
  No leak: the sounding oscillators are exactly the registered ones.
\<close>

definition leak_free :: "synth \<Rightarrow> bool" where
  "leak_free s \<longleftrightarrow> sounding (audio s) = ran (pressedKeys s)"

subsection \<open>Exact effects of the operations\<close>

lemma playNote_running:
  assumes "audioContext s" and "masterGainNode s = Some m" and "graph_wf (audio s)"
  defines "osc \<equiv> next_node (audio s)"
  shows "playNote note velocity s =
    Ret (s\<lparr>audio := (audio s)\<lparr>
              nodes := (nodes (audio s))(osc \<mapsto> OscillatorNode Square (midiNoteToFreq note) Started,
                                         Suc osc \<mapsto> GainNode (midiVelocityToGain velocity)),
              next_node := Suc (Suc osc),
              edges := insert (osc, ToNode (Suc osc)) (insert (Suc osc, ToNode m) (edges (audio s)))\<rparr>,
           pressedKeys := (pressedKeys s)(note \<mapsto> osc)\<rparr>)"
  using assms add_node_fresh [OF assms(3)]
  by (simp add: playNote_def createOscillator_def createGain_def ctx_createOscillator_def
      ctx_createGain_def add_node_def update_node_def node_connect_def osc_start_def fun_upd_twist)


lemma stopNote_held:
  assumes "pressedKeys s note = Some osc"
    and "nodes (audio s) osc = Some (OscillatorNode t f Started)"
  shows "stopNote note s =
    Ret (s\<lparr>audio := (audio s)\<lparr>nodes := (nodes (audio s))(osc \<mapsto> OscillatorNode t f Stopped)\<rparr>,
           pressedKeys := (pressedKeys s)(note := None)\<rparr>)"
  using assms by (simp add: stopNote_def osc_stop_def)

lemma stopNote_free: "pressedKeys s note = None \<Longrightarrow> stopNote note s = Ret s"
  by (simp add: stopNote_def)

lemma createAudio_running:
  fixes s :: synth
  defines "m \<equiv> next_node (audio s)"
  shows "createAudio True s =
    s\<lparr>audio := (audio s)\<lparr>
         nodes := (nodes (audio s))(m \<mapsto> GainNode 0.5, Suc m \<mapsto> BiquadFilterNode Lowpass 350 1),
         next_node := Suc (Suc m),
         edges := insert (Suc m, ToDestination) (insert (m, ToNode (Suc m)) (edges (audio s)))\<rparr>,
       audioContext := True, masterGainNode := Some m, masterFilter := Some (Suc m)\<rparr>"
  by (simp add: m_def createAudio_def createFilter_def ctx_createGain_def ctx_createBiquadFilter_def
      add_node_def update_node_def node_connect_def fun_upd_twist)

subsection \<open>Frame lemmas\<close>

lemma voice_ok_dom: "voice_ok g m note osc \<Longrightarrow> osc \<in> dom (nodes g)"
  by (auto simp: voice_ok_def)

lemma master_ok_dom: "master_ok g m f \<Longrightarrow> m \<in> dom (nodes g) \<and> f \<in> dom (nodes g)"
  by (auto simp: master_ok_def kind_at_def)

lemma voice_ok_mono:
  "voice_ok g m note osc \<Longrightarrow> nodes g' osc = nodes g osc \<Longrightarrow> edges g \<subseteq> edges g' \<Longrightarrow>
   voice_ok g' m note osc"
  by (auto simp: voice_ok_def)

lemma master_ok_mono:
  "master_ok g m f \<Longrightarrow> kind_at g' m = kind_at g m \<Longrightarrow> kind_at g' f = kind_at g f \<Longrightarrow>
   edges g \<subseteq> edges g' \<Longrightarrow> master_ok g' m f"
  by (auto simp: master_ok_def)

lemma voice_ok_kind: "voice_ok g m note osc \<Longrightarrow> kind_at g osc = Some KOscillator"
  by (simp add: voice_ok_def kind_at_def)

lemma ran_below_next:
  assumes "graph_wf g" and "\<forall>note osc. keys note = Some osc \<longrightarrow> voice_ok g m note osc"
  shows "next_node g \<notin> ran keys"
proof
  assume "next_node g \<in> ran keys"
  then obtain k where "keys k = Some (next_node g)" by (auto simp: ran_def)
  with assms(2) have "next_node g \<in> dom (nodes g)" by (blast dest: voice_ok_dom)
  with assms(1) show False by (auto simp: graph_wf_def)
qed


lemma synth_inv_running:
  "synth_inv s \<Longrightarrow> audioContext s \<Longrightarrow>
     \<exists>m f. masterGainNode s = Some m \<and> masterFilter s = Some f \<and> master_ok (audio s) m f \<and>
       (\<forall>k osc. pressedKeys s k = Some osc \<longrightarrow> voice_ok (audio s) m k osc)"
  by (simp add: synth_inv_def)

lemma synth_inv_idle:
  "synth_inv s \<Longrightarrow> \<not> audioContext s \<Longrightarrow>
     pressedKeys s = Map.empty \<and> masterGainNode s = None \<and> masterFilter s = None"
  by (simp add: synth_inv_def)

lemma synth_inv_frame:
  assumes inv: "synth_inv s" and run: "audioContext s"
    and wf: "graph_wf g'" and E: "edges (audio s) \<subseteq> edges g'"
    and K: "\<And>i. i \<in> dom (nodes (audio s)) \<Longrightarrow> kind_at g' i = kind_at (audio s) i"
    and V: "\<And>i. i \<in> ran (pressedKeys s) \<Longrightarrow> nodes g' i = nodes (audio s) i"
  shows "synth_inv (s\<lparr>audio := g'\<rparr>)"
proof -
  obtain m f where m: "masterGainNode s = Some m" and f: "masterFilter s = Some f"
    and mo: "master_ok (audio s) m f"
    and vo: "\<forall>k osc. pressedKeys s k = Some osc \<longrightarrow> voice_ok (audio s) m k osc"
    using synth_inv_running [OF inv run] by blast
  have "master_ok g' m f"
    using mo K [of m] K [of f] master_ok_dom [OF mo] E by (auto intro: master_ok_mono)
  moreover have "voice_ok g' m k osc" if "pressedKeys s k = Some osc" for k osc
    using vo that V [of osc] E by (auto intro: voice_ok_mono ranI)
  ultimately show ?thesis
    using inv run m f wf by (auto simp: synth_inv_def)
qed

lemma synth_inv_add_voice:
  assumes inv: "synth_inv s" and run: "audioContext s" and m: "masterGainNode s = Some m"
    and fresh: "osc \<notin> ran (pressedKeys s)" and ok: "voice_ok (audio s) m k osc"
  shows "synth_inv (s\<lparr>pressedKeys := (pressedKeys s)(k \<mapsto> osc)\<rparr>)"
  using inv run m fresh ok inj_on_dom_upd_fresh [of "pressedKeys s" osc k]
  by (auto simp: synth_inv_def)

lemma synth_inv_delete_key:
  "synth_inv s \<Longrightarrow> synth_inv (s\<lparr>pressedKeys := (pressedKeys s)(k := None)\<rparr>)"
  by (auto simp: synth_inv_def)


lemma synth_inv_update_node:
  assumes inv: "synth_inv s" and run: "audioContext s" and i: "i \<notin> ran (pressedKeys s)"
    and h: "\<And>n. kind_of (h n) = kind_of n"
  shows "synth_inv (s\<lparr>audio := update_node i h (audio s)\<rparr>)"
proof (rule synth_inv_frame [OF inv run])
  show "graph_wf (update_node i h (audio s))"
    using inv by (simp add: synth_inv_def)
  show "nodes (update_node i h (audio s)) j = nodes (audio s) j" if "j \<in> ran (pressedKeys s)" for j
    using i that by (auto simp: nodes_update_node)
qed (simp_all add: h)

lemma master_not_voice:
  assumes inv: "synth_inv s" and run: "audioContext s"
  shows "the (masterGainNode s) \<notin> ran (pressedKeys s) \<and> the (masterFilter s) \<notin> ran (pressedKeys s)"
proof -
  obtain m f where m: "masterGainNode s = Some m" and f: "masterFilter s = Some f"
    and mo: "master_ok (audio s) m f"
    and vo: "\<forall>k osc. pressedKeys s k = Some osc \<longrightarrow> voice_ok (audio s) m k osc"
    using synth_inv_running [OF inv run] by blast
  have "kind_at (audio s) osc = Some KOscillator" if "osc \<in> ran (pressedKeys s)" for osc
    using that vo by (auto simp: ran_def intro: voice_ok_kind)
  with mo m f show ?thesis by (auto simp: master_ok_def)
qed

lemma synth_inv_setMasterGain: "synth_inv s \<Longrightarrow> synth_inv (setMasterGain v s)"
  using master_not_voice [of s] synth_inv_update_node [of s "the (masterGainNode s)"]
  by (cases "audioContext s") (auto simp: setMasterGain_def synth_inv_def split: option.splits)

lemma synth_inv_setMasterFilterFreq: "synth_inv s \<Longrightarrow> synth_inv (setMasterFilterFreq d s)"
  using master_not_voice [of s] synth_inv_update_node [of s "the (masterFilter s)"]
  by (cases "audioContext s") (auto simp: setMasterFilterFreq_def synth_inv_def split: option.splits)

lemma synth_inv_controlChange: "synth_inv s \<Longrightarrow> synth_inv (controlChange c v s)"
  by (simp add: controlChange_def synth_inv_setMasterGain)


lemma synth_inv_playNote:
  assumes inv: "synth_inv s"
  shows "\<exists>s'. playNote note velocity s = Ret s' \<and> synth_inv s'"
proof (cases "audioContext s")
  case False
  then show ?thesis using inv by (simp add: playNote_def)
next
  case run: True
  obtain m f where m: "masterGainNode s = Some m"
    and vo: "\<forall>k osc. pressedKeys s k = Some osc \<longrightarrow> voice_ok (audio s) m k osc"
    using synth_inv_running [OF inv run] by blast
  have wf: "graph_wf (audio s)" using inv by (simp add: synth_inv_def)
  define osc where "osc = next_node (audio s)"
  define g' where "g' = (audio s)\<lparr>
    nodes := (nodes (audio s))(osc \<mapsto> OscillatorNode Square (midiNoteToFreq note) Started,
                               Suc osc \<mapsto> GainNode (midiVelocityToGain velocity)),
    next_node := Suc (Suc osc),
    edges := insert (osc, ToNode (Suc osc)) (insert (Suc osc, ToNode m) (edges (audio s)))\<rparr>"
  have play: "playNote note velocity s =
      Ret (s\<lparr>audio := g', pressedKeys := (pressedKeys s)(note \<mapsto> osc)\<rparr>)"
    unfolding g'_def osc_def by (rule playNote_running [OF run m wf])
  have below: "i < osc" if "i \<in> dom (nodes (audio s))" for i
    using wf that by (auto simp: graph_wf_def osc_def)
  have inv1: "synth_inv (s\<lparr>audio := g'\<rparr>)"
  proof (rule synth_inv_frame [OF inv run])
    show "graph_wf g'"
      using below [OF domI] by (fastforce simp: graph_wf_def g'_def)
    show "edges (audio s) \<subseteq> edges g'" by (auto simp: g'_def)
    show "kind_at g' i = kind_at (audio s) i" if "i \<in> dom (nodes (audio s))" for i
      using below [OF that] by (simp add: kind_at_def g'_def)
    show "nodes g' i = nodes (audio s) i" if "i \<in> ran (pressedKeys s)" for i
    proof -
      from that vo have "i \<in> dom (nodes (audio s))" by (auto simp: ran_def dest: voice_ok_dom)
      then have "i < osc" by (rule below)
      then show ?thesis by (simp add: g'_def)
    qed
  qed
  have "voice_ok g' m note osc" by (auto simp: voice_ok_def g'_def)
  moreover have "osc \<notin> ran (pressedKeys s)"
    unfolding osc_def by (rule ran_below_next [OF wf vo])
  ultimately have "synth_inv (s\<lparr>audio := g', pressedKeys := (pressedKeys s)(note \<mapsto> osc)\<rparr>)"
    using synth_inv_add_voice [OF inv1] run m by simp
  with play show ?thesis by blast
qed

lemma synth_inv_stopNote:
  assumes inv: "synth_inv s"
  shows "\<exists>s'. stopNote note s = Ret s' \<and> synth_inv s'"
proof (cases "pressedKeys s note")
  case None
  then show ?thesis using inv by (simp add: stopNote_free)
next
  case (Some osc)
  with inv have run: "audioContext s" by (auto simp: synth_inv_def split: if_splits)
  obtain m f where "\<forall>k osc. pressedKeys s k = Some osc \<longrightarrow> voice_ok (audio s) m k osc"
    using synth_inv_running [OF inv run] by blast
  with Some have v: "voice_ok (audio s) m note osc" by blast
  define g' where
    "g' = (audio s)\<lparr>nodes := (nodes (audio s))(osc \<mapsto> OscillatorNode Square (midiNoteToFreq note) Stopped)\<rparr>"
  have stop: "stopNote note s = Ret (s\<lparr>audio := g', pressedKeys := (pressedKeys s)(note := None)\<rparr>)"
    using stopNote_held [OF Some] v by (simp add: voice_ok_def g'_def)
  let ?s1 = "s\<lparr>pressedKeys := (pressedKeys s)(note := None)\<rparr>"
  have inv1: "synth_inv ?s1" by (rule synth_inv_delete_key [OF inv])
  have notin: "osc \<notin> ran ((pressedKeys s)(note := None))"
    using inv Some by (simp add: synth_inv_def ran_delete_inj)
  have "synth_inv (?s1\<lparr>audio := g'\<rparr>)"
  proof (rule synth_inv_frame [OF inv1])
    show "audioContext ?s1" using run by simp
    show "graph_wf g'"
      using inv voice_ok_dom [OF v] by (auto simp: synth_inv_def graph_wf_def g'_def)
    show "kind_at g' i = kind_at (audio ?s1) i" for i
      using voice_ok_kind [OF v] by (auto simp: kind_at_def g'_def)
    show "nodes g' i = nodes (audio ?s1) i" if "i \<in> ran (pressedKeys ?s1)" for i
      using notin that by (auto simp: g'_def)
  qed (simp add: g'_def)
  with stop show ?thesis by (cases s) simp
qed


lemma synth_inv_init: "synth_inv synth_init"
  by (simp add: synth_inv_def synth_init_def)

subsection \<open>The message handler\<close>

lemma synth_inv_onMidiMessage:
  assumes "synth_inv s"
  shows "\<exists>s'. onMidiMessage statusByte data1 data2 s = Ret s' \<and> synth_inv s'"
proof -
  obtain s1 where s1: "(if isNoteOn statusByte then playNote data1 data2 s else Ret s) = Ret s1"
    and i1: "synth_inv s1"
    using synth_inv_playNote [OF assms, of data1 data2] assms by (cases "isNoteOn statusByte") auto
  obtain s2 where s2: "(if isNoteOff statusByte then stopNote data1 s1 else Ret s1) = Ret s2"
    and i2: "synth_inv s2"
    using synth_inv_stopNote [OF i1, of data1] i1 by (cases "isNoteOff statusByte") auto
  have "synth_inv (if statusByte = 224 then setMasterFilterFreq data2
           (if statusByte = 176 then controlChange data1 data2 s2 else s2)
         else (if statusByte = 176 then controlChange data1 data2 s2 else s2))"
    using i2 by (simp add: synth_inv_controlChange synth_inv_setMasterFilterFreq)
  with s1 s2 show ?thesis by (simp add: onMidiMessage_def Let_def)
qed

lemma onMidiMessage_handle_event:
  "onMidiMessage statusByte data1 data2 s = handle_event (decode statusByte data1 data2) s"
  using status_classes_disjoint [of statusByte]
  by (cases "isNoteOn statusByte"; cases "isNoteOff statusByte")
     (auto simp: onMidiMessage_def decode_def controlChange_def)

lemma onMidiMessage_idle:
  assumes "synth_inv s" and "\<not> audioContext s"
  shows "onMidiMessage statusByte data1 data2 s = Ret s"
  using synth_inv_idle [OF assms]  assms(2)
  by (simp add: onMidiMessage_def playNote_def stopNote_def controlChange_def
      setMasterGain_def setMasterFilterFreq_def)

text \<open>
  The four independent \<open>if\<close> statements of midiSynth.js and the
  \<open>else if\<close> chain of the other variants compute the same handler: no status byte
  falls into two branches.
\<close>

lemma onMidiMessage_chain_equiv:
  "onMidiMessage statusByte data1 data2 s = onMidiMessage_chain statusByte data1 data2 s"
  using status_classes_disjoint [of statusByte]
  by (cases "isNoteOn statusByte"; cases "isNoteOff statusByte")
     (auto simp: onMidiMessage_def onMidiMessage_chain_def)


lemma onMidiMessage_chain_handle_event:
  "onMidiMessage_chain statusByte data1 data2 s = handle_event (decode statusByte data1 data2) s"
  using status_classes_disjoint [of statusByte]
  by (cases "isNoteOn statusByte"; cases "isNoteOff statusByte")
     (auto simp: onMidiMessage_chain_def decode_def controlChange_def)

text \<open>
  C3: Both handler variants refine the typed dispatch of the specification:
  decoding the status byte and running the decoded event's action (NoteOn plays the note,
  NoteOff stops it, controller 7 sets the master gain, pitch bend sets the cutoff, all
  else is ignored) is exactly what \<open>onMidiMessage\<close> and
  \<open>onMidiMessage_chain\<close> do, for every byte triple and every state.
\<close>

theorem onMidiMessage_refinement:
  "onMidiMessage statusByte data1 data2 s = handle_event (decode statusByte data1 data2) s \<and>
   onMidiMessage_chain statusByte data1 data2 s = handle_event (decode statusByte data1 data2) s"
  by (simp add: onMidiMessage_handle_event onMidiMessage_chain_handle_event)

subsection \<open>Effects of each kind of message\<close>

lemma synth_inv_createAudio:
  assumes inv: "synth_inv s" and idle: "\<not> audioContext s"
  shows "synth_inv (createAudio has_ctor s)"
proof (cases has_ctor)
  case False
  then show ?thesis using inv by (simp add: createAudio_def)
next
  case True
  have wf: "graph_wf (audio s)" and keys: "pressedKeys s = Map.empty"
    using inv idle by (simp_all add: synth_inv_def)
  have "i < next_node (audio s)" if "nodes (audio s) i = Some n" for i n
    using wf that by (auto simp: graph_wf_def)
  then show ?thesis
    using True keys by (fastforce simp: createAudio_running synth_inv_def graph_wf_def master_ok_def kind_at_def)
qed

lemma sounding_playNote:
  assumes "synth_inv s" and "audioContext s" and "playNote note velocity s = Ret s'"
  shows "sounding (audio s') = insert (next_node (audio s)) (sounding (audio s)) \<and>
         pressedKeys s' = (pressedKeys s)(note \<mapsto> next_node (audio s))"
proof -
  obtain m f where m: "masterGainNode s = Some m"
    using synth_inv_running [OF assms(1,2)] by blast
  have wf: "graph_wf (audio s)" using assms(1) by (simp add: synth_inv_def)
  show ?thesis
    using assms(3) playNote_running [OF assms(2) m wf] graph_wf_above [OF wf, of "Suc (next_node (audio s))"]
    by (auto simp: sounding_def split: if_splits)
qed

lemma sounding_stopNote:
  assumes "synth_inv s" and "pressedKeys s note = Some osc" and "stopNote note s = Ret s'"
  shows "sounding (audio s') = sounding (audio s) - {osc} \<and>
         pressedKeys s' = (pressedKeys s)(note := None)"
proof -
  have run: "audioContext s" using assms(1,2) by (auto simp: synth_inv_def split: if_splits)
  obtain m f where "\<forall>k osc. pressedKeys s k = Some osc \<longrightarrow> voice_ok (audio s) m k osc"
    using synth_inv_running [OF assms(1) run] by blast
  with assms(2) have "nodes (audio s) osc = Some (OscillatorNode Square (midiNoteToFreq note) Started)"
    by (auto simp: voice_ok_def)
  with assms(2,3) show ?thesis
    by (auto simp: stopNote_held sounding_def split: if_splits)
qed


lemma master_kinds:
  assumes "synth_inv s" and "audioContext s"
  shows "kind_at (audio s) (the (masterGainNode s)) = Some KGain \<and>
         kind_at (audio s) (the (masterFilter s)) = Some KFilter"
  using synth_inv_running [OF assms] by (auto simp: master_ok_def)

lemma sounding_masters:
  assumes "synth_inv s"
  shows "sounding (audio (setMasterGain v s)) = sounding (audio s)"
    and "sounding (audio (setMasterFilterFreq d s)) = sounding (audio s)"
  using assms master_kinds [OF assms]
  by (cases "audioContext s";
      auto simp: setMasterGain_def setMasterFilterFreq_def synth_inv_def sounding_update_node
           split: option.splits)+

lemma onMidiMessage_transition:
  assumes inv: "synth_inv s" and step: "onMidiMessage statusByte data1 data2 s = Ret s'"
  shows "(sounding (audio s') = sounding (audio s) \<and> pressedKeys s' = pressedKeys s)
       \<or> (isNoteOn statusByte \<and> audioContext s \<and>
          sounding (audio s') = insert (next_node (audio s)) (sounding (audio s)) \<and>
          pressedKeys s' = (pressedKeys s)(data1 \<mapsto> next_node (audio s)))
       \<or> (isNoteOff statusByte \<and> (\<exists>osc. pressedKeys s data1 = Some osc \<and>
          sounding (audio s') = sounding (audio s) - {osc} \<and>
          pressedKeys s' = (pressedKeys s)(data1 := None)))"
proof -
  have h: "handle_event (decode statusByte data1 data2) s = Ret s'"
    using step by (simp add: onMidiMessage_handle_event)
  show ?thesis
  proof (cases "decode statusByte data1 data2")
    case (NoteOn n v)
    then have on: "isNoteOn statusByte" and n: "n = data1"
      by (auto simp: decode_def split: if_splits)
    show ?thesis
    proof (cases "audioContext s")
      case True
      with NoteOn h n on sounding_playNote [OF inv True] show ?thesis by simp
    next
      case False
      with NoteOn h show ?thesis by (simp add: playNote_def)
    qed
  next
    case (NoteOff n)
    then have off: "isNoteOff statusByte" and n: "n = data1"
      by (auto simp: decode_def split: if_splits)
    show ?thesis
    proof (cases "pressedKeys s n")
      case None
      with NoteOff h show ?thesis by (simp add: stopNote_free)
    next
      case (Some osc)
      with NoteOff h n off sounding_stopNote [OF inv Some] show ?thesis by simp
    qed
  qed (use h sounding_masters [OF inv] in \<open>auto simp: setMasterGain_def setMasterFilterFreq_def
         split: if_splits option.splits\<close>)
qed


lemma fresh_not_sounding:
  "synth_inv s \<Longrightarrow> next_node (audio s) \<notin> sounding (audio s)"
  by (auto simp: synth_inv_def sounding_def graph_wf_above)

lemma sounding_below: "synth_inv s \<Longrightarrow> osc \<in> sounding (audio s) \<Longrightarrow> osc \<noteq> next_node (audio s)"
  using fresh_not_sounding by blast

text \<open>
  C8: Every message keeps the sounding oscillators equal to the registered ones,
  except a NoteOn for a note that is already held.
\<close>

theorem onMidiMessage_leak_free:
  assumes inv: "synth_inv s" and lf: "leak_free s"
    and step: "onMidiMessage statusByte data1 data2 s = Ret s'"
    and unheld: "isNoteOn statusByte \<and> audioContext s \<longrightarrow> pressedKeys s data1 = None"
  shows "leak_free s'"
proof -
  have inj: "inj_on (pressedKeys s) (dom (pressedKeys s))"
    using inv by (simp add: synth_inv_def)
  from onMidiMessage_transition [OF inv step] show ?thesis
  proof (elim disjE conjE exE)
    assume "sounding (audio s') = sounding (audio s)" "pressedKeys s' = pressedKeys s"
    with lf show ?thesis by (simp add: leak_free_def)
  next
    assume "isNoteOn statusByte" "audioContext s"
      "sounding (audio s') = insert (next_node (audio s)) (sounding (audio s))"
      "pressedKeys s' = (pressedKeys s)(data1 \<mapsto> next_node (audio s))"
    with lf unheld show ?thesis by (simp add: leak_free_def)
  next
    fix osc
    assume "pressedKeys s data1 = Some osc"
      "sounding (audio s') = sounding (audio s) - {osc}"
      "pressedKeys s' = (pressedKeys s)(data1 := None)"
    with lf inj show ?thesis by (simp add: leak_free_def ran_delete_inj)
  qed
qed

text \<open>
  C9: An oscillator that sounds but is no longer registered keeps sounding after any
  message: no handler can ever stop it.
\<close>

theorem orphan_keeps_sounding:
  assumes inv: "synth_inv s" and snd: "osc \<in> sounding (audio s)"
    and orphan: "osc \<notin> ran (pressedKeys s)"
    and step: "onMidiMessage statusByte data1 data2 s = Ret s'"
  shows "osc \<in> sounding (audio s') \<and> osc \<notin> ran (pressedKeys s')"
proof -
  have new: "osc \<noteq> next_node (audio s)" using sounding_below [OF inv snd] .
  from onMidiMessage_transition [OF inv step] show ?thesis
  proof (elim disjE conjE exE)
    fix o'
    assume "pressedKeys s data1 = Some o'"
      "sounding (audio s') = sounding (audio s) - {o'}"
      "pressedKeys s' = (pressedKeys s)(data1 := None)"
    moreover from this(1) orphan have "o' \<noteq> osc" by (auto intro: ranI)
    ultimately show ?thesis
      using snd orphan ran_delete_subset [of "pressedKeys s" data1] by auto
  qed (use snd orphan new ran_upd_subset [of "pressedKeys s" data1] in auto)
qed


lemmas synth_eval = synth_init_def createAudio_def createFilter_def createFilter_class_def
  ctx_createGain_def ctx_createBiquadFilter_def ctx_createOscillator_def add_node_def
  update_node_def node_connect_def empty_graph_def playNote_def stopNote_def
  createOscillator_def createGain_def osc_start_def osc_stop_def onMidiMessage_def
  controlChange_def setMasterGain_def setMasterFilterFreq_def isNoteOn_def isNoteOff_def

lemma synth_inv_started: "synth_inv (createAudio True synth_init)"
  by (rule synth_inv_createAudio [OF synth_inv_init]) (simp add: synth_init_def)

text \<open>
  C6: A NoteOn (status 144--159) while running allocates a fresh square oscillator at
  the note's frequency and a gain stage at the velocity's gain, connects oscillator, gain
  stage and master gain, starts the oscillator, registers it under the note (replacing
  any previous entry) and keeps the invariant.
\<close>

theorem onMidiMessage_noteOn:
  assumes inv: "synth_inv s" and run: "audioContext s" and on: "isNoteOn statusByte"
  defines "osc \<equiv> next_node (audio s)"
  shows "\<exists>s'. onMidiMessage statusByte key velocity s = Ret s' \<and> synth_inv s' \<and>
     pressedKeys s' = (pressedKeys s)(key \<mapsto> osc) \<and>
     nodes (audio s') osc = Some (OscillatorNode Square (midiNoteToFreq key) Started) \<and>
     nodes (audio s') (Suc osc) = Some (GainNode (midiVelocityToGain velocity)) \<and>
     (osc, ToNode (Suc osc)) \<in> edges (audio s') \<and>
     (Suc osc, ToNode (the (masterGainNode s))) \<in> edges (audio s')"
proof -
  obtain m f where m: "masterGainNode s = Some m"
    using synth_inv_running [OF inv run] by blast
  have wf: "graph_wf (audio s)" using inv by (simp add: synth_inv_def)
  obtain s' where s': "playNote key velocity s = Ret s'" and i': "synth_inv s'"
    using synth_inv_playNote [OF inv] by blast
  have "onMidiMessage statusByte key velocity s = Ret s'"
    using s' on status_classes_disjoint [of statusByte] by (simp add: onMidiMessage_def)
  with i' s' playNote_running [OF run m wf] show ?thesis
    by (auto simp: osc_def m)
qed

theorem onMidiMessage_noteOn_witness:
  "synth_inv (createAudio True synth_init) \<and> audioContext (createAudio True synth_init) \<and>
   isNoteOn 144 \<and>
   (\<exists>s'. onMidiMessage 144 60 90 (createAudio True synth_init) = Ret s' \<and> synth_inv s' \<and>
     pressedKeys s' = [60 \<mapsto> 2] \<and>
     nodes (audio s') 2 = Some (OscillatorNode Square (midiNoteToFreq 60) Started) \<and>
     nodes (audio s') 3 = Some (GainNode (midiVelocityToGain 90)) \<and>
     (2, ToNode 3) \<in> edges (audio s') \<and> (3, ToNode 0) \<in> edges (audio s'))"
proof -
  have r: "audioContext (createAudio True synth_init)" "isNoteOn 144"
    "next_node (audio (createAudio True synth_init)) = 2"
    "masterGainNode (createAudio True synth_init) = Some 0"
    "pressedKeys (createAudio True synth_init) = Map.empty"
    by (simp_all add: synth_eval)
  show ?thesis
    using onMidiMessage_noteOn [OF synth_inv_started r(1,2), of 60 90] synth_inv_started r
    by (simp add: numeral_2_eq_2 numeral_3_eq_3)
qed


text \<open>
  C7: A NoteOff (status 128--143) of a held note stops that note's oscillator, changes
  no other node, removes the note from the registry and keeps the invariant.
\<close>

theorem onMidiMessage_noteOff:
  assumes inv: "synth_inv s" and off: "isNoteOff statusByte"
    and held: "pressedKeys s key = Some osc"
  shows "\<exists>s'. onMidiMessage statusByte key v s = Ret s' \<and> synth_inv s' \<and>
     pressedKeys s' = (pressedKeys s)(key := None) \<and>
     nodes (audio s') = (nodes (audio s))(osc \<mapsto> OscillatorNode Square (midiNoteToFreq key) Stopped)"
proof -
  have run: "audioContext s" using inv held by (auto simp: synth_inv_def split: if_splits)
  obtain m f where "\<forall>k osc. pressedKeys s k = Some osc \<longrightarrow> voice_ok (audio s) m k osc"
    using synth_inv_running [OF inv run] by blast
  with held have node: "nodes (audio s) osc = Some (OscillatorNode Square (midiNoteToFreq key) Started)"
    by (auto simp: voice_ok_def)
  obtain s' where s': "stopNote key s = Ret s'" and i': "synth_inv s'"
    using synth_inv_stopNote [OF inv] by blast
  have "onMidiMessage statusByte key v s = Ret s'"
    using s' off status_classes_disjoint [of statusByte] by (auto simp: onMidiMessage_def)
  with i' s' stopNote_held [OF held node] show ?thesis by auto
qed

text \<open>
  C30: A NoteOff for a note that is not held changes nothing and raises no error.
\<close>

theorem onMidiMessage_noteOff_unheld:
  "isNoteOff statusByte \<Longrightarrow> pressedKeys s key = None \<Longrightarrow> onMidiMessage statusByte key v s = Ret s"
  using status_classes_disjoint [of statusByte] by (auto simp: onMidiMessage_def stopNote_free)

text \<open>
  C31: Control change 7 while running sets the master gain to value/127, leaves every
  other node and the registry unchanged and keeps the invariant.
\<close>

theorem onMidiMessage_volume:
  assumes inv: "synth_inv s" and run: "audioContext s"
  shows "\<exists>s'. onMidiMessage 176 7 v s = Ret s' \<and> synth_inv s' \<and> pressedKeys s' = pressedKeys s \<and>
     nodes (audio s') (the (masterGainNode s)) = Some (GainNode (controlVolumeToGain v)) \<and>
     (\<forall>i. i \<noteq> the (masterGainNode s) \<longrightarrow> nodes (audio s') i = nodes (audio s) i)"
proof -
  obtain m f where m: "masterGainNode s = Some m" and "master_ok (audio s) m f"
    using synth_inv_running [OF inv run] by blast
  then obtain x where "nodes (audio s) m = Some (GainNode x)"
    by (auto simp: master_ok_def kind_at_def elim!: kind_of.elims)
  moreover have "synth_inv (setMasterGain (controlVolumeToGain v) s)"
    using inv by (rule synth_inv_setMasterGain)
  ultimately show ?thesis using m
    by (auto simp: onMidiMessage_def isNoteOn_def isNoteOff_def controlChange_def setMasterGain_def
        nodes_update_node)
qed


text \<open>
  C32: Pitch bend while running sets the master filter's cutoff to
  (data2 / 64) * 1000 and keeps the registry and the invariant.
\<close>

theorem onMidiMessage_pitchBend:
  assumes inv: "synth_inv s" and run: "audioContext s"
  shows "\<exists>s'. onMidiMessage 224 data1 data2 s = Ret s' \<and> synth_inv s' \<and>
     pressedKeys s' = pressedKeys s \<and>
     (\<exists>t q. nodes (audio s') (the (masterFilter s)) =
             Some (BiquadFilterNode t (pitchBendToFilterFreq data2) q))"
proof -
  obtain m f where f: "masterFilter s = Some f" and "master_ok (audio s) m f"
    using synth_inv_running [OF inv run] by blast
  then obtain t x q where "nodes (audio s) f = Some (BiquadFilterNode t x q)"
    by (auto simp: master_ok_def kind_at_def elim!: kind_of.elims)
  moreover have "synth_inv (setMasterFilterFreq data2 s)"
    using inv by (rule synth_inv_setMasterFilterFreq)
  ultimately show ?thesis using f
    by (auto simp: onMidiMessage_def isNoteOn_def isNoteOff_def setMasterFilterFreq_def
        nodes_update_node)
qed

text \<open>
  Control changes for controllers other than 7 (modulation included) change
  nothing.
\<close>

theorem onMidiMessage_other_controllers:
  "data1 \<noteq> 7 \<Longrightarrow> onMidiMessage 176 data1 data2 s = Ret s"
  by (simp add: onMidiMessage_def isNoteOn_def isNoteOff_def controlChange_def)

text \<open>
  C33: Starting the audio engine from the idle state builds the master chain (a gain at
  0.5 into a low-pass filter into the destination) with an empty registry, establishing
  the invariant; without an AudioContext constructor the state is unchanged.
\<close>

theorem createAudio_effect:
  assumes inv: "synth_inv s" and idle: "\<not> audioContext s"
  defines "m \<equiv> next_node (audio s)"
  shows "createAudio False s = s \<and>
    (let s' = createAudio True s in
       synth_inv s' \<and> audioContext s' \<and> pressedKeys s' = Map.empty \<and>
       masterGainNode s' = Some m \<and> masterFilter s' = Some (Suc m) \<and>
       nodes (audio s') m = Some (GainNode 0.5) \<and>
       nodes (audio s') (Suc m) = Some (BiquadFilterNode Lowpass 350 1) \<and>
       (m, ToNode (Suc m)) \<in> edges (audio s') \<and> (Suc m, ToDestination) \<in> edges (audio s'))"
  using synth_inv_createAudio [OF inv idle, of True] synth_inv_idle [OF inv idle]
  by (simp add: createAudio_def [of False] createAudio_running m_def Let_def)

text \<open>
  The master filter of midiSynth.js keeps the Web Audio defaults (350 Hz, Q 1):
  its assignments to the read-only \<open>frequency\<close> and \<open>Q\<close> attributes are
  lost; the class variant sets 1000 Hz and Q 8 as the specification says.
\<close>

lemma createFilter_params:
  "nodes (snd (createFilter g)) (fst (createFilter g)) = Some (BiquadFilterNode Lowpass 350 1) \<and>
   nodes (snd (createFilter_class g)) (fst (createFilter_class g)) = Some (BiquadFilterNode Lowpass 1000 8)"
  by (simp add: createFilter_def createFilter_class_def ctx_createBiquadFilter_def add_node_def
      update_node_def)


text \<open>
  After start, NoteOn 60 then NoteOff 60 leaves the registry empty and exactly
  one oscillator, the one created, stopped.
\<close>

theorem scenario_note_on_off:
  "\<exists>s'. js_bind (onMidiMessage 144 60 90 (createAudio True synth_init)) (onMidiMessage 128 60 0) = Ret s' \<and>
     pressedKeys s' = Map.empty \<and> sounding (audio s') = {} \<and>
     {i. \<exists>t f. nodes (audio s') i = Some (OscillatorNode t f Stopped)} = {2}"
  by (auto simp: synth_eval sounding_def)

lemma registered_sounding:
  assumes inv: "synth_inv s" and held: "pressedKeys s note = Some osc"
  shows "osc \<in> sounding (audio s)"
proof -
  have run: "audioContext s" using inv held by (auto simp: synth_inv_def split: if_splits)
  obtain m f where "\<forall>k osc. pressedKeys s k = Some osc \<longrightarrow> voice_ok (audio s) m k osc"
    using synth_inv_running [OF inv run] by blast
  with held show ?thesis by (auto simp: voice_ok_def sounding_def)
qed

text \<open>
  C10: A NoteOn for a note that is already held, while running, overwrites the registry
  entry: the oscillator that was registered for the note keeps sounding and is no longer
  registered under any note, so (by \<open>orphan_keeps_sounding\<close>) no later message can
  stop it.
\<close>

theorem noteOn_held_orphans:
  assumes inv: "synth_inv s" and on: "isNoteOn statusByte"
    and held: "pressedKeys s key = Some old"
  shows "\<exists>s'. onMidiMessage statusByte key velocity s = Ret s' \<and>
     old \<in> sounding (audio s') \<and> old \<notin> ran (pressedKeys s')"
proof -
  have run: "audioContext s" using inv held by (auto simp: synth_inv_def split: if_splits)
  obtain s' where s': "playNote key velocity s = Ret s'"
    using synth_inv_playNote [OF inv] by blast
  have msg: "onMidiMessage statusByte key velocity s = Ret s'"
    using s' on status_classes_disjoint [of statusByte] by (simp add: onMidiMessage_def)
  have eff: "sounding (audio s') = insert (next_node (audio s)) (sounding (audio s))"
    "pressedKeys s' = (pressedKeys s)(key \<mapsto> next_node (audio s))"
    using sounding_playNote [OF inv run s'] by simp_all
  have snd: "old \<in> sounding (audio s)" by (rule registered_sounding [OF inv held])
  have fresh: "old \<noteq> next_node (audio s)" by (rule sounding_below [OF inv snd])
  have inj: "inj_on (pressedKeys s) (dom (pressedKeys s))" using inv by (simp add: synth_inv_def)
  have "old \<notin> ran ((pressedKeys s)(key := None))"
    using ran_delete_inj [OF inj held] by simp
  then have "old \<notin> ran (pressedKeys s')"
    using eff(2) fresh ran_upd_subset [of "(pressedKeys s)(key := None)" key "next_node (audio s)"]
    by auto
  with msg eff(1) snd show ?thesis by blast
qed

text \<open>
  The run behind it: NoteOn 60, NoteOn 60, NoteOff 60 leaves the first oscillator
  sounding with an empty registry.
\<close>

lemma scenario_double_noteOn_orphan:
  "\<exists>s'. js_bind (js_bind (onMidiMessage 144 60 90 (createAudio True synth_init))
          (onMidiMessage 144 60 90)) (onMidiMessage 128 60 0) = Ret s' \<and>
     pressedKeys s' = Map.empty \<and> sounding (audio s') = {2}"
  by (auto simp: synth_eval sounding_def)


lemma started_facts:
  "audioContext (createAudio True synth_init)"
  "next_node (audio (createAudio True synth_init)) = 2"
  "masterGainNode (createAudio True synth_init) = Some 0"
  "masterFilter (createAudio True synth_init) = Some 1"
  "pressedKeys (createAudio True synth_init) = Map.empty"
  "sounding (audio (createAudio True synth_init)) = {}"
  by (auto simp: synth_eval sounding_def)

theorem onMidiMessage_noteOff_witness:
  "\<exists>s. synth_inv s \<and> isNoteOff 128 \<and> pressedKeys s 60 = Some 2 \<and>
     (\<exists>s'. onMidiMessage 128 60 0 s = Ret s' \<and> synth_inv s' \<and>
        pressedKeys s' = (pressedKeys s)(60 := None) \<and>
        nodes (audio s') = (nodes (audio s))(2 \<mapsto> OscillatorNode Square (midiNoteToFreq 60) Stopped))"
proof -
  obtain s where s: "onMidiMessage 144 60 90 (createAudio True synth_init) = Ret s" and i: "synth_inv s"
    using synth_inv_onMidiMessage [OF synth_inv_started] by blast
  have k: "pressedKeys s 60 = Some 2" and off: "isNoteOff 128"
    using s by (auto simp: synth_eval)
  show ?thesis using onMidiMessage_noteOff [OF i off k, of 0] i off k by blast
qed

theorem onMidiMessage_noteOff_unheld_witness:
  "isNoteOff 128 \<and> pressedKeys synth_init 60 = None \<and> onMidiMessage 128 60 0 synth_init = Ret synth_init"
  using onMidiMessage_noteOff_unheld [of 128 synth_init 60 0] by (simp add: synth_eval)

theorem onMidiMessage_volume_witness:
  "synth_inv (createAudio True synth_init) \<and> audioContext (createAudio True synth_init) \<and>
   (\<exists>s'. onMidiMessage 176 7 64 (createAudio True synth_init) = Ret s' \<and> synth_inv s' \<and>
      nodes (audio s') 0 = Some (GainNode (64 / 127)))"
  using onMidiMessage_volume [OF synth_inv_started started_facts(1), of 64] synth_inv_started started_facts
  by (auto simp: controlVolumeToGain_def)

theorem onMidiMessage_pitchBend_witness:
  "synth_inv (createAudio True synth_init) \<and> audioContext (createAudio True synth_init) \<and>
   (\<exists>s'. onMidiMessage 224 0 64 (createAudio True synth_init) = Ret s' \<and>
      (\<exists>t q. nodes (audio s') 1 = Some (BiquadFilterNode t 1000 q)))"
  using onMidiMessage_pitchBend [OF synth_inv_started started_facts(1), of 0 64] synth_inv_started started_facts
  by (auto simp: pitchBendToFilterFreq_def)

theorem createAudio_effect_witness:
  "synth_inv synth_init \<and> \<not> audioContext synth_init \<and> createAudio False synth_init = synth_init \<and>
   nodes (audio (createAudio True synth_init)) 1 = Some (BiquadFilterNode Lowpass 350 1)"
  using createAudio_effect [OF synth_inv_init] synth_inv_init
  by (simp add: synth_init_def empty_graph_def Let_def)

theorem onMidiMessage_leak_free_witness:
  "synth_inv (createAudio True synth_init) \<and> leak_free (createAudio True synth_init) \<and>
   (\<exists>s'. onMidiMessage 144 60 90 (createAudio True synth_init) = Ret s' \<and> leak_free s')"
proof -
  obtain s' where s': "onMidiMessage 144 60 90 (createAudio True synth_init) = Ret s'"
    using synth_inv_onMidiMessage [OF synth_inv_started] by blast
  have lf: "leak_free (createAudio True synth_init)"
    using started_facts by (simp add: leak_free_def)
  have "leak_free s'"
    by (rule onMidiMessage_leak_free [OF synth_inv_started lf s']) (simp add: started_facts)
  with s' lf synth_inv_started show ?thesis by blast
qed

theorem noteOn_held_orphans_witness:
  "\<exists>s. synth_inv s \<and> isNoteOn 144 \<and> pressedKeys s 60 = Some 2 \<and>
     (\<exists>s'. onMidiMessage 144 60 90 s = Ret s' \<and> 2 \<in> sounding (audio s') \<and> 2 \<notin> ran (pressedKeys s'))"
proof -
  obtain s1 where s1: "onMidiMessage 144 60 90 (createAudio True synth_init) = Ret s1" and i1: "synth_inv s1"
    using synth_inv_onMidiMessage [OF synth_inv_started] by blast
  have "pressedKeys s1 60 = Some (Suc (Suc 0))"
    using s1 by (auto simp: synth_eval)
  then have k: "pressedKeys s1 60 = Some 2" by (simp add: numeral_2_eq_2)
  have on: "isNoteOn 144" by (simp add: isNoteOn_def)
  show ?thesis using noteOn_held_orphans [OF i1 on k] i1 on k by blast
qed

theorem orphan_keeps_sounding_witness:
  "\<exists>s. synth_inv s \<and> 2 \<in> sounding (audio s) \<and> 2 \<notin> ran (pressedKeys s) \<and>
     (\<exists>s'. onMidiMessage 128 60 0 s = Ret s' \<and> 2 \<in> sounding (audio s') \<and> 2 \<notin> ran (pressedKeys s'))"
proof -
  obtain s1 where s1: "onMidiMessage 144 60 90 (createAudio True synth_init) = Ret s1" and i1: "synth_inv s1"
    using synth_inv_onMidiMessage [OF synth_inv_started] by blast
  obtain s2 where s2: "onMidiMessage 144 60 90 s1 = Ret s2" and i2: "synth_inv s2"
    using synth_inv_onMidiMessage [OF i1] by blast
  obtain s3 where s3: "onMidiMessage 128 60 0 s2 = Ret s3"
    using synth_inv_onMidiMessage [OF i2] by blast
  have k: "pressedKeys s2 = [60 \<mapsto> Suc (Suc (Suc (Suc 0)))]"
    and n: "nodes (audio s2) (Suc (Suc 0)) = Some (OscillatorNode Square (midiNoteToFreq 60) Started)"
    using s1 s2 by (auto simp: synth_eval)
  have o: "2 \<in> sounding (audio s2)" "2 \<notin> ran (pressedKeys s2)"
    using k n by (simp_all add: sounding_def numeral_2_eq_2)
  show ?thesis using orphan_keeps_sounding [OF i2 o s3] i2 o s3 by blast
qed

subsection \<open>Typing of the signal chain\<close>

lemma graph_typed_createAudio:
  assumes wf: "graph_wf (audio s)" and ty: "graph_typed (audio s)"
  shows "graph_typed (audio (createAudio c s))"
proof (cases c)
  case True
  define m where "m = next_node (audio s)"
  have below: "i < m" if "i \<in> dom (nodes (audio s))" for i
    using wf that by (auto simp: graph_wf_def m_def)
  have "audio (createAudio c s) = (audio s)\<lparr>
         nodes := (nodes (audio s))(m \<mapsto> GainNode 0.5, Suc m \<mapsto> BiquadFilterNode Lowpass 350 1),
         next_node := Suc (Suc m),
         edges := insert (Suc m, ToDestination) (insert (m, ToNode (Suc m)) (edges (audio s)))\<rparr>"
    using True by (simp add: createAudio_running m_def)
  also have "graph_typed \<dots>"
  proof (rule graph_typed_extend [OF ty, where E = "{(Suc m, ToDestination), (m, ToNode (Suc m))}"])
    fix i assume "i \<in> dom (nodes (audio s))"
    then have "i < m" by (rule below)
    then show "kind_at (audio s\<lparr>nodes := (nodes (audio s))(m \<mapsto> GainNode 0.5, Suc m \<mapsto> BiquadFilterNode Lowpass 350 1),
         next_node := Suc (Suc m), edges := insert (Suc m, ToDestination) (insert (m, ToNode (Suc m)) (edges (audio s)))\<rparr>) i =
        kind_at (audio s) i"
      by (simp add: kind_at_def)
  qed (auto simp: edge_typed_def kind_at_def)
  finally show ?thesis .
qed (simp add: createAudio_def ty)

lemma graph_typed_playNote:
  assumes inv: "synth_inv s" and ty: "graph_typed (audio s)" and r: "playNote n v s = Ret s'"
  shows "graph_typed (audio s')"
proof (cases "audioContext s")
  case False
  then show ?thesis using r ty by (simp add: playNote_def)
next
  case run: True
  obtain m f where m: "masterGainNode s = Some m" and mo: "master_ok (audio s) m f"
    using synth_inv_running [OF inv run] by blast
  have wf: "graph_wf (audio s)" using inv by (simp add: synth_inv_def)
  define osc where "osc = next_node (audio s)"
  have below: "i < osc" if "i \<in> dom (nodes (audio s))" for i
    using wf that by (auto simp: graph_wf_def osc_def)
  have km: "kind_at (audio s) m = Some KGain" using mo by (simp add: master_ok_def)
  then have "m < osc" using below by (auto simp: kind_at_def)
  have "audio s' = (audio s)\<lparr>
              nodes := (nodes (audio s))(osc \<mapsto> OscillatorNode Square (midiNoteToFreq n) Started,
                                         Suc osc \<mapsto> GainNode (midiVelocityToGain v)),
              next_node := Suc (Suc osc),
              edges := insert (osc, ToNode (Suc osc)) (insert (Suc osc, ToNode m) (edges (audio s)))\<rparr>"
    using r playNote_running [OF run m wf, of n v] by (auto simp: osc_def)
  also have "graph_typed \<dots>"
  proof (rule graph_typed_extend [OF ty, where E = "{(osc, ToNode (Suc osc)), (Suc osc, ToNode m)}"])
    fix i assume "i \<in> dom (nodes (audio s))"
    then have "i < osc" by (rule below)
    then show "kind_at ((audio s)\<lparr>
              nodes := (nodes (audio s))(osc \<mapsto> OscillatorNode Square (midiNoteToFreq n) Started,
                                         Suc osc \<mapsto> GainNode (midiVelocityToGain v)),
              next_node := Suc (Suc osc),
              edges := insert (osc, ToNode (Suc osc)) (insert (Suc osc, ToNode m) (edges (audio s)))\<rparr>) i =
        kind_at (audio s) i"
      by (simp add: kind_at_def)
  qed (use km \<open>m < osc\<close> in \<open>auto simp: edge_typed_def kind_at_def\<close>)
  finally show ?thesis .
qed

lemma graph_typed_stopNote:
  assumes ty: "graph_typed (audio s)" and r: "stopNote n s = Ret s'"
  shows "graph_typed (audio s')"
proof (cases "pressedKeys s n")
  case None
  then show ?thesis using r ty by (simp add: stopNote_free)
next
  case (Some osc)
  then obtain g where g: "osc_stop osc (audio s) = Ret g" and s': "audio s' = g"
    using r by (auto simp: stopNote_def split: js.splits)
  have "kind_at g i = kind_at (audio s) i" for i
    using kind_at_osc_stop [OF g] by simp
  moreover have "edges g = edges (audio s)"
    using g by (auto simp: osc_stop_Ret)
  ultimately show ?thesis
    using ty s' graph_typed_kinds by metis
qed

lemma graph_typed_controls:
  "graph_typed (audio (setMasterGain v s)) = graph_typed (audio s)"
  "graph_typed (audio (setMasterFilterFreq d s)) = graph_typed (audio s)"
  "graph_typed (audio (controlChange c w s)) = graph_typed (audio s)"
  by (simp_all add: setMasterGain_def setMasterFilterFreq_def controlChange_def
      graph_typed_update_node split: option.splits)

lemma graph_typed_onMidiMessage:
  assumes inv: "synth_inv s" and ty: "graph_typed (audio s)" and r: "onMidiMessage st d1 d2 s = Ret s'"
  shows "graph_typed (audio s')"
proof -
  from r obtain s1 s2 where
    1: "(if isNoteOn st then playNote d1 d2 s else Ret s) = Ret s1" and
    2: "(if isNoteOff st then stopNote d1 s1 else Ret s1) = Ret s2" and
    3: "s' = (if st = 224 then setMasterFilterFreq d2 (if st = 176 then controlChange d1 d2 s2 else s2)
              else (if st = 176 then controlChange d1 d2 s2 else s2))"
    unfolding onMidiMessage_def Let_def by fastforce
  have "graph_typed (audio s1)"
    using 1 ty graph_typed_playNote [OF inv ty] by (auto split: if_splits)
  then have "graph_typed (audio s2)"
    using 2 graph_typed_stopNote by (auto split: if_splits)
  then show ?thesis
    using 3 by (simp add: graph_typed_controls)
qed

end
