(* ===== verification/Device_Registry.thy ===== *)
theory Device_Registry
  imports Synth_Prelude
begin

text \<open>
  The MIDI half of src/midiSynth.js: the registry \<open>midiPorts\<close> (line 9), a plain
  object keyed by port name, and the listener registrations the code adds to and removes
  from port objects. \<open>enableMidiInput\<close>, \<open>disableMidiInput\<close> and
  \<open>onStateChange\<close> (lines 46--80) are one definition each. A port object has an
  identity (\<open>port_id\<close>), a name, a type and a state; \<open>listeners\<close> holds the
  pairs (port identity, handler) registered with \<open>addEventListener\<close>, a set because
  the DOM ignores a second registration of the same handler for the same event.
  The \<open>_v1\<close> definitions are the variant of src/unnamed/part_000 (lines 68--84,
  the same code as its class version, lines 530--546), which subscribes only
  \<open>midimessage\<close>; \<open>enableMidiInput_v2\<close> and \<open>onStateChange_v2\<close> are the variant
  without a registry (lines 287--295).
\<close>

datatype port_type = Input | Output

datatype port_state = Connected | Disconnected

record midi_port =
  port_id :: nat
  port_name :: string
  port_type :: port_type
  port_state :: port_state

datatype listener = OnMidiMessage | OnStateChange

record midi_state =
  midiPorts :: "string \<rightharpoonup> midi_port"
  listeners :: "(nat \<times> listener) set"

definition midi_init :: midi_state where
  "midi_init = \<lparr>midiPorts = Map.empty, listeners = {}\<rparr>"

text \<open>
  \<open>if (midiPorts[input.name]) return;\<close> reads the object literal, so a name of an
  \<open>Object.prototype\<close> member counts as present (\<open>js_truthy_get\<close>).
\<close>

definition enableMidiInput :: "midi_port \<Rightarrow> midi_state \<Rightarrow> midi_state" where
  "enableMidiInput input ms =
     (if js_truthy_get (midiPorts ms) (port_name input) then ms
      else ms\<lparr>listeners := insert (port_id input, OnMidiMessage)
                             (insert (port_id input, OnStateChange) (listeners ms)),
              midiPorts := (midiPorts ms)(port_name input \<mapsto> input)\<rparr>)"

definition disableMidiInput :: "midi_port \<Rightarrow> midi_state \<Rightarrow> midi_state" where
  "disableMidiInput input ms =
     (if \<not> js_truthy_get (midiPorts ms) (port_name input) then ms
      else ms\<lparr>listeners := listeners ms - {(port_id input, OnStateChange), (port_id input, OnMidiMessage)},
              midiPorts := (midiPorts ms)(port_name input := None)\<rparr>)"

definition onStateChange :: "midi_port \<Rightarrow> midi_state \<Rightarrow> midi_state" where
  "onStateChange port ms =
     (if port_type port = Input then
        (case port_state port of
           Connected \<Rightarrow> enableMidiInput port ms
         | Disconnected \<Rightarrow> disableMidiInput port ms)
      else ms)"

definition enableMidiInput_v1 :: "midi_port \<Rightarrow> midi_state \<Rightarrow> midi_state" where
  "enableMidiInput_v1 input ms =
     (if js_truthy_get (midiPorts ms) (port_name input) then ms
      else ms\<lparr>listeners := insert (port_id input, OnMidiMessage) (listeners ms),
              midiPorts := (midiPorts ms)(port_name input \<mapsto> input)\<rparr>)"

definition disableMidiInput_v1 :: "midi_port \<Rightarrow> midi_state \<Rightarrow> midi_state" where
  "disableMidiInput_v1 input ms =
     (if \<not> js_truthy_get (midiPorts ms) (port_name input) then ms
      else ms\<lparr>listeners := listeners ms - {(port_id input, OnMidiMessage)},
              midiPorts := (midiPorts ms)(port_name input := None)\<rparr>)"

definition onStateChange_v1 :: "midi_port \<Rightarrow> midi_state \<Rightarrow> midi_state" where
  "onStateChange_v1 port ms =
     (if port_type port = Input then
        (case port_state port of
           Connected \<Rightarrow> enableMidiInput_v1 port ms
         | Disconnected \<Rightarrow> disableMidiInput_v1 port ms)
      else ms)"

definition enableMidiInput_v2 :: "midi_port \<Rightarrow> midi_state \<Rightarrow> midi_state" where
  "enableMidiInput_v2 input ms =
     ms\<lparr>listeners := insert (port_id input, OnMidiMessage)
                       (insert (port_id input, OnStateChange) (listeners ms))\<rparr>"

definition onStateChange_v2 :: "midi_port \<Rightarrow> midi_state \<Rightarrow> midi_state" where
  "onStateChange_v2 port ms = ms"

text \<open>
  The registry describes the subscriptions: a port is subscribed to
  \<open>midimessage\<close> exactly when the registry holds it under its name. Port names are
  fixed per port object, given by \<open>name_of\<close>.
\<close>

definition subscribed :: "midi_state \<Rightarrow> nat \<Rightarrow> bool" where
  "subscribed ms i \<longleftrightarrow> (i, OnMidiMessage) \<in> listeners ms"

definition registry_inv :: "(nat \<Rightarrow> string) \<Rightarrow> midi_state \<Rightarrow> bool" where
  "registry_inv name_of ms \<longleftrightarrow>
     (\<forall>n p. midiPorts ms n = Some p \<longrightarrow>
        n = name_of (port_id p) \<and> n \<notin> object_prototype_keys \<and>
        (port_id p, OnMidiMessage) \<in> listeners ms \<and> (port_id p, OnStateChange) \<in> listeners ms) \<and>
     (\<forall>i l. (i, l) \<in> listeners ms \<longrightarrow>
        (\<exists>p. midiPorts ms (name_of i) = Some p \<and> port_id p = i))"

definition midi_view :: "midi_state \<Rightarrow> (string \<rightharpoonup> midi_port) \<times> nat set" where
  "midi_view ms = (midiPorts ms, {i. subscribed ms i})"

definition port_of :: "(nat \<Rightarrow> string) \<Rightarrow> midi_port \<Rightarrow> bool" where
  "port_of name_of p \<longleftrightarrow> port_name p = name_of (port_id p)"

subsection \<open>Idempotence and the registry invariant\<close>

lemma enableMidiInput_idem: "enableMidiInput p (enableMidiInput p ms) = enableMidiInput p ms"
  by (simp add: enableMidiInput_def js_truthy_get_def)

lemma disableMidiInput_idem: "disableMidiInput p (disableMidiInput p ms) = disableMidiInput p ms"
  by (auto simp: disableMidiInput_def js_truthy_get_def)

text \<open>
  Handling the same state change twice is the same as handling it once. A port enabled
  by midiSynth.js carries its own \<open>statechange\<close> listener besides the one on the
  MIDI access object, so each change of such a port is delivered twice; this makes the
  second delivery harmless (see \<open>Session\<close>).
\<close>

lemma onStateChange_idem: "onStateChange p (onStateChange p ms) = onStateChange p ms"
  by (simp add: onStateChange_def enableMidiInput_idem disableMidiInput_idem split: port_state.splits)

lemma registry_inv_init: "registry_inv name_of midi_init"
  by (simp add: registry_inv_def midi_init_def)


lemma registry_inv_enable:
  assumes inv: "registry_inv name_of ms" and p: "port_of name_of p"
  shows "registry_inv name_of (enableMidiInput p ms)"
proof (cases "js_truthy_get (midiPorts ms) (port_name p)")
  case True
  then show ?thesis using inv by (simp add: enableMidiInput_def)
next
  case False
  then have none: "midiPorts ms (port_name p) = None" and np: "port_name p \<notin> object_prototype_keys"
    by (auto simp: js_truthy_get_def)
  have n: "port_name p = name_of (port_id p)" using p by (simp add: port_of_def)
  let ?M = "(midiPorts ms)(port_name p \<mapsto> p)"
  let ?L = "insert (port_id p, OnMidiMessage) (insert (port_id p, OnStateChange) (listeners ms))"
  have 1: "n' = name_of (port_id p') \<and> n' \<notin> object_prototype_keys \<and>
      (port_id p', OnMidiMessage) \<in> ?L \<and> (port_id p', OnStateChange) \<in> ?L"
    if "?M n' = Some p'" for n' p'
  proof (cases "n' = port_name p")
    case True
    with that n np show ?thesis by simp
  next
    case False
    with that inv show ?thesis by (simp add: registry_inv_def)
  qed
  have 2: "\<exists>p'. ?M (name_of j) = Some p' \<and> port_id p' = j" if "(j, l) \<in> ?L" for j l
  proof (cases "j = port_id p")
    case True
    with n show ?thesis by simp
  next
    case False
    with that have "(j, l) \<in> listeners ms" by simp
    with inv obtain p' where "midiPorts ms (name_of j) = Some p'" and "port_id p' = j"
      unfolding registry_inv_def by blast
    moreover from this(1) none have "name_of j \<noteq> port_name p" by auto
    ultimately show ?thesis by simp
  qed
  from 1 2 False show ?thesis
    by (simp add: registry_inv_def enableMidiInput_def)
qed


lemma registry_inv_disable:
  assumes inv: "registry_inv name_of ms" and p: "port_of name_of p" and inj: "inj name_of"
  shows "registry_inv name_of (disableMidiInput p ms)"
proof (cases "js_truthy_get (midiPorts ms) (port_name p)")
  case False
  then show ?thesis using inv by (simp add: disableMidiInput_def)
next
  case True
  have n: "port_name p = name_of (port_id p)" using p by (simp add: port_of_def)
  let ?M = "(midiPorts ms)(port_name p := None)"
  let ?L = "listeners ms - {(port_id p, OnStateChange), (port_id p, OnMidiMessage)}"
  have 1: "n' = name_of (port_id p') \<and> n' \<notin> object_prototype_keys \<and>
      (port_id p', OnMidiMessage) \<in> ?L \<and> (port_id p', OnStateChange) \<in> ?L"
    if "?M n' = Some p'" for n' p'
  proof -
    from that have ne: "n' \<noteq> port_name p" and old: "midiPorts ms n' = Some p'"
      by (auto split: if_splits)
    from inv old have facts: "n' = name_of (port_id p') \<and> n' \<notin> object_prototype_keys \<and>
        (port_id p', OnMidiMessage) \<in> listeners ms \<and> (port_id p', OnStateChange) \<in> listeners ms"
      unfolding registry_inv_def by blast
    with ne n have "port_id p' \<noteq> port_id p" by auto
    with facts show ?thesis by blast
  qed
  have 2: "\<exists>p'. ?M (name_of j) = Some p' \<and> port_id p' = j" if "(j, l) \<in> ?L" for j l
  proof -
    from that have old: "(j, l) \<in> listeners ms" and ne: "j \<noteq> port_id p"
      by (cases l; auto)+
    from inv old obtain p' where "midiPorts ms (name_of j) = Some p'" and "port_id p' = j"
      unfolding registry_inv_def by blast
    moreover from ne inj n have "name_of j \<noteq> port_name p" by (auto dest: injD)
    ultimately show ?thesis by simp
  qed
  from 1 2 True show ?thesis
    by (simp add: registry_inv_def disableMidiInput_def)
qed

lemma registry_inv_onStateChange:
  "registry_inv name_of ms \<Longrightarrow> port_of name_of p \<Longrightarrow> inj name_of \<Longrightarrow>
   registry_inv name_of (onStateChange p ms)"
  by (simp add: onStateChange_def registry_inv_enable registry_inv_disable split: port_state.splits)



text \<open>
  C17: With unique port names and the registry invariant, after a state change an input
  port is subscribed to \<open>midimessage\<close> exactly when it is connected (for a name that is
  not a member of \<open>Object.prototype\<close>).
\<close>

theorem onStateChange_connect_disconnect:
  assumes inv: "registry_inv name_of ms" and p: "port_of name_of p" and inj: "inj name_of"
    and input: "port_type p = Input" and np: "port_name p \<notin> object_prototype_keys"
  shows "subscribed (onStateChange p ms) (port_id p) \<longleftrightarrow> port_state p = Connected"
proof (cases "port_state p")
  case Connected
  have "subscribed (enableMidiInput p ms) (port_id p)"
  proof (cases "midiPorts ms (port_name p)")
    case None
    with np show ?thesis by (simp add: enableMidiInput_def js_truthy_get_def subscribed_def)
  next
    case (Some p0)
    with inv have "port_name p = name_of (port_id p0)" and "(port_id p0, OnMidiMessage) \<in> listeners ms"
      unfolding registry_inv_def by blast+
    moreover have "port_name p = name_of (port_id p)" using p by (simp add: port_of_def)
    ultimately have "(port_id p, OnMidiMessage) \<in> listeners ms" using inj by (metis injD)
    with Some show ?thesis by (simp add: enableMidiInput_def js_truthy_get_def subscribed_def)
  qed
  with Connected input show ?thesis by (simp add: onStateChange_def)
next
  case Disconnected
  have "\<not> subscribed (disableMidiInput p ms) (port_id p)"
  proof (cases "js_truthy_get (midiPorts ms) (port_name p)")
    case True
    then show ?thesis by (simp add: disableMidiInput_def subscribed_def)
  next
    case False
    then have "midiPorts ms (name_of (port_id p)) = None"
      using p by (simp add: js_truthy_get_def port_of_def)
    with inv have "(port_id p, OnMidiMessage) \<notin> listeners ms"
      unfolding registry_inv_def by fastforce
    with False show ?thesis by (simp add: disableMidiInput_def subscribed_def)
  qed
  with Disconnected input show ?thesis by (simp add: onStateChange_def)
qed

text \<open>
  C18: A port whose name is a member of \<open>Object.prototype\<close> (\<open>toString\<close>,
  \<open>constructor\<close>, ...) is never enabled: \<open>midiPorts[input.name]\<close> is truthy
  for it before any registration.
\<close>

theorem enableMidiInput_prototype_name:
  "port_name p \<in> object_prototype_keys \<Longrightarrow> port_state p = Connected \<Longrightarrow> onStateChange p ms = ms"
  by (simp add: enableMidiInput_def onStateChange_def js_truthy_get_def)

theorem enableMidiInput_prototype_name_witness:
  "''toString'' \<in> object_prototype_keys \<and>
   onStateChange \<lparr>port_id = 7, port_name = ''toString'', port_type = Input, port_state = Connected\<rparr> midi_init = midi_init"
  using enableMidiInput_prototype_name [of "\<lparr>port_id = 7, port_name = ''toString'', port_type = Input, port_state = Connected\<rparr>" midi_init]
  by (simp add: object_prototype_keys_def)

text \<open>
  C19: In any registry state where a port \<open>p\<close> is registered under the name of a
  different input port \<open>q\<close>: connecting \<open>q\<close> changes nothing (so \<open>q\<close> is never
  subscribed), and disconnecting \<open>q\<close> deletes \<open>p\<close>'s registry entry while \<open>p\<close>
  stays subscribed exactly as before.
\<close>

theorem duplicate_name_shadowing:
  assumes reg: "midiPorts ms (port_name q) = Some p" and other: "port_id q \<noteq> port_id p"
    and inp: "port_type q = Input"
  shows "onStateChange (q\<lparr>port_state := Connected\<rparr>) ms = ms \<and>
         midiPorts (onStateChange (q\<lparr>port_state := Disconnected\<rparr>) ms) (port_name q) = None \<and>
         subscribed (onStateChange (q\<lparr>port_state := Disconnected\<rparr>) ms) (port_id p) = subscribed ms (port_id p)"
  using reg other inp
  by (auto simp: onStateChange_def enableMidiInput_def disableMidiInput_def js_truthy_get_def
      subscribed_def)

text \<open>
  The run behind it: two keyboards named "Keyboard" plugged in one after the other,
  then the second unplugged.
\<close>

lemma duplicate_names_scenario:
  "let kb1 = \<lparr>port_id = 1, port_name = ''Keyboard'', port_type = Input, port_state = Connected\<rparr>;
       kb2 = \<lparr>port_id = 2, port_name = ''Keyboard'', port_type = Input, port_state = Connected\<rparr>;
       ms1 = onStateChange kb2 (onStateChange kb1 midi_init);
       ms2 = onStateChange (kb2\<lparr>port_state := Disconnected\<rparr>) ms1
   in subscribed ms1 1 \<and> \<not> subscribed ms1 2 \<and>
      subscribed ms2 1 \<and> midiPorts ms2 ''Keyboard'' = None"
  by (simp add: onStateChange_def enableMidiInput_def disableMidiInput_def midi_init_def
      js_truthy_get_def object_prototype_keys_def subscribed_def)

text \<open>
  The variant that subscribes only \<open>midimessage\<close> and midiSynth.js agree on the
  registry and on the set of subscribed ports (\<open>midi_view\<close>), step by step.
\<close>

lemma midi_view_enable_v1:
  "midi_view ms = midi_view ms' \<Longrightarrow> midi_view (enableMidiInput_v1 p ms) = midi_view (enableMidiInput p ms')"
  by (auto simp: midi_view_def subscribed_def enableMidiInput_def enableMidiInput_v1_def js_truthy_get_def)

lemma midi_view_fold_enable_v1:
  "midi_view ms = midi_view ms' \<Longrightarrow>
   midi_view (fold enableMidiInput_v1 ps ms) = midi_view (fold enableMidiInput ps ms')"
  by (induction ps arbitrary: ms ms') (simp_all add: midi_view_enable_v1)

lemma midi_view_onStateChange_v1:
  "midi_view ms = midi_view ms' \<Longrightarrow> midi_view (onStateChange_v1 p ms) = midi_view (onStateChange p ms')"
  by (auto simp: midi_view_def subscribed_def onStateChange_def onStateChange_v1_def
      enableMidiInput_def enableMidiInput_v1_def disableMidiInput_def disableMidiInput_v1_def
      js_truthy_get_def split: port_state.splits)

lemma subscribed_midi_view:
  "midi_view ms = midi_view ms' \<Longrightarrow> subscribed ms i = subscribed ms' i"
  by (auto simp: midi_view_def)

lemma inj_name_k: "inj (\<lambda>i. replicate i CHR ''k'')"
  by (rule injI) (metis length_replicate)

theorem onStateChange_connect_disconnect_witness:
  "registry_inv (\<lambda>i. replicate i CHR ''k'') midi_init \<and>
   port_of (\<lambda>i. replicate i CHR ''k'') \<lparr>port_id = 1, port_name = ''k'', port_type = Input, port_state = Connected\<rparr> \<and>
   inj (\<lambda>i. replicate i CHR ''k'') \<and> ''k'' \<notin> object_prototype_keys \<and>
   subscribed (onStateChange \<lparr>port_id = 1, port_name = ''k'', port_type = Input, port_state = Connected\<rparr> midi_init) 1"
proof -
  note inj = inj_name_k
  have np: "''k'' \<notin> object_prototype_keys" by (simp add: object_prototype_keys_def)
  have po: "port_of (\<lambda>i. replicate i CHR ''k'') \<lparr>port_id = 1, port_name = ''k'', port_type = Input, port_state = Connected\<rparr>"
    by (simp add: port_of_def)
  show ?thesis
    using onStateChange_connect_disconnect [OF registry_inv_init po inj] inj np po registry_inv_init
    by simp
qed

theorem duplicate_name_shadowing_witness:
  "let kb1 = \<lparr>port_id = 1, port_name = ''Keyboard'', port_type = Input, port_state = Connected\<rparr>;
       kb2 = \<lparr>port_id = 2, port_name = ''Keyboard'', port_type = Input, port_state = Disconnected\<rparr>;
       ms = onStateChange kb1 midi_init
   in midiPorts ms (port_name kb2) = Some kb1 \<and> port_id kb2 \<noteq> port_id kb1 \<and> port_type kb2 = Input \<and>
      onStateChange (kb2\<lparr>port_state := Connected\<rparr>) ms = ms \<and>
      midiPorts (onStateChange (kb2\<lparr>port_state := Disconnected\<rparr>) ms) (port_name kb2) = None \<and>
      subscribed (onStateChange (kb2\<lparr>port_state := Disconnected\<rparr>) ms) (port_id kb1)"
proof -
  define kb1 where "kb1 = \<lparr>port_id = 1, port_name = ''Keyboard'', port_type = Input, port_state = Connected\<rparr>"
  define kb2 where "kb2 = \<lparr>port_id = 2, port_name = ''Keyboard'', port_type = Input, port_state = Disconnected\<rparr>"
  define ms where "ms = onStateChange kb1 midi_init"
  have reg: "midiPorts ms (port_name kb2) = Some kb1" and other: "port_id kb2 \<noteq> port_id kb1"
    and inp: "port_type kb2 = Input" and sub: "subscribed ms (port_id kb1)"
    by (simp_all add: ms_def kb1_def kb2_def onStateChange_def enableMidiInput_def midi_init_def
        js_truthy_get_def object_prototype_keys_def subscribed_def)
  show ?thesis
    using duplicate_name_shadowing [OF reg other inp] reg other inp sub
    unfolding kb1_def [symmetric] kb2_def [symmetric] ms_def [symmetric] Let_def by simp
qed

end
