(* ===== verification/Session.thy ===== *)
theory Session
  imports Voice_Synth Device_Registry
begin

text \<open>
  The whole page of src/midiSynth.js as a state machine. The record \<open>app\<close> holds
  the synthesiser (\<open>Voice_Synth\<close>), the MIDI registry (\<open>Device_Registry\<close>),
  the two facts of the browser the code tests (\<open>navigator.requestMIDIAccess\<close> and
  an \<open>AudioContext\<close> constructor), the listeners the page has registered on the
  document, the start button and the MIDI access object, the button's state, and the
  exceptions the browser reported. \<open>onDomContentLoaded\<close>, \<open>onStartBtnClick\<close>,
  \<open>disableStartBtn\<close> and the two continuations of the asynchronous
  \<open>setupMidi\<close> are one definition each (lines 16--44, 238--243). \<open>app_step\<close>
  is the browser's delivery of one event to the listeners registered for it
  (section 5 of the specification: every callback runs to completion, one at a time);
  \<open>deliver\<close> runs a listener and records an exception that escapes it.
  \<open>reachable\<close> is the set of states the page can reach from its initial state under
  any sequence of events the environment can produce.
\<close>

record app =
  synth :: synth
  midi :: midi_state
  hasMidiApi :: bool
  hasAudioCtor :: bool
  loaded :: bool
  midiPending :: bool
  accessListener :: bool
  startListener :: bool
  startDisabled :: bool
  uncaught :: "js_error list"

definition app_init :: "bool \<Rightarrow> bool \<Rightarrow> app" where
  "app_init midi_api audio_ctor =
     \<lparr>synth = synth_init, midi = midi_init, hasMidiApi = midi_api, hasAudioCtor = audio_ctor,
      loaded = False, midiPending = False, accessListener = False, startListener = False,
      startDisabled = False, uncaught = []\<rparr>"

datatype event =
    DomContentLoaded
  | MidiAccessResolved "midi_port list"
  | MidiAccessRejected
  | StartClick
  | PortStateChange midi_port
  | MidiMessage midi_port byte byte byte

text \<open>
  \<open>disableStartBtn({ btnText })\<close> destructures its argument before its body runs:
  called without an argument it throws a \<open>TypeError\<close> and leaves the button enabled.
\<close>

definition disableStartBtn :: "string option \<Rightarrow> app \<Rightarrow> app js" where
  "disableStartBtn arg a =
     (case arg of
        None \<Rightarrow> Throw TypeError a
      | Some btnText \<Rightarrow> Ret (a\<lparr>startDisabled := True\<rparr>))"

definition onDomContentLoaded :: "app \<Rightarrow> app js" where
  "onDomContentLoaded a =
     (if \<not> hasMidiApi a then disableStartBtn None a
      else Ret (a\<lparr>midiPending := True, startListener := True\<rparr>))"

definition onStartBtnClick :: "app \<Rightarrow> app js" where
  "onStartBtnClick a =
     disableStartBtn (Some ''Synth Running'') (a\<lparr>synth := createAudio (hasAudioCtor a) (synth a)\<rparr>)"

text \<open>
  The continuation of \<open>setupMidi\<close> after \<open>await navigator.requestMIDIAccess()\<close>:
  on success it registers \<open>onStateChange\<close> on the access object and enables every
  input in order; on rejection the \<open>catch\<close> only logs.
\<close>

definition setupMidi_resolved :: "midi_port list \<Rightarrow> app \<Rightarrow> app" where
  "setupMidi_resolved inputs a =
     a\<lparr>midiPending := False, accessListener := True,
       midi := fold enableMidiInput inputs (midi a)\<rparr>"

definition setupMidi_rejected :: "app \<Rightarrow> app" where
  "setupMidi_rejected a = a\<lparr>midiPending := False\<rparr>"

definition deliver :: "(app \<Rightarrow> app js) \<Rightarrow> app \<Rightarrow> app" where
  "deliver h a =
     (case h a of
        Ret a' \<Rightarrow> a'
      | Throw e a' \<Rightarrow> a'\<lparr>uncaught := uncaught a' @ [e]\<rparr>)"

definition midi_handler :: "byte \<Rightarrow> byte \<Rightarrow> byte \<Rightarrow> app \<Rightarrow> app js" where
  "midi_handler statusByte data1 data2 a =
     js_map (\<lambda>s. a\<lparr>synth := s\<rparr>) (onMidiMessage statusByte data1 data2 (synth a))"

text \<open>
  A port's state change is dispatched first to the port (where midiSynth.js registered
  \<open>onStateChange\<close> when it enabled the port), then to the MIDI access object.
\<close>

fun app_step :: "app \<Rightarrow> event \<Rightarrow> app" where
  "app_step a DomContentLoaded = deliver onDomContentLoaded (a\<lparr>loaded := True\<rparr>)"
| "app_step a (MidiAccessResolved inputs) = setupMidi_resolved inputs a"
| "app_step a MidiAccessRejected = setupMidi_rejected a"
| "app_step a StartClick =
     (if startListener a \<and> \<not> startDisabled a then deliver onStartBtnClick a else a)"
| "app_step a (PortStateChange p) =
     (let a1 = (if (port_id p, OnStateChange) \<in> listeners (midi a)
                then a\<lparr>midi := onStateChange p (midi a)\<rparr> else a)
      in if accessListener a1 then a1\<lparr>midi := onStateChange p (midi a1)\<rparr> else a1)"
| "app_step a (MidiMessage p statusByte data1 data2) =
     (if subscribed (midi a) (port_id p) then deliver (midi_handler statusByte data1 data2) a
      else a)"

text \<open>
  What the environment can do: the document loads once; the access request settles once
  after it was made; the ports it reports are inputs whose names are given by
  \<open>name_of\<close>; clicks and messages may come at any time.
\<close>

fun env_ok :: "(nat \<Rightarrow> string) \<Rightarrow> app \<Rightarrow> event \<Rightarrow> bool" where
  "env_ok name_of a DomContentLoaded = (\<not> loaded a)"
| "env_ok name_of a (MidiAccessResolved inputs) =
     (midiPending a \<and> (\<forall>p \<in> set inputs. port_of name_of p \<and> port_type p = Input))"
| "env_ok name_of a MidiAccessRejected = midiPending a"
| "env_ok name_of a (PortStateChange p) = port_of name_of p"
| "env_ok name_of a StartClick = True"
| "env_ok name_of a (MidiMessage p statusByte data1 data2) = True"

inductive reachable :: "(nat \<Rightarrow> string) \<Rightarrow> app \<Rightarrow> bool" for name_of where
  init: "reachable name_of (app_init midi_api audio_ctor)"
| step: "reachable name_of a \<Longrightarrow> env_ok name_of a e \<Longrightarrow> reachable name_of (app_step a e)"

text \<open>A run: a list of events the environment can deliver one after the other.\<close>

fun valid_run :: "(nat \<Rightarrow> string) \<Rightarrow> app \<Rightarrow> event list \<Rightarrow> bool" where
  "valid_run name_of a [] = True"
| "valid_run name_of a (e # es) = (env_ok name_of a e \<and> valid_run name_of (app_step a e) es)"

text \<open>
  The page invariant: the synthesiser invariant; the audio context exists only behind a
  disabled start button; the access listener exists before any port listener; with Web
  MIDI no exception escapes; without it the one escaping exception is the
  \<open>TypeError\<close> of loading; and before the audio context exists the synthesiser
  is untouched.
\<close>

definition app_inv :: "app \<Rightarrow> bool" where
  "app_inv a \<longleftrightarrow>
     synth_inv (synth a) \<and>
     (audioContext (synth a) \<longrightarrow> startDisabled a) \<and>
     (startDisabled a \<longrightarrow> startListener a) \<and>
     (\<not> accessListener a \<longrightarrow> listeners (midi a) = {}) \<and>
     (hasMidiApi a \<longrightarrow> uncaught a = []) \<and>
     (\<not> hasMidiApi a \<longrightarrow> \<not> startListener a \<and> \<not> midiPending a \<and> \<not> accessListener a \<and>
        uncaught a = (if loaded a then [TypeError] else [])) \<and>
     (\<not> audioContext (synth a) \<longrightarrow> synth a = synth_init)"

lemma audioContext_playNote: "audioContext (js_state (playNote n v s)) = audioContext s"
  unfolding playNote_def Let_def by (auto simp: split_def split: js.splits)

lemma audioContext_stopNote: "audioContext (js_state (stopNote n s)) = audioContext s"
  by (auto simp: stopNote_def split: option.splits js.splits)

lemma audioContext_onMidiMessage:
  assumes "onMidiMessage st d1 d2 s = Ret s'"
  shows "audioContext s' = audioContext s"
proof -
  from assms obtain s1 s2 where
    1: "(if isNoteOn st then playNote d1 d2 s else Ret s) = Ret s1" and
    2: "(if isNoteOff st then stopNote d1 s1 else Ret s1) = Ret s2" and
    3: "s' = (if st = 224 then setMasterFilterFreq d2 (if st = 176 then controlChange d1 d2 s2 else s2)
              else (if st = 176 then controlChange d1 d2 s2 else s2))"
    unfolding onMidiMessage_def Let_def by fastforce
  have "audioContext s1 = audioContext s"
    using 1 audioContext_playNote [of d1 d2 s] by (auto split: if_splits)
  moreover have "audioContext s2 = audioContext s1"
    using 2 audioContext_stopNote [of d1 s1] by (auto split: if_splits)
  moreover have "audioContext s' = audioContext s2"
    using 3 by (simp add: controlChange_def setMasterGain_def setMasterFilterFreq_def split: option.splits)
  ultimately show ?thesis by simp
qed


lemma audioContext_synth_init [simp]: "\<not> audioContext synth_init"
  by (simp add: synth_init_def)

lemma app_inv_init: "app_inv (app_init midi_api audio_ctor)"
  by (simp add: app_inv_def app_init_def synth_inv_init midi_init_def)

lemma app_inv_DomContentLoaded:
  "app_inv a \<Longrightarrow> \<not> loaded a \<Longrightarrow> app_inv (app_step a DomContentLoaded)"
  by (auto simp: app_inv_def deliver_def onDomContentLoaded_def disableStartBtn_def)

text \<open>
  The two synthesiser facts both page invariants rest on: the start click leaves an
  idle synthesiser either untouched or running with its invariant, and a message keeps
  the invariant, the audio context, and an idle synthesiser idle, without throwing.
\<close>

lemma synth_start_click:
  assumes "synth_inv s" and "\<not> audioContext s"
  shows "synth_inv (createAudio c s) \<and> (\<not> audioContext (createAudio c s) \<longrightarrow> createAudio c s = s)"
  using synth_inv_createAudio [OF assms]
  by (auto simp: createAudio_def Let_def split: prod.splits)

lemma synth_message:
  assumes inv: "synth_inv s" and idle: "\<not> audioContext s \<longrightarrow> s = synth_init"
  shows "\<exists>s'. onMidiMessage st d1 d2 s = Ret s' \<and> synth_inv s' \<and>
           audioContext s' = audioContext s \<and> (\<not> audioContext s' \<longrightarrow> s' = synth_init)"
proof -
  obtain s' where s': "onMidiMessage st d1 d2 s = Ret s'" and i': "synth_inv s'"
    using synth_inv_onMidiMessage [OF inv] by blast
  have ctx: "audioContext s' = audioContext s"
    using s' by (rule audioContext_onMidiMessage)
  have "\<not> audioContext s' \<longrightarrow> s' = synth_init"
    using s' ctx idle onMidiMessage_idle [OF inv, of st d1 d2] by auto
  with s' i' ctx show ?thesis by blast
qed

lemma app_inv_StartClick:
  assumes inv: "app_inv a"
  shows "app_inv (app_step a StartClick)"
proof (cases "startListener a \<and> \<not> startDisabled a")
  case True
  then have idle: "\<not> audioContext (synth a)" and api: "hasMidiApi a"
    using inv by (auto simp: app_inv_def)
  have "synth_inv (synth a)" and "synth a = synth_init"
    using inv idle by (simp_all add: app_inv_def synth_inv_init)
  with idle have "synth_inv (createAudio (hasAudioCtor a) (synth a)) \<and>
      (\<not> audioContext (createAudio (hasAudioCtor a) (synth a)) \<longrightarrow>
       createAudio (hasAudioCtor a) (synth a) = synth_init)"
    using synth_start_click by metis
  then show ?thesis
    using True inv api by (simp add: app_inv_def deliver_def onStartBtnClick_def disableStartBtn_def)
next
  case False
  then have "app_step a StartClick = a" by auto
  with inv show ?thesis by simp
qed

lemma app_inv_PortStateChange:
  "app_inv a \<Longrightarrow> app_inv (app_step a (PortStateChange p))"
  by (auto simp: app_inv_def Let_def)

lemma app_inv_MidiMessage:
  assumes inv: "app_inv a"
  shows "app_inv (app_step a (MidiMessage p st d1 d2))"
proof (cases "subscribed (midi a) (port_id p)")
  case True
  then have api: "hasMidiApi a" using inv by (auto simp: app_inv_def subscribed_def)
  obtain s' where "onMidiMessage st d1 d2 (synth a) = Ret s'" "synth_inv s'"
    "audioContext s' = audioContext (synth a)" "\<not> audioContext s' \<longrightarrow> s' = synth_init"
    using synth_message [of "synth a" st d1 d2] inv by (auto simp: app_inv_def)
  then show ?thesis
    using True inv api by (auto simp: app_inv_def deliver_def midi_handler_def)
next
  case False
  then show ?thesis using inv by simp
qed

lemma app_inv_MidiAccessResolved:
  "app_inv a \<Longrightarrow> midiPending a \<Longrightarrow> app_inv (app_step a (MidiAccessResolved inputs))"
  by (simp add: app_inv_def setupMidi_resolved_def)

lemma app_inv_MidiAccessRejected: "app_inv a \<Longrightarrow> app_inv (app_step a MidiAccessRejected)"
  by (simp add: app_inv_def setupMidi_rejected_def)

lemma app_inv_step:
  assumes "app_inv a" and "env_ok name_of a e"
  shows "app_inv (app_step a e)"
  using assms
  by (cases e) (simp_all add: app_inv_DomContentLoaded app_inv_MidiAccessResolved
    app_inv_MidiAccessRejected app_inv_StartClick app_inv_PortStateChange app_inv_MidiMessage
    del: app_step.simps)

lemma reachable_app_inv: "reachable name_of a \<Longrightarrow> app_inv a"
  by (induction rule: reachable.induct) (auto intro: app_inv_init app_inv_step)


lemma registry_inv_fold_enable:
  "registry_inv name_of ms \<Longrightarrow> \<forall>p \<in> set ps. port_of name_of p \<Longrightarrow>
   registry_inv name_of (fold enableMidiInput ps ms)"
  by (induction ps arbitrary: ms) (simp_all add: registry_inv_enable)

lemma app_step_PortStateChange:
  "app_step a (PortStateChange p) =
     (if (port_id p, OnStateChange) \<in> listeners (midi a) \<or> accessListener a
      then a\<lparr>midi := onStateChange p (midi a)\<rparr> else a)"
  by (simp add: Let_def onStateChange_idem)

lemma registry_inv_step:
  assumes inv: "registry_inv name_of (midi a)" and env: "env_ok name_of a e" and inj: "inj name_of"
  shows "registry_inv name_of (midi (app_step a e))"
proof (cases e)
  case (MidiAccessResolved inputs)
  then show ?thesis
    using inv env by (simp add: setupMidi_resolved_def registry_inv_fold_enable)
next
  case (PortStateChange p)
  then show ?thesis
    using inv env inj by (simp add: app_step_PortStateChange registry_inv_onStateChange)
next
  case DomContentLoaded
  then show ?thesis
    using inv by (simp add: deliver_def onDomContentLoaded_def disableStartBtn_def)
next
  case StartClick
  then show ?thesis
    using inv by (simp add: deliver_def onStartBtnClick_def disableStartBtn_def)
next
  case (MidiMessage p st d1 d2)
  obtain s' where "onMidiMessage st d1 d2 (synth a) = Ret s' \<or> (\<exists>err. onMidiMessage st d1 d2 (synth a) = Throw err s')"
    by (cases "onMidiMessage st d1 d2 (synth a)") auto
  then show ?thesis
    using MidiMessage inv by (auto simp: deliver_def midi_handler_def)
next
  case MidiAccessRejected
  then show ?thesis
    using inv by (simp add: setupMidi_rejected_def)
qed

lemma reachable_registry_inv_aux:
  "reachable name_of a \<Longrightarrow> inj name_of \<Longrightarrow> registry_inv name_of (midi a)"
  by (induction rule: reachable.induct)
     (simp_all add: app_init_def registry_inv_init registry_inv_step del: app_step.simps)


lemma reachable_valid_run:
  "reachable name_of a \<Longrightarrow> valid_run name_of a es \<Longrightarrow> reachable name_of (foldl app_step a es)"
  by (induction es arbitrary: a) (auto intro: reachable.step simp del: app_step.simps)

lemma reachable_loaded:
  "reachable name_of (app_step (app_init midi_api audio_ctor) DomContentLoaded)"
  by (rule reachable.step [OF reachable.init]) (simp add: app_init_def)

lemma reachable_started:
  "reachable name_of (app_step (app_step (app_init True audio_ctor) DomContentLoaded) StartClick)"
  by (rule reachable.step [OF reachable_loaded]) simp

lemma started_app:
  "synth (app_step (app_step (app_init True True) DomContentLoaded) StartClick) =
     createAudio True synth_init"
  "startDisabled (app_step (app_step (app_init True True) DomContentLoaded) StartClick)"
  by (simp_all add: app_init_def deliver_def onDomContentLoaded_def onStartBtnClick_def
      disableStartBtn_def)

text \<open>C1: every state reached by the page satisfies the synthesiser invariant.\<close>

theorem reachable_synth_inv: "reachable name_of a \<Longrightarrow> synth_inv (synth a)"
  using reachable_app_inv by (auto simp: app_inv_def)

theorem reachable_synth_inv_witness:
  "reachable (\<lambda>i. replicate i CHR ''k'') (app_init True True) \<and> synth_inv (synth (app_init True True))"
  using reachable_synth_inv [OF reachable.init] reachable.init by blast

text \<open>C11: with MIDI support no exception ever escapes a listener.\<close>

theorem reachable_no_uncaught:
  "reachable name_of a \<Longrightarrow> hasMidiApi a \<Longrightarrow> uncaught a = []"
  using reachable_app_inv by (auto simp: app_inv_def)

theorem reachable_no_uncaught_witness:
  "reachable (\<lambda>i. replicate i CHR ''k'') (app_step (app_init True True) DomContentLoaded) \<and>
   hasMidiApi (app_step (app_init True True) DomContentLoaded) \<and>
   uncaught (app_step (app_init True True) DomContentLoaded) = []"
proof -
  have r: "reachable (\<lambda>i. replicate i CHR ''k'') (app_step (app_init True True) DomContentLoaded)"
    by (rule reachable_loaded)
  have "hasMidiApi (app_step (app_init True True) DomContentLoaded)"
    by (simp add: app_init_def deliver_def onDomContentLoaded_def)
  with r show ?thesis using reachable_no_uncaught [OF r] by simp
qed


text \<open>
  C12: in a browser without \<open>navigator.requestMIDIAccess\<close> the page is permanently
  silent: the synthesiser keeps its initial state, no MIDI listener is ever registered,
  and loading the document raised exactly one \<open>TypeError\<close> (the argument-less
  call of \<open>disableStartBtn\<close>), which left the start button enabled but inert.
\<close>

theorem reachable_no_midi_api:
  "reachable name_of a \<Longrightarrow> \<not> hasMidiApi a \<Longrightarrow>
     synth a = synth_init \<and> listeners (midi a) = {} \<and> \<not> startDisabled a \<and>
     uncaught a = (if loaded a then [TypeError] else [])"
  using reachable_app_inv by (auto simp: app_inv_def)

theorem reachable_no_midi_api_witness:
  "reachable (\<lambda>i. replicate i CHR ''k'') (app_step (app_init False True) DomContentLoaded) \<and>
   \<not> hasMidiApi (app_step (app_init False True) DomContentLoaded) \<and>
   uncaught (app_step (app_init False True) DomContentLoaded) = [TypeError]"
proof -
  have r: "reachable (\<lambda>i. replicate i CHR ''k'') (app_step (app_init False True) DomContentLoaded)"
    by (rule reachable_loaded)
  have "\<not> hasMidiApi (app_step (app_init False True) DomContentLoaded)"
    and "loaded (app_step (app_init False True) DomContentLoaded)"
    by (simp_all add: app_init_def deliver_def onDomContentLoaded_def disableStartBtn_def)
  with r show ?thesis using reachable_no_midi_api [OF r] by simp
qed

text \<open>
  C13: until a start click has created the audio context, the synthesiser is in its
  initial state: no node exists, no key is registered, nothing sounds.
\<close>

theorem reachable_idle_silent:
  "reachable name_of a \<Longrightarrow> \<not> audioContext (synth a) \<Longrightarrow> synth a = synth_init"
  using reachable_app_inv by (auto simp: app_inv_def)

theorem reachable_idle_silent_witness:
  "reachable (\<lambda>i. replicate i CHR ''k'') (app_init True True) \<and>
   \<not> audioContext (synth (app_init True True)) \<and> synth (app_init True True) = synth_init"
proof -
  have r: "reachable (\<lambda>i. replicate i CHR ''k'') (app_init True True)"
    by (rule reachable.init)
  have "\<not> audioContext (synth (app_init True True))"
    by (simp add: app_init_def)
  with r show ?thesis using reachable_idle_silent [OF r] by simp
qed

text \<open>
  C2: in every reachable state the audio graph is well typed: every connection goes
  from an oscillator to a gain stage, from a gain stage to a gain stage or the filter, or
  from the filter to the destination, between allocated nodes.
\<close>

theorem reachable_graph_typed:
  "reachable name_of a \<Longrightarrow> graph_typed (audio (synth a))"
proof (induction rule: reachable.induct)
  case (init midi_api audio_ctor)
  then show ?case by (simp add: app_init_def synth_init_def graph_typed_empty)
next
  case (step a e)
  have inv: "synth_inv (synth a)" using reachable_app_inv [OF step.hyps(1)] by (simp add: app_inv_def)
  then have wf: "graph_wf (audio (synth a))" by (simp add: synth_inv_def)
  show ?case
  proof (cases e)
    case StartClick
    then show ?thesis
      using step.IH graph_typed_createAudio [OF wf step.IH]
      by (simp add: deliver_def onStartBtnClick_def disableStartBtn_def)
  next
    case (MidiMessage p st d1 d2)
    obtain s' where "onMidiMessage st d1 d2 (synth a) = Ret s'"
      using synth_inv_onMidiMessage [OF inv] by blast
    then show ?thesis
      using MidiMessage step.IH graph_typed_onMidiMessage [OF inv step.IH]
      by (simp add: deliver_def midi_handler_def)
  next
    case (PortStateChange p)
    then show ?thesis
      using step.IH by (simp add: app_step_PortStateChange del: app_step.simps)
  next
    case DomContentLoaded
    then show ?thesis
      using step.IH by (simp add: deliver_def onDomContentLoaded_def disableStartBtn_def)
  qed (use step.IH in \<open>simp_all add: setupMidi_resolved_def setupMidi_rejected_def\<close>)
qed

theorem reachable_graph_typed_witness:
  "reachable (\<lambda>i. replicate i CHR ''k'') (app_step (app_step (app_init True True) DomContentLoaded) StartClick) \<and>
   graph_typed (audio (synth (app_step (app_step (app_init True True) DomContentLoaded) StartClick)))"
  using reachable_graph_typed [OF reachable_started] reachable_started by blast

text \<open>
  C14: once the audio context exists the start button is disabled, so a further click
  does nothing: \<open>createAudio\<close> runs at most once.
\<close>

theorem start_once:
  "reachable name_of a \<Longrightarrow> audioContext (synth a) \<Longrightarrow> app_step a StartClick = a"
  using reachable_app_inv by (auto simp: app_inv_def)

theorem start_once_witness:
  "reachable (\<lambda>i. replicate i CHR ''k'') (app_step (app_step (app_init True True) DomContentLoaded) StartClick) \<and>
   audioContext (synth (app_step (app_step (app_init True True) DomContentLoaded) StartClick)) \<and>
   app_step (app_step (app_step (app_init True True) DomContentLoaded) StartClick) StartClick =
     app_step (app_step (app_init True True) DomContentLoaded) StartClick"
proof -
  have r: "reachable (\<lambda>i. replicate i CHR ''k'') (app_step (app_step (app_init True True) DomContentLoaded) StartClick)"
    by (rule reachable_started)
  have c: "audioContext (synth (app_step (app_step (app_init True True) DomContentLoaded) StartClick))"
    unfolding started_app by (simp add: started_facts)
  show ?thesis using start_once [OF r c] r c by blast
qed


text \<open>
  C4: with unique port names, a MIDI message from a port reaches \<open>onMidiMessage\<close>
  exactly when the registry \<open>midiPorts\<close> holds that port under its name; every other
  message is dropped by the browser, as no listener is registered for it.
\<close>

theorem message_routing:
  assumes "reachable name_of a" and "inj name_of"
  shows "app_step a (MidiMessage p statusByte data1 data2) =
    (if \<exists>q. midiPorts (midi a) (name_of (port_id p)) = Some q \<and> port_id q = port_id p
     then deliver (midi_handler statusByte data1 data2) a else a)"
proof -
  have inv: "registry_inv name_of (midi a)"
    using assms by (rule reachable_registry_inv_aux)
  have "subscribed (midi a) (port_id p) \<longleftrightarrow>
      (\<exists>q. midiPorts (midi a) (name_of (port_id p)) = Some q \<and> port_id q = port_id p)"
  proof
    assume "subscribed (midi a) (port_id p)"
    then show "\<exists>q. midiPorts (midi a) (name_of (port_id p)) = Some q \<and> port_id q = port_id p"
      using inv unfolding registry_inv_def subscribed_def by blast
  next
    assume "\<exists>q. midiPorts (midi a) (name_of (port_id p)) = Some q \<and> port_id q = port_id p"
    then obtain q where "midiPorts (midi a) (name_of (port_id p)) = Some q" "port_id q = port_id p"
      by blast
    then show "subscribed (midi a) (port_id p)"
      using inv unfolding registry_inv_def subscribed_def by metis
  qed
  then show ?thesis by (simp only: app_step.simps)
qed

theorem message_routing_witness:
  "reachable (\<lambda>i. replicate i CHR ''k'') (app_init True True) \<and> inj (\<lambda>i. replicate i CHR ''k'') \<and>
   app_step (app_init True True) (MidiMessage \<lparr>port_id = 1, port_name = ''k'', port_type = Input,
     port_state = Connected\<rparr> 144 60 90) = app_init True True"
proof -
  have r: "reachable (\<lambda>i. replicate i CHR ''k'') (app_init True True)"
    by (rule reachable.init)
  show ?thesis
    using message_routing [OF r inj_name_k, of "\<lparr>port_id = 1, port_name = ''k'', port_type = Input,
     port_state = Connected\<rparr>" 144 60 90] r inj_name_k
    by (simp add: app_init_def midi_init_def)
qed

text \<open>
  C5: a subscribed message is handled without an exception: the listener returns and the
  page's state is the synthesiser's new state.
\<close>

theorem message_no_exception:
  assumes "reachable name_of a"
  shows "\<exists>s'. onMidiMessage statusByte data1 data2 (synth a) = Ret s' \<and> synth_inv s' \<and>
    app_step a (MidiMessage p statusByte data1 data2) =
      (if subscribed (midi a) (port_id p) then a\<lparr>synth := s'\<rparr> else a)"
proof -
  obtain s' where "onMidiMessage statusByte data1 data2 (synth a) = Ret s'" "synth_inv s'"
    using synth_inv_onMidiMessage reachable_app_inv [OF assms] by (fastforce simp: app_inv_def)
  then show ?thesis by (simp add: deliver_def midi_handler_def)
qed

theorem message_no_exception_witness:
  "reachable (\<lambda>i. replicate i CHR ''k'') (app_init True True) \<and>
   (\<exists>s'. onMidiMessage 144 60 90 (synth (app_init True True)) = Ret s' \<and> synth_inv s' \<and>
    app_step (app_init True True) (MidiMessage \<lparr>port_id = 1, port_name = ''k'', port_type = Input,
     port_state = Connected\<rparr> 144 60 90) = app_init True True)"
proof -
  have r: "reachable (\<lambda>i. replicate i CHR ''k'') (app_init True True)"
    by (rule reachable.init)
  show ?thesis
    using message_no_exception [OF r, of 144 60 90 "\<lparr>port_id = 1, port_name = ''k'', port_type = Input,
     port_state = Connected\<rparr>"] r
    by (simp add: subscribed_def app_init_def midi_init_def)
qed

text \<open>
  C15: a port state change is handled once in effect: the port's own
  \<open>statechange\<close> listener and the access object's both run \<open>onStateChange\<close>, and
  the result is that of a single run, applied exactly when the access listener exists.
\<close>

theorem statechange_single_delivery:
  "reachable name_of a \<Longrightarrow>
   app_step a (PortStateChange p) =
     (if accessListener a then a\<lparr>midi := onStateChange p (midi a)\<rparr> else a)"
proof -
  assume "reachable name_of a"
  then have "\<not> accessListener a \<longrightarrow> listeners (midi a) = {}"
    using reachable_app_inv by (simp add: app_inv_def)
  then show ?thesis
    by (simp add: app_step_PortStateChange del: app_step.simps)
qed

theorem statechange_single_delivery_witness:
  "reachable (\<lambda>i. replicate i CHR ''k'') (app_init True True) \<and>
   app_step (app_init True True) (PortStateChange \<lparr>port_id = 1, port_name = ''k'', port_type = Input,
     port_state = Connected\<rparr>) = app_init True True"
proof -
  have r: "reachable (\<lambda>i. replicate i CHR ''k'') (app_init True True)"
    by (rule reachable.init)
  show ?thesis
    using statechange_single_delivery [OF r, of "\<lparr>port_id = 1, port_name = ''k'', port_type = Input,
     port_state = Connected\<rparr>"] r
    by (simp add: app_init_def)
qed


lemmas app_eval = app_init_def deliver_def onDomContentLoaded_def onStartBtnClick_def
  disableStartBtn_def setupMidi_resolved_def setupMidi_rejected_def midi_handler_def
  midi_init_def

text \<open>
  C16: releasing is always possible: in every reachable state, a NoteOff for a held note
  arriving from a subscribed port removes the note from the registry and stops its
  oscillator, without an exception.
\<close>

theorem release_progress:
  assumes r: "reachable name_of a" and sub: "subscribed (midi a) (port_id p)"
    and held: "pressedKeys (synth a) n = Some osc" and off: "isNoteOff st"
  shows "pressedKeys (synth (app_step a (MidiMessage p st n v))) n = None \<and>
         osc \<notin> sounding (audio (synth (app_step a (MidiMessage p st n v)))) \<and>
         uncaught (app_step a (MidiMessage p st n v)) = uncaught a"
proof -
  have inv: "synth_inv (synth a)" using reachable_app_inv [OF r] by (simp add: app_inv_def)
  have run: "audioContext (synth a)" using inv held by (auto simp: synth_inv_def split: if_splits)
  obtain m f where "\<forall>k o'. pressedKeys (synth a) k = Some o' \<longrightarrow> voice_ok (audio (synth a)) m k o'"
    using synth_inv_running [OF inv run] by blast
  with held have node: "nodes (audio (synth a)) osc = Some (OscillatorNode Square (midiNoteToFreq n) Started)"
    by (auto simp: voice_ok_def)
  have "onMidiMessage st n v (synth a) = stopNote n (synth a)"
    using off status_classes_disjoint [of st] by (auto simp: onMidiMessage_def)
  with stopNote_held [OF held node] sub show ?thesis
    by (simp add: deliver_def midi_handler_def sounding_def)
qed

theorem release_progress_witness:
  "let kb = \<lparr>port_id = 1, port_name = ''k'', port_type = Input, port_state = Connected\<rparr>;
       a = foldl app_step (app_init True True)
             [DomContentLoaded, MidiAccessResolved [kb], StartClick, MidiMessage kb 144 60 90]
   in reachable (\<lambda>i. replicate i CHR ''k'') a \<and> subscribed (midi a) (port_id kb) \<and>
      pressedKeys (synth a) 60 = Some 2 \<and> isNoteOff 128 \<and>
      pressedKeys (synth (app_step a (MidiMessage kb 128 60 0))) 60 = None \<and>
      2 \<notin> sounding (audio (synth (app_step a (MidiMessage kb 128 60 0)))) \<and>
      uncaught (app_step a (MidiMessage kb 128 60 0)) = uncaught a"
proof -
  define kb where "kb = \<lparr>port_id = 1, port_name = ''k'', port_type = Input, port_state = Connected\<rparr>"
  define a where "a = foldl app_step (app_init True True)
             [DomContentLoaded, MidiAccessResolved [kb], StartClick, MidiMessage kb 144 60 90]"
  have r: "reachable (\<lambda>i. replicate i CHR ''k'') a"
    unfolding a_def
    by (rule reachable_valid_run [OF reachable.init]) (simp add: kb_def app_eval port_of_def)
  have s: "subscribed (midi a) (port_id kb)"
    by (simp add: a_def kb_def app_eval synth_eval enableMidiInput_def js_truthy_get_def
        object_prototype_keys_def subscribed_def)
  have "pressedKeys (synth a) 60 = Some (Suc (Suc 0))"
    by (simp add: a_def kb_def app_eval synth_eval enableMidiInput_def js_truthy_get_def
        object_prototype_keys_def subscribed_def)
  then have k: "pressedKeys (synth a) 60 = Some 2"
    by (simp add: numeral_2_eq_2)
  have off: "isNoteOff 128" by (simp add: isNoteOff_def)
  show ?thesis
    using release_progress [OF r s k off, of 0] r s k off
    unfolding kb_def [symmetric] a_def [symmetric] Let_def by blast
qed


text \<open>
  An end-to-end run with one keyboard: the document loads, MIDI access is granted
  with the keyboard, the start button is clicked, and the keyboard plays middle C and
  releases it. While the key is held one oscillator sounds; after release nothing sounds,
  the key registry is empty and no exception was raised.
\<close>

lemma scenario_end_to_end:
  "let kb = \<lparr>port_id = 1, port_name = ''k'', port_type = Input, port_state = Connected\<rparr>;
       a3 = app_step (app_step (app_step (app_init True True) DomContentLoaded)
              (MidiAccessResolved [kb])) StartClick;
       a4 = app_step a3 (MidiMessage kb 144 60 90);
       a5 = app_step a4 (MidiMessage kb 128 60 0)
   in sounding (audio (synth a4)) = {2} \<and> sounding (audio (synth a5)) = {} \<and>
      pressedKeys (synth a5) = Map.empty \<and> uncaught a5 = []"
  by (simp add: app_eval synth_eval enableMidiInput_def js_truthy_get_def object_prototype_keys_def
      subscribed_def sounding_def) (auto simp: numeral_2_eq_2)

text \<open>
  The same page in a browser without Web MIDI: loading raises one
  \<open>TypeError\<close>, and neither a click, a MIDI message nor a port change does anything.
\<close>

theorem scenario_no_midi:
  "let kb = \<lparr>port_id = 1, port_name = ''k'', port_type = Input, port_state = Connected\<rparr>;
       a1 = app_step (app_init False True) DomContentLoaded
   in uncaught a1 = [TypeError] \<and> app_step a1 StartClick = a1 \<and>
      app_step a1 (MidiMessage kb 144 60 90) = a1 \<and> app_step a1 (PortStateChange kb) = a1"
  by (simp add: app_eval subscribed_def)

end
