(* ===== verification/Class_Methods.thy ===== *)
theory Class_Methods
  imports Session
begin

text \<open>
  The methods of the class \<open>MidiSynth\<close> (src/unnamed/part_000 lines 457--707) that
  change the synthesiser or the registry, one definition per method, each calling the
  other methods as \<open>this.m(...)\<close> does. The instance fields \<open>this.audioContext\<close>,
  \<open>this.masterGainNode\<close>, \<open>this.masterFilter\<close>, \<open>this.pressedKeys\<close> and
  \<open>this.midiPorts\<close> are the fields of \<open>synth\<close> and \<open>midi_state\<close>, initialised by
  the constructor (lines 459--477) to the values of \<open>synth_init\<close> and \<open>midi_init\<close>
  (\<open>null\<close> and \<open>undefined\<close> are both falsy, which is all the methods test). The
  pure helpers \<open>isNoteOn\<close>, \<open>isNoteOff\<close>, \<open>midiNoteToFreq\<close> and
  \<open>midiVelocityToGain\<close> (lines 578--593) have the bodies of the functions of the same
  name in midiSynth.js and use their definitions.

  The lemmas show that each method computes what the function of the same name in
  midiSynth.js, or of the first part_000 variant, computes: the class differs from them
  only in \<open>createFilter\<close> and in the way its methods are reached.
\<close>

definition createOscillator_class :: "real \<Rightarrow> audio_graph \<Rightarrow> node_id \<times> audio_graph" where
  "createOscillator_class frequency g =
     (let (osc, g1) = ctx_createOscillator g;
          g2 = update_node osc (set_osc_type Square) g1
      in (osc, update_node osc (set_osc_frequency frequency) g2))"

definition createGain_class ::
  "real \<Rightarrow> node_id option \<Rightarrow> audio_graph \<Rightarrow> (node_id \<times> audio_graph) js" where
  "createGain_class value master g =
     (let (gainNode, g1) = ctx_createGain g
      in case master of
           None \<Rightarrow> Throw TypeError (gainNode, g1)
         | Some m \<Rightarrow>
             Ret (gainNode, update_node gainNode (set_gain_value value)
                              (node_connect gainNode (ToNode m) g1)))"

definition playNote_class :: "byte \<Rightarrow> byte \<Rightarrow> synth \<Rightarrow> synth js" where
  "playNote_class note velocity this =
     (if \<not> audioContext this then Ret this
      else
        (let freq = midiNoteToFreq note;
             (osc, g1) = createOscillator_class freq (audio this);
             gainVal = midiVelocityToGain velocity
         in case createGain_class gainVal (masterGainNode this) g1 of
              Throw e (_, g2) \<Rightarrow> Throw e (this\<lparr>audio := g2\<rparr>)
            | Ret (gainNode, g2) \<Rightarrow>
                (let g3 = node_connect osc (ToNode gainNode) g2;
                     this3 = this\<lparr>audio := g3, pressedKeys := (pressedKeys this)(note \<mapsto> osc)\<rparr>
                 in case osc_start osc g3 of
                      Throw e g4 \<Rightarrow> Throw e (this3\<lparr>audio := g4\<rparr>)
                    | Ret g4 \<Rightarrow> Ret (this3\<lparr>audio := g4\<rparr>))))"

definition stopNote_class :: "byte \<Rightarrow> synth \<Rightarrow> synth js" where
  "stopNote_class note this =
     (case pressedKeys this note of
        None \<Rightarrow> Ret this
      | Some osc \<Rightarrow>
          (case osc_stop osc (audio this) of
             Throw e g \<Rightarrow> Throw e (this\<lparr>audio := g\<rparr>)
           | Ret g \<Rightarrow> Ret (this\<lparr>audio := g, pressedKeys := (pressedKeys this)(note := None)\<rparr>)))"

definition setMasterGain_class :: "real \<Rightarrow> synth \<Rightarrow> synth" where
  "setMasterGain_class value this =
     (case masterGainNode this of
        None \<Rightarrow> this
      | Some m \<Rightarrow> this\<lparr>audio := update_node m (set_gain_value value) (audio this)\<rparr>)"

definition setMasterFilterFreq_class :: "byte \<Rightarrow> synth \<Rightarrow> synth" where
  "setMasterFilterFreq_class data this =
     (case masterFilter this of
        None \<Rightarrow> this
      | Some f \<Rightarrow>
          this\<lparr>audio := update_node f (set_filter_frequency (pitchBendToFilterFreq data)) (audio this)\<rparr>)"

definition onMidiMessage_class :: "byte \<Rightarrow> byte \<Rightarrow> byte \<Rightarrow> synth \<Rightarrow> synth js" where
  "onMidiMessage_class statusByte data1 data2 this =
     (if isNoteOn statusByte then playNote_class data1 data2 this
      else if isNoteOff statusByte then stopNote_class data1 this
      else if statusByte = 176 then
        Ret (if data1 = 1 then this
             else if data1 = 7 then setMasterGain_class (controlVolumeToGain data2) this
             else this)
      else if statusByte = 224 then Ret (setMasterFilterFreq_class data2 this)
      else Ret this)"

definition enableMidiInput_class :: "midi_port \<Rightarrow> midi_state \<Rightarrow> midi_state" where
  "enableMidiInput_class input this =
     (if js_truthy_get (midiPorts this) (port_name input) then this
      else this\<lparr>listeners := insert (port_id input, OnMidiMessage) (listeners this),
                midiPorts := (midiPorts this)(port_name input \<mapsto> input)\<rparr>)"

definition disableMidiInput_class :: "midi_port \<Rightarrow> midi_state \<Rightarrow> midi_state" where
  "disableMidiInput_class input this =
     (if \<not> js_truthy_get (midiPorts this) (port_name input) then this
      else this\<lparr>listeners := listeners this - {(port_id input, OnMidiMessage)},
                midiPorts := (midiPorts this)(port_name input := None)\<rparr>)"

definition onStateChange_class :: "midi_port \<Rightarrow> midi_state \<Rightarrow> midi_state" where
  "onStateChange_class port this =
     (if port_type port = Input then
        (case port_state port of
           Connected \<Rightarrow> enableMidiInput_class port this
         | Disconnected \<Rightarrow> disableMidiInput_class port this)
      else this)"

definition disableStartBtn_class :: "string option \<Rightarrow> app \<Rightarrow> app js" where
  "disableStartBtn_class arg a =
     (case arg of
        None \<Rightarrow> Throw TypeError a
      | Some btnText \<Rightarrow> Ret (a\<lparr>startDisabled := True\<rparr>))"

subsection \<open>The methods compute the functions of the other variants\<close>

lemma createOscillator_class_eq: "createOscillator_class = createOscillator"
  by (simp add: fun_eq_iff createOscillator_class_def createOscillator_def)

lemma createGain_class_eq: "createGain_class = createGain"
  by (simp add: fun_eq_iff createGain_class_def createGain_def)

lemma playNote_class_eq: "playNote_class = playNote"
  by (simp add: fun_eq_iff playNote_class_def playNote_def createOscillator_class_eq createGain_class_eq)

lemma stopNote_class_eq: "stopNote_class = stopNote"
  by (simp add: fun_eq_iff stopNote_class_def stopNote_def)

lemma setMasterGain_class_eq: "setMasterGain_class = setMasterGain"
  by (simp add: fun_eq_iff setMasterGain_class_def setMasterGain_def)

lemma setMasterFilterFreq_class_eq: "setMasterFilterFreq_class = setMasterFilterFreq"
  by (simp add: fun_eq_iff setMasterFilterFreq_class_def setMasterFilterFreq_def)

lemma onMidiMessage_class_eq: "onMidiMessage_class = onMidiMessage_chain"
  by (simp add: fun_eq_iff onMidiMessage_class_def onMidiMessage_chain_def controlChange_def
      playNote_class_eq stopNote_class_eq setMasterGain_class_eq setMasterFilterFreq_class_eq)

lemma enableMidiInput_class_eq: "enableMidiInput_class = enableMidiInput_v1"
  by (simp add: fun_eq_iff enableMidiInput_class_def enableMidiInput_v1_def)

lemma disableMidiInput_class_eq: "disableMidiInput_class = disableMidiInput_v1"
  by (simp add: fun_eq_iff disableMidiInput_class_def disableMidiInput_v1_def)

lemma onStateChange_class_eq: "onStateChange_class = onStateChange_v1"
  by (simp add: fun_eq_iff onStateChange_class_def onStateChange_v1_def enableMidiInput_class_eq
      disableMidiInput_class_eq split: port_state.split)

lemma disableStartBtn_class_eq: "disableStartBtn_class = disableStartBtn"
  by (simp add: fun_eq_iff disableStartBtn_class_def disableStartBtn_def)

lemmas class_methods_eq = onMidiMessage_class_eq onStateChange_class_eq enableMidiInput_class_eq
  disableStartBtn_class_eq

end
