(* ===== verification/Class_Variant.thy ===== *)
theory Class_Variant
  imports Class_Methods
begin

text \<open>
  The class variant of the page, src/unnamed/part_000 lines 457--714: a class
  \<open>MidiSynth\<close> whose fields are the globals of midiSynth.js, created and started
  by the \<open>DOMContentLoaded\<close> listener (lines 709--713). Its methods differ from
  midiSynth.js in three places: \<open>createFilter\<close> writes \<open>frequency.value\<close>
  and \<open>Q.value\<close> (\<open>createFilter_class\<close>, used by \<open>createAudio_class\<close>);
  \<open>onMidiMessage\<close> is the \<open>else if\<close> chain (\<open>onMidiMessage_chain\<close>); and
  \<open>enableMidiInput\<close>/\<open>disableMidiInput\<close> subscribe only \<open>midimessage\<close>
  (the \<open>_v1\<close> functions), so port state changes reach only the access object's
  listener. \<open>app_step_class\<close> is the browser's dispatch for this page.

  \<open>blind_synth\<close> forgets the frequency and Q of filter nodes; \<open>page_sim\<close>
  relates two page states that agree up to \<open>blind_synth\<close> and \<open>midi_view\<close>.
  The lemmas show that every audio operation commutes with \<open>blind_synth\<close> and that
  \<open>page_sim\<close> is a simulation between the class page and midiSynth.js, one lemma
  per event; \<open>class_page_refinement\<close> lifts it to every valid run.
\<close>

fun erase_filter :: "audio_node \<Rightarrow> audio_node" where
  "erase_filter (BiquadFilterNode t f q) = BiquadFilterNode t 0 0"
| "erase_filter n = n"

definition blind_graph :: "audio_graph \<Rightarrow> audio_graph" where
  "blind_graph g = g\<lparr>nodes := map_option erase_filter \<circ> nodes g\<rparr>"

definition blind_synth :: "synth \<Rightarrow> synth" where
  "blind_synth s = s\<lparr>audio := blind_graph (audio s)\<rparr>"

definition createAudio_class :: "bool \<Rightarrow> synth \<Rightarrow> synth" where
  "createAudio_class has_ctor s =
     (if \<not> has_ctor then s
      else
        (let (master, g1) = ctx_createGain (audio s);
             g2 = update_node master (set_gain_value 0.5) g1;
             (filter, g3) = createFilter_class g2;
             g4 = node_connect master (ToNode filter) g3;
             g5 = node_connect filter ToDestination g4
         in s\<lparr>audio := g5, audioContext := True, masterGainNode := Some master,
              masterFilter := Some filter\<rparr>))"

definition start_class :: "app \<Rightarrow> app js" where
  "start_class a =
     (if \<not> hasMidiApi a then disableStartBtn_class None a
      else Ret (a\<lparr>midiPending := True, startListener := True\<rparr>))"

definition onStartBtnClick_class :: "app \<Rightarrow> app js" where
  "onStartBtnClick_class a =
     disableStartBtn_class (Some ''Synth Running'') (a\<lparr>synth := createAudio_class (hasAudioCtor a) (synth a)\<rparr>)"

definition setupMidi_resolved_class :: "midi_port list \<Rightarrow> app \<Rightarrow> app" where
  "setupMidi_resolved_class inputs a =
     a\<lparr>midiPending := False, accessListener := True,
       midi := fold enableMidiInput_class inputs (midi a)\<rparr>"

definition midi_handler_class :: "byte \<Rightarrow> byte \<Rightarrow> byte \<Rightarrow> app \<Rightarrow> app js" where
  "midi_handler_class statusByte data1 data2 a =
     js_map (\<lambda>s. a\<lparr>synth := s\<rparr>) (onMidiMessage_class statusByte data1 data2 (synth a))"

fun app_step_class :: "app \<Rightarrow> event \<Rightarrow> app" where
  "app_step_class a DomContentLoaded = deliver start_class (a\<lparr>loaded := True\<rparr>)"
| "app_step_class a (MidiAccessResolved inputs) = setupMidi_resolved_class inputs a"
| "app_step_class a MidiAccessRejected = setupMidi_rejected a"
| "app_step_class a StartClick =
     (if startListener a \<and> \<not> startDisabled a then deliver onStartBtnClick_class a else a)"
| "app_step_class a (PortStateChange p) =
     (if accessListener a then a\<lparr>midi := onStateChange_class p (midi a)\<rparr> else a)"
| "app_step_class a (MidiMessage p statusByte data1 data2) =
     (if subscribed (midi a) (port_id p) then deliver (midi_handler_class statusByte data1 data2) a
      else a)"

definition page_sim :: "app \<Rightarrow> app \<Rightarrow> bool" where
  "page_sim ac am \<longleftrightarrow>
     blind_synth (synth ac) = blind_synth (synth am) \<and> midi_view (midi ac) = midi_view (midi am) \<and>
     ac\<lparr>synth := synth_init, midi := midi_init\<rparr> = am\<lparr>synth := synth_init, midi := midi_init\<rparr>"

text \<open>
  No port carries a \<open>statechange\<close> listener: the class's \<open>enableMidiInput\<close>
  subscribes \<open>midimessage\<close> only.
\<close>

definition no_port_statechange :: "app \<Rightarrow> bool" where
  "no_port_statechange a \<longleftrightarrow> (\<forall>i. (i, OnStateChange) \<notin> listeners (midi a))"

declare class_methods_eq [simp]

subsection \<open>Filter-blind views of the audio state\<close>

lemma erase_filter_idem [simp]: "erase_filter (erase_filter n) = erase_filter n"
  by (cases n) simp_all

lemma blind_graph_idem [simp]: "blind_graph (blind_graph g) = blind_graph g"
  by (simp add: blind_graph_def comp_def option.map_comp)

lemma blind_graph_fields [simp]:
  "next_node (blind_graph g) = next_node g" "edges (blind_graph g) = edges g"
  by (simp_all add: blind_graph_def)

lemma nodes_blind_graph: "nodes (blind_graph g) i = map_option erase_filter (nodes g i)"
  by (simp add: blind_graph_def)

lemma add_node_blind:
  "erase_filter n = n \<Longrightarrow> add_node n (blind_graph g) = apsnd blind_graph (add_node n g)"
  by (simp add: add_node_def blind_graph_def fun_eq_iff)

lemma update_node_blind:
  "(\<And>n. erase_filter (h n) = h (erase_filter n)) \<Longrightarrow>
   update_node i h (blind_graph g) = blind_graph (update_node i h g)"
  by (simp add: update_node_def blind_graph_def fun_eq_iff option.map_comp comp_def)

lemma update_node_blind_weak:
  "(\<And>n. erase_filter (h (erase_filter n)) = erase_filter (h n)) \<Longrightarrow>
   blind_graph (update_node i h (blind_graph g)) = blind_graph (update_node i h g)"
  by (simp add: update_node_def blind_graph_def fun_eq_iff option.map_comp comp_def)

lemma node_connect_blind: "node_connect i t (blind_graph g) = blind_graph (node_connect i t g)"
  by (simp add: node_connect_def blind_graph_def)

lemma setters_erase [simp]:
  "erase_filter (set_osc_type t n) = set_osc_type t (erase_filter n)"
  "erase_filter (set_osc_frequency f n) = set_osc_frequency f (erase_filter n)"
  "erase_filter (set_gain_value v n) = set_gain_value v (erase_filter n)"
  "erase_filter (set_filter_frequency f (erase_filter n)) = erase_filter (set_filter_frequency f n)"
  by (cases n; simp)+

lemma createOscillator_blind:
  "createOscillator f (blind_graph g) = apsnd blind_graph (createOscillator f g)"
  by (simp add: createOscillator_def ctx_createOscillator_def add_node_blind split_def
      update_node_blind Let_def)

lemma createGain_blind:
  "createGain v m (blind_graph g) = js_map (apsnd blind_graph) (createGain v m g)"
  by (simp add: createGain_def ctx_createGain_def add_node_blind split_def update_node_blind
      node_connect_blind Let_def apsnd_def map_prod_def split: option.splits)

lemma osc_start_blind: "osc_start i (blind_graph g) = js_map blind_graph (osc_start i g)"
proof (cases "nodes g i")
  case (Some n)
  then show ?thesis
    by (cases n) (auto simp: osc_start_def nodes_blind_graph blind_graph_def fun_eq_iff
        split: playback.splits)
qed (simp add: osc_start_def nodes_blind_graph)

lemma osc_stop_blind: "osc_stop i (blind_graph g) = js_map blind_graph (osc_stop i g)"
proof (cases "nodes g i")
  case (Some n)
  then show ?thesis
    by (cases n) (auto simp: osc_stop_def nodes_blind_graph blind_graph_def fun_eq_iff
        split: playback.splits)
qed (simp add: osc_stop_def nodes_blind_graph)

lemma blind_synth_fields [simp]:
  "audio (blind_synth s) = blind_graph (audio s)"
  "audioContext (blind_synth s) = audioContext s"
  "masterGainNode (blind_synth s) = masterGainNode s"
  "masterFilter (blind_synth s) = masterFilter s"
  "pressedKeys (blind_synth s) = pressedKeys s"
  by (simp_all add: blind_synth_def)

lemma playNote_blind: "playNote n v (blind_synth s) = js_map blind_synth (playNote n v s)"
proof -
  obtain osc g1 where o: "createOscillator (midiNoteToFreq n) (audio s) = (osc, g1)"
    by fastforce
  show ?thesis
  proof (cases "createGain (midiVelocityToGain v) (masterGainNode s) g1")
    case (Ret r)
    obtain gn g2 where "r = (gn, g2)" by fastforce
    with Ret o show ?thesis
      by (auto simp: playNote_def createOscillator_blind createGain_blind node_connect_blind
          osc_start_blind blind_synth_def Let_def split: js.splits)
  next
    case (Throw e r)
    obtain gn g2 where "r = (gn, g2)" by fastforce
    with Throw o show ?thesis
      by (auto simp: playNote_def createOscillator_blind createGain_blind blind_synth_def Let_def)
  qed
qed

lemma stopNote_blind: "stopNote n (blind_synth s) = js_map blind_synth (stopNote n s)"
  by (auto simp: stopNote_def osc_stop_blind blind_synth_def split: option.splits js.splits)

lemma setMasterGain_blind: "setMasterGain v (blind_synth s) = blind_synth (setMasterGain v s)"
  by (simp add: setMasterGain_def update_node_blind blind_synth_def split: option.splits)

lemma setMasterFilterFreq_blind:
  "blind_synth (setMasterFilterFreq d (blind_synth s)) = blind_synth (setMasterFilterFreq d s)"
  by (simp add: setMasterFilterFreq_def update_node_blind_weak blind_synth_def split: option.splits)

lemma blind_synth_idem [simp]: "blind_synth (blind_synth s) = blind_synth s"
  by (simp add: blind_synth_def)

lemma handle_event_blind:
  "js_map blind_synth (handle_event ev (blind_synth s)) = js_map blind_synth (handle_event ev s)"
  by (cases ev) (simp_all add: playNote_blind stopNote_blind setMasterGain_blind
      setMasterFilterFreq_blind comp_def)

lemma createAudio_class_blind:
  "blind_synth (createAudio_class c s) = blind_synth (createAudio c s)"
  by (simp add: createAudio_class_def createAudio_def createFilter_def createFilter_class_def
      ctx_createGain_def ctx_createBiquadFilter_def add_node_def update_node_def node_connect_def
      blind_synth_def blind_graph_def fun_eq_iff Let_def)

lemma createAudio_blind:
  "blind_synth (createAudio c (blind_synth s)) = blind_synth (createAudio c s)"
  by (cases c) (simp_all add: createAudio_def createFilter_def
      ctx_createGain_def ctx_createBiquadFilter_def add_node_def update_node_def node_connect_def
      blind_synth_def blind_graph_def fun_eq_iff Let_def option.map_comp comp_def)

lemma page_sim_fields:
  assumes "page_sim ac am"
  shows "hasMidiApi ac = hasMidiApi am" "hasAudioCtor ac = hasAudioCtor am" "loaded ac = loaded am"
    "midiPending ac = midiPending am" "accessListener ac = accessListener am"
    "startListener ac = startListener am" "startDisabled ac = startDisabled am"
    "uncaught ac = uncaught am"
  using assms by (cases ac; cases am; simp add: page_sim_def)+

lemma page_sim_intro:
  "blind_synth (synth ac) = blind_synth (synth am) \<Longrightarrow> midi_view (midi ac) = midi_view (midi am) \<Longrightarrow>
   hasMidiApi ac = hasMidiApi am \<Longrightarrow> hasAudioCtor ac = hasAudioCtor am \<Longrightarrow> loaded ac = loaded am \<Longrightarrow>
   midiPending ac = midiPending am \<Longrightarrow> accessListener ac = accessListener am \<Longrightarrow>
   startListener ac = startListener am \<Longrightarrow> startDisabled ac = startDisabled am \<Longrightarrow>
   uncaught ac = uncaught am \<Longrightarrow> page_sim ac am"
  by (cases ac; cases am; simp add: page_sim_def)

lemma handlers_blind:
  assumes "blind_synth s = blind_synth s'"
  shows "js_map blind_synth (onMidiMessage_chain st d1 d2 s) =
         js_map blind_synth (onMidiMessage st d1 d2 s')"
proof -
  have "js_map blind_synth (handle_event (decode st d1 d2) s) =
        js_map blind_synth (handle_event (decode st d1 d2) s')"
    by (metis assms handle_event_blind)
  then show ?thesis
    by (simp add: onMidiMessage_chain_handle_event onMidiMessage_handle_event)
qed

lemma page_sim_deliver_synth:
  assumes sim: "page_sim ac am" and r: "js_map blind_synth r1 = js_map blind_synth r2"
  shows "page_sim (deliver (\<lambda>a. js_map (\<lambda>s. a\<lparr>synth := s\<rparr>) r1) ac)
                  (deliver (\<lambda>a. js_map (\<lambda>s. a\<lparr>synth := s\<rparr>) r2) am)"
  using r page_sim_fields [OF sim] sim
  by (cases r1; cases r2) (auto simp: deliver_def page_sim_def intro!: page_sim_intro)

lemma page_sim_DomContentLoaded:
  assumes sim: "page_sim ac am"
  shows "page_sim (app_step_class ac DomContentLoaded) (app_step am DomContentLoaded)"
proof (cases "hasMidiApi am")
  case True
  then show ?thesis
    using page_sim_fields [OF sim] sim
    by (simp add: deliver_def start_class_def onDomContentLoaded_def page_sim_def)
next
  case False
  then show ?thesis
    using page_sim_fields [OF sim] sim
    by (simp add: deliver_def start_class_def onDomContentLoaded_def disableStartBtn_def
        page_sim_def)
qed

lemma page_sim_MidiAccessResolved:
  assumes sim: "page_sim ac am"
  shows "page_sim (app_step_class ac (MidiAccessResolved inputs)) (app_step am (MidiAccessResolved inputs))"
  using page_sim_fields [OF sim] sim
  by (intro page_sim_intro)
     (simp_all add: setupMidi_resolved_class_def setupMidi_resolved_def page_sim_def
      midi_view_fold_enable_v1)

lemma page_sim_MidiAccessRejected:
  assumes sim: "page_sim ac am"
  shows "page_sim (app_step_class ac MidiAccessRejected) (app_step am MidiAccessRejected)"
  using page_sim_fields [OF sim] sim
  by (intro page_sim_intro) (simp_all add: setupMidi_rejected_def page_sim_def)

lemma page_sim_StartClick:
  assumes sim: "page_sim ac am"
  shows "page_sim (app_step_class ac StartClick) (app_step am StartClick)"
proof -
  have "blind_synth (createAudio_class c (synth ac)) = blind_synth (createAudio c (synth am))" for c
    using sim by (metis createAudio_class_blind createAudio_blind page_sim_def)
  then show ?thesis
    using page_sim_fields [OF sim] sim
    by (simp add: deliver_def onStartBtnClick_class_def onStartBtnClick_def disableStartBtn_def
        page_sim_def)
qed

lemma page_sim_PortStateChange:
  assumes sim: "page_sim ac am" and inv: "app_inv am"
  shows "page_sim (app_step_class ac (PortStateChange p)) (app_step am (PortStateChange p))"
proof -
  have "\<not> accessListener am \<longrightarrow> listeners (midi am) = {}"
    using inv by (simp add: app_inv_def)
  then have m: "app_step am (PortStateChange p) =
      (if accessListener am then am\<lparr>midi := onStateChange p (midi am)\<rparr> else am)"
    by (simp add: app_step_PortStateChange del: app_step.simps)
  have acc: "accessListener ac = accessListener am"
    by (rule page_sim_fields(5) [OF sim])
  show ?thesis
  proof (cases "accessListener am")
    case True
    have "midi_view (onStateChange_v1 p (midi ac)) = midi_view (onStateChange p (midi am))"
      using sim by (simp add: page_sim_def midi_view_onStateChange_v1)
    with True acc sim show ?thesis
      unfolding m by (simp add: page_sim_def)
  next
    case False
    with acc sim show ?thesis
      unfolding m by simp
  qed
qed

lemma page_sim_MidiMessage:
  assumes sim: "page_sim ac am"
  shows "page_sim (app_step_class ac (MidiMessage p st d1 d2)) (app_step am (MidiMessage p st d1 d2))"
proof -
  have b: "blind_synth (synth ac) = blind_synth (synth am)"
    and v: "midi_view (midi ac) = midi_view (midi am)"
    using sim unfolding page_sim_def by blast+
  have r: "js_map blind_synth (onMidiMessage_chain st d1 d2 (synth ac)) =
           js_map blind_synth (onMidiMessage st d1 d2 (synth am))"
    by (rule handlers_blind [OF b])
  have sub: "subscribed (midi ac) (port_id p) = subscribed (midi am) (port_id p)"
    by (rule subscribed_midi_view [OF v])
  show ?thesis
  proof (cases "subscribed (midi am) (port_id p)")
    case True
    have "page_sim (deliver (midi_handler_class st d1 d2) ac) (deliver (midi_handler st d1 d2) am)"
      using page_sim_deliver_synth [OF sim r]
      by (simp only: midi_handler_class_def midi_handler_def deliver_def onMidiMessage_class_eq)
    with True sub show ?thesis by simp
  next
    case False
    with sub have "app_step_class ac (MidiMessage p st d1 d2) = ac"
      and "app_step am (MidiMessage p st d1 d2) = am"
      by simp_all
    with sim show ?thesis by simp
  qed
qed

lemma page_sim_step:
  "page_sim ac am \<Longrightarrow> app_inv am \<Longrightarrow> page_sim (app_step_class ac e) (app_step am e)"
  by (cases e) (simp_all add: page_sim_DomContentLoaded page_sim_MidiAccessResolved
      page_sim_MidiAccessRejected page_sim_StartClick page_sim_PortStateChange page_sim_MidiMessage
      del: app_step.simps app_step_class.simps)

lemma page_sim_runs:
  "reachable name_of am \<Longrightarrow> page_sim ac am \<Longrightarrow> valid_run name_of am es \<Longrightarrow>
   page_sim (foldl app_step_class ac es) (foldl app_step am es)"
proof (induction es arbitrary: ac am)
  case Nil
  then show ?case by simp
next
  case (Cons e es)
  have "page_sim (app_step_class ac e) (app_step am e)"
    using Cons.prems reachable_app_inv by (blast intro: page_sim_step)
  moreover have "reachable name_of (app_step am e)"
    using Cons.prems by (simp add: reachable.step del: app_step.simps)
  ultimately show ?case
    using Cons.prems Cons.IH by (simp del: app_step.simps app_step_class.simps)
qed

text \<open>
  C20: the class variant of part_000 runs like midiSynth.js: on every sequence of events
  the browser can deliver, the two pages reach states that differ only in the frequency
  and Q of filter nodes (the class variant sets 1000 Hz and Q 8, midiSynth.js loses the
  assignments) and in the port-level \<open>statechange\<close> listeners, which only
  midiSynth.js registers: same registry, same subscribed ports, same voices, oscillators,
  gains and connections, same button state and same escaped exceptions.
\<close>

theorem class_page_refinement:
  "valid_run name_of (app_init midi_api audio_ctor) es \<Longrightarrow>
   page_sim (foldl app_step_class (app_init midi_api audio_ctor) es)
            (foldl app_step (app_init midi_api audio_ctor) es)"
  by (rule page_sim_runs [OF reachable.init]) (simp add: page_sim_def)

theorem class_page_refinement_witness:
  "valid_run (\<lambda>i. replicate i CHR ''k'') (app_init True True)
     [DomContentLoaded, MidiAccessResolved [\<lparr>port_id = 1, port_name = ''k'', port_type = Input, port_state = Connected\<rparr>],
      StartClick, MidiMessage \<lparr>port_id = 1, port_name = ''k'', port_type = Input, port_state = Connected\<rparr> 144 60 90] \<and>
   page_sim (foldl app_step_class (app_init True True)
     [DomContentLoaded, MidiAccessResolved [\<lparr>port_id = 1, port_name = ''k'', port_type = Input, port_state = Connected\<rparr>],
      StartClick, MidiMessage \<lparr>port_id = 1, port_name = ''k'', port_type = Input, port_state = Connected\<rparr> 144 60 90])
    (foldl app_step (app_init True True)
     [DomContentLoaded, MidiAccessResolved [\<lparr>port_id = 1, port_name = ''k'', port_type = Input, port_state = Connected\<rparr>],
      StartClick, MidiMessage \<lparr>port_id = 1, port_name = ''k'', port_type = Input, port_state = Connected\<rparr> 144 60 90])"
proof -
  have v: "valid_run (\<lambda>i. replicate i CHR ''k'') (app_init True True)
     [DomContentLoaded, MidiAccessResolved [\<lparr>port_id = 1, port_name = ''k'', port_type = Input, port_state = Connected\<rparr>],
      StartClick, MidiMessage \<lparr>port_id = 1, port_name = ''k'', port_type = Input, port_state = Connected\<rparr> 144 60 90]"
    by (simp add: app_eval port_of_def)
  show ?thesis using class_page_refinement [OF v] v by blast
qed

subsection \<open>Port-level statechange listeners\<close>

lemma deliver_midi:
  "(\<And>e a'. f a = Throw e a' \<Longrightarrow> midi a' = midi a) \<Longrightarrow> (\<And>a'. f a = Ret a' \<Longrightarrow> midi a' = midi a) \<Longrightarrow>
   midi (deliver f a) = midi a"
  by (cases "f a") (auto simp: deliver_def)

lemma no_port_statechange_enable_class:
  "(i, OnStateChange) \<notin> listeners ms \<Longrightarrow> (i, OnStateChange) \<notin> listeners (enableMidiInput_class p ms)"
  by (simp add: enableMidiInput_class_def del: class_methods_eq)

lemma no_port_statechange_fold_enable_class:
  "(i, OnStateChange) \<notin> listeners ms \<Longrightarrow> (i, OnStateChange) \<notin> listeners (fold enableMidiInput_class ps ms)"
  by (induction ps arbitrary: ms) (simp_all add: no_port_statechange_enable_class del: class_methods_eq)

lemma no_port_statechange_onStateChange_class:
  "(i, OnStateChange) \<notin> listeners ms \<Longrightarrow> (i, OnStateChange) \<notin> listeners (onStateChange_class p ms)"
  by (auto simp: onStateChange_class_def enableMidiInput_class_def disableMidiInput_class_def
      split: port_state.split simp del: class_methods_eq)

lemma no_port_statechange_step:
  assumes "no_port_statechange a"
  shows "no_port_statechange (app_step_class a e)"
proof (cases e)
  case DomContentLoaded
  have "midi (deliver start_class (a\<lparr>loaded := True\<rparr>)) = midi (a\<lparr>loaded := True\<rparr>)"
    by (rule deliver_midi) (auto simp: start_class_def disableStartBtn_def split: if_splits)
  with assms DomContentLoaded show ?thesis by (simp add: no_port_statechange_def)
next
  case (MidiAccessResolved inputs)
  with assms show ?thesis
    by (simp add: no_port_statechange_def setupMidi_resolved_class_def no_port_statechange_fold_enable_class
        del: class_methods_eq)
next
  case MidiAccessRejected
  with assms show ?thesis by (simp add: no_port_statechange_def setupMidi_rejected_def)
next
  case StartClick
  have "midi (deliver onStartBtnClick_class a) = midi a"
    by (rule deliver_midi) (auto simp: onStartBtnClick_class_def disableStartBtn_def split: option.splits)
  with assms StartClick show ?thesis by (simp add: no_port_statechange_def)
next
  case (PortStateChange p)
  with assms show ?thesis
    by (simp add: no_port_statechange_def no_port_statechange_onStateChange_class del: class_methods_eq)
next
  case (MidiMessage p st d1 d2)
  have "midi (deliver (midi_handler_class st d1 d2) a) = midi a"
    by (rule deliver_midi; cases "onMidiMessage_class st d1 d2 (synth a)") (auto simp: midi_handler_class_def)
  with assms MidiMessage show ?thesis by (simp add: no_port_statechange_def)
qed

text \<open>
  C21: On every sequence of events the class page never registers a
  \<open>statechange\<close> listener on a port (only the access object's), so the browser
  delivers each port state change to \<open>onStateChange\<close> once, where midiSynth.js
  delivers it twice to an enabled port.
\<close>

theorem class_no_port_statechange_listener:
  "(i, OnStateChange) \<notin> listeners (midi (foldl app_step_class (app_init midi_api audio_ctor) es))"
proof -
  have "no_port_statechange (foldl app_step_class a es)" if "no_port_statechange a" for a
    using that by (induction es arbitrary: a) (simp_all add: no_port_statechange_step del: app_step_class.simps)
  moreover have "no_port_statechange (app_init midi_api audio_ctor)"
    by (simp add: no_port_statechange_def app_init_def midi_init_def)
  ultimately show ?thesis by (simp add: no_port_statechange_def)
qed

end
