(* ===== verification/NoRegistry_Methods.thy ===== *)
theory NoRegistry_Methods
  imports Session
begin

text \<open>
  The audio functions and the two listeners of the variant without registry
  (src/unnamed/part_000 lines 268--271 and 297--456). Its \<open>playNote\<close> assigns the
  undeclared name \<open>osc\<close> (line 382), which in this classic script creates a global
  variable; the globals of the variant are therefore the record \<open>synth_v2\<close>, the
  fields of \<open>synth\<close> and \<open>osc\<close>. The other functions have the bodies of their
  midiSynth.js namesakes.

  The lemmas show that \<open>osc\<close> is written and never read: forgetting it
  (\<open>synth.truncate\<close>) commutes with every handler, so \<open>onMidiMessage_v2\<close> computes
  \<open>onMidiMessage\<close> on the other globals whatever value \<open>osc\<close> holds. The page
  state \<open>app\<close> keeps no copy of it: the listener \<open>midi_handler_v2\<close> runs the
  handler from \<open>osc = None\<close>, which by \<open>onMidiMessage_v2_osc_write_only\<close> gives
  the same page state as any other value, and equals the listener of midiSynth.js.
\<close>

record synth_v2 = synth +
  osc :: "node_id option"

definition createOscillator_v2 :: "real \<Rightarrow> audio_graph \<Rightarrow> node_id \<times> audio_graph" where
  "createOscillator_v2 frequency g =
     (let (osc, g1) = ctx_createOscillator g;
          g2 = update_node osc (set_osc_type Square) g1
      in (osc, update_node osc (set_osc_frequency frequency) g2))"

definition createGain_v2 :: "real \<Rightarrow> node_id option \<Rightarrow> audio_graph \<Rightarrow> (node_id \<times> audio_graph) js" where
  "createGain_v2 value master g =
     (let (gainNode, g1) = ctx_createGain g
      in case master of
           None \<Rightarrow> Throw TypeError (gainNode, g1)
         | Some m \<Rightarrow>
             Ret (gainNode, update_node gainNode (set_gain_value value)
                              (node_connect gainNode (ToNode m) g1)))"

definition playNote_v2 :: "byte \<Rightarrow> byte \<Rightarrow> synth_v2 \<Rightarrow> synth_v2 js" where
  "playNote_v2 note velocity s =
     (if \<not> audioContext s then Ret s
      else
        (let freq = midiNoteToFreq note;
             (o1, g1) = createOscillator_v2 freq (audio s);
             s1 = s\<lparr>audio := g1, osc := Some o1\<rparr>;
             gainVal = midiVelocityToGain velocity
         in case createGain_v2 gainVal (masterGainNode s1) (audio s1) of
              Throw e (_, g2) \<Rightarrow> Throw e (s1\<lparr>audio := g2\<rparr>)
            | Ret (gainNode, g2) \<Rightarrow>
                (let g3 = node_connect o1 (ToNode gainNode) g2;
                     s3 = s1\<lparr>audio := g3, pressedKeys := (pressedKeys s1)(note \<mapsto> o1)\<rparr>
                 in case osc_start o1 g3 of
                      Throw e g4 \<Rightarrow> Throw e (s3\<lparr>audio := g4\<rparr>)
                    | Ret g4 \<Rightarrow> Ret (s3\<lparr>audio := g4\<rparr>))))"

definition stopNote_v2 :: "byte \<Rightarrow> synth_v2 \<Rightarrow> synth_v2 js" where
  "stopNote_v2 note s =
     (case pressedKeys s note of
        None \<Rightarrow> Ret s
      | Some o1 \<Rightarrow>
          (case osc_stop o1 (audio s) of
             Throw e g \<Rightarrow> Throw e (s\<lparr>audio := g\<rparr>)
           | Ret g \<Rightarrow> Ret (s\<lparr>audio := g, pressedKeys := (pressedKeys s)(note := None)\<rparr>)))"

definition setMasterGain_v2 :: "real \<Rightarrow> synth_v2 \<Rightarrow> synth_v2" where
  "setMasterGain_v2 value s =
     (case masterGainNode s of
        None \<Rightarrow> s
      | Some m \<Rightarrow> s\<lparr>audio := update_node m (set_gain_value value) (audio s)\<rparr>)"

definition setMasterFilterFreq_v2 :: "byte \<Rightarrow> synth_v2 \<Rightarrow> synth_v2" where
  "setMasterFilterFreq_v2 data s =
     (case masterFilter s of
        None \<Rightarrow> s
      | Some f \<Rightarrow> s\<lparr>audio := update_node f (set_filter_frequency (pitchBendToFilterFreq data)) (audio s)\<rparr>)"

definition onMidiMessage_v2 :: "byte \<Rightarrow> byte \<Rightarrow> byte \<Rightarrow> synth_v2 \<Rightarrow> synth_v2 js" where
  "onMidiMessage_v2 statusByte data1 data2 s =
     js_bind (if isNoteOn statusByte then playNote_v2 data1 data2 s else Ret s) (\<lambda>s1.
     js_bind (if isNoteOff statusByte then stopNote_v2 data1 s1 else Ret s1) (\<lambda>s2.
     (let s3 = (if statusByte = 176 then
                  (if data1 = 1 then s2
                   else if data1 = 7 then setMasterGain_v2 (controlVolumeToGain data2) s2
                   else s2)
                else s2)
      in Ret (if statusByte = 224 then setMasterFilterFreq_v2 data2 s3 else s3))))"

definition createFilter_v2 :: "audio_graph \<Rightarrow> node_id \<times> audio_graph" where
  "createFilter_v2 g =
     (let (filter, g1) = ctx_createBiquadFilter g
      in (filter, update_node filter (set_filter_type Lowpass) g1))"

definition createAudio_v2 :: "bool \<Rightarrow> synth \<Rightarrow> synth" where
  "createAudio_v2 has_ctor s =
     (if \<not> has_ctor then s
      else
        (let (master, g1) = ctx_createGain (audio s);
             g2 = update_node master (set_gain_value 0.5) g1;
             (filter, g3) = createFilter_v2 g2;
             g4 = node_connect master (ToNode filter) g3;
             g5 = node_connect filter ToDestination g4
         in s\<lparr>audio := g5, audioContext := True, masterGainNode := Some master,
              masterFilter := Some filter\<rparr>))"

definition disableStartBtn_v2 :: "string option \<Rightarrow> app \<Rightarrow> app js" where
  "disableStartBtn_v2 arg a =
     (case arg of
        None \<Rightarrow> Throw TypeError a
      | Some btnText \<Rightarrow> Ret (a\<lparr>startDisabled := True\<rparr>))"

definition onStartBtnClick_v2 :: "app \<Rightarrow> app js" where
  "onStartBtnClick_v2 a =
     disableStartBtn_v2 (Some ''Synth Running'') (a\<lparr>synth := createAudio_v2 (hasAudioCtor a) (synth a)\<rparr>)"

definition with_osc :: "synth \<Rightarrow> node_id option \<Rightarrow> synth_v2" where
  "with_osc s o1 =
     \<lparr>audio = audio s, audioContext = audioContext s, masterGainNode = masterGainNode s,
      masterFilter = masterFilter s, pressedKeys = pressedKeys s, osc = o1\<rparr>"

definition midi_handler_v2 :: "byte \<Rightarrow> byte \<Rightarrow> byte \<Rightarrow> app \<Rightarrow> app js" where
  "midi_handler_v2 statusByte data1 data2 a =
     js_map (\<lambda>s. a\<lparr>synth := synth.truncate s\<rparr>)
       (onMidiMessage_v2 statusByte data1 data2 (with_osc (synth a) None))"

subsection \<open>The global osc is write-only\<close>

lemma truncate_playNote_v2:
  "js_map synth.truncate (playNote_v2 n v s) = playNote n v (synth.truncate s)"
  by (auto simp: playNote_v2_def playNote_def createOscillator_v2_def createOscillator_def
      createGain_v2_def createGain_def synth.truncate_def Let_def split: prod.splits option.splits js.splits)
lemma truncate_stopNote_v2:
  "js_map synth.truncate (stopNote_v2 n s) = stopNote n (synth.truncate s)"
  by (auto simp: stopNote_v2_def stopNote_def synth.truncate_def split: option.splits js.splits)

lemma truncate_setMasterGain_v2:
  "synth.truncate (setMasterGain_v2 v s) = setMasterGain v (synth.truncate s)"
  by (simp add: setMasterGain_v2_def setMasterGain_def synth.truncate_def split: option.splits)

lemma truncate_setMasterFilterFreq_v2:
  "synth.truncate (setMasterFilterFreq_v2 v s) = setMasterFilterFreq v (synth.truncate s)"
  by (simp add: setMasterFilterFreq_v2_def setMasterFilterFreq_def synth.truncate_def split: option.splits)

lemma js_map_js_bind:
  "js_map h m = m' \<Longrightarrow> (\<And>x. js_map h (g x) = g' (h x)) \<Longrightarrow> js_map h (js_bind m g) = js_bind m' g'"
  by (cases m) auto

lemma truncate_onMidiMessage_v2:
  "js_map synth.truncate (onMidiMessage_v2 st d1 d2 s) = onMidiMessage st d1 d2 (synth.truncate s)"
proof -
  have c: "synth.truncate (if d1 = 1 then s2 else if d1 = 7 then setMasterGain_v2 (controlVolumeToGain d2) s2 else s2) =
           controlChange d1 d2 (synth.truncate s2)" for s2
    by (simp add: controlChange_def truncate_setMasterGain_v2)
  show ?thesis
    unfolding onMidiMessage_v2_def onMidiMessage_def
  proof (rule js_map_js_bind)
    show "js_map synth.truncate (if isNoteOn st then playNote_v2 d1 d2 s else Ret s) =
          (if isNoteOn st then playNote d1 d2 (synth.truncate s) else Ret (synth.truncate s))"
      by (simp add: truncate_playNote_v2)
  next
    fix s1
    show "js_map synth.truncate
            (js_bind (if isNoteOff st then stopNote_v2 d1 s1 else Ret s1) (\<lambda>s2.
              let s3 = (if st = 176 then
                          (if d1 = 1 then s2
                           else if d1 = 7 then setMasterGain_v2 (controlVolumeToGain d2) s2 else s2)
                        else s2)
              in Ret (if st = 224 then setMasterFilterFreq_v2 d2 s3 else s3))) =
          js_bind (if isNoteOff st then stopNote d1 (synth.truncate s1) else Ret (synth.truncate s1)) (\<lambda>s2.
              let s3 = (if st = 176 then controlChange d1 d2 s2 else s2)
              in Ret (if st = 224 then setMasterFilterFreq d2 s3 else s3))"
      by (rule js_map_js_bind) (auto simp: truncate_stopNote_v2 truncate_setMasterFilterFreq_v2 c Let_def)
  qed
qed

lemma truncate_with_osc [simp]: "synth.truncate (with_osc s o1) = s"
  by (simp add: with_osc_def synth.truncate_def)

lemma onMidiMessage_v2_osc_write_only:
  "js_map synth.truncate (onMidiMessage_v2 st d1 d2 (s\<lparr>osc := x\<rparr>)) =
   js_map synth.truncate (onMidiMessage_v2 st d1 d2 s)"
  by (simp add: truncate_onMidiMessage_v2 synth.truncate_def)

lemma midi_handler_v2_eq: "midi_handler_v2 = midi_handler"
proof (intro ext)
  fix st d1 d2 and a :: app
  have "js_map (\<lambda>s. a\<lparr>synth := synth.truncate s\<rparr>) (onMidiMessage_v2 st d1 d2 (with_osc (synth a) None)) =
        js_map (\<lambda>s. a\<lparr>synth := s\<rparr>) (js_map synth.truncate (onMidiMessage_v2 st d1 d2 (with_osc (synth a) None)))"
    by (simp add: js_map_comp comp_def)
  then show "midi_handler_v2 st d1 d2 a = midi_handler st d1 d2 a"
    by (simp add: midi_handler_v2_def midi_handler_def truncate_onMidiMessage_v2)
qed

lemma onStartBtnClick_v2_eq: "onStartBtnClick_v2 = onStartBtnClick"
  by (simp add: fun_eq_iff onStartBtnClick_v2_def onStartBtnClick_def disableStartBtn_v2_def
      disableStartBtn_def createAudio_v2_def createAudio_def createFilter_v2_def createFilter_def)

end
