(* ===== verification/NoRegistry_Variant.thy ===== *)
theory NoRegistry_Variant
  imports NoRegistry_Methods
begin

text \<open>
  The variant of the page without a device registry, src/unnamed/part_000 lines
  245--456. Its script calls \<open>init()\<close> when it runs (line 256; the event
  \<open>DomContentLoaded\<close> of the model stands for the script's evaluation);
  \<open>setupMidi\<close> enables every input the access object lists and registers nothing
  on the access object; \<open>enableMidiInput\<close> subscribes without a registry check
  (\<open>enableMidiInput_v2\<close>) and \<open>onStateChange\<close> only logs
  (\<open>onStateChange_v2\<close>). The start listener (lines 268--271) and the message
  handler (lines 297--328) are those of NoRegistry_Methods, equal to the listeners of
  midiSynth.js (\<open>onStartBtnClick_v2_eq\<close>, \<open>midi_handler_v2_eq\<close>).

  \<open>init\<close> tests \<open>!'requestMIDIAccess' in navigator\<close>. The operator
  \<open>!\<close> binds tighter than \<open>in\<close>, so the test is \<open>false in navigator\<close>:
  the property named \<open>"false"\<close>, which no browser's navigator has
  (\<open>js_not_string\<close>, \<open>js_property_key\<close>, \<open>navigator_keys\<close>). Without Web
  MIDI the call \<open>navigator.requestMIDIAccess()\<close> throws inside the \<open>try\<close>
  of \<open>setupMidi\<close>, which the environment \<open>env_ok_v2\<close> delivers as a rejection.
\<close>

definition js_not_string :: "string \<Rightarrow> bool" where
  "js_not_string s \<longleftrightarrow> s = []"

definition js_property_key :: "bool \<Rightarrow> string" where
  "js_property_key b = (if b then ''true'' else ''false'')"

definition navigator_keys :: "app \<Rightarrow> string set" where
  "navigator_keys a =
     (if hasMidiApi a then {''requestMIDIAccess''} else {}) \<union>
     {''userAgent'', ''language'', ''languages'', ''platform'', ''onLine'', ''mediaDevices'',
      ''serviceWorker'', ''clipboard'', ''permissions'', ''hardwareConcurrency''}"

definition init_v2 :: "app \<Rightarrow> app js" where
  "init_v2 a =
     (if js_property_key (js_not_string ''requestMIDIAccess'') \<in> navigator_keys a
      then disableStartBtn None a
      else Ret (a\<lparr>midiPending := True, startListener := True\<rparr>))"

definition setupMidi_resolved_v2 :: "midi_port list \<Rightarrow> app \<Rightarrow> app" where
  "setupMidi_resolved_v2 inputs a =
     a\<lparr>midiPending := False, midi := fold enableMidiInput_v2 inputs (midi a)\<rparr>"

fun app_step_v2 :: "app \<Rightarrow> event \<Rightarrow> app" where
  "app_step_v2 a DomContentLoaded = deliver init_v2 (a\<lparr>loaded := True\<rparr>)"
| "app_step_v2 a (MidiAccessResolved inputs) = setupMidi_resolved_v2 inputs a"
| "app_step_v2 a MidiAccessRejected = setupMidi_rejected a"
| "app_step_v2 a StartClick =
     (if startListener a \<and> \<not> startDisabled a then deliver onStartBtnClick_v2 a else a)"
| "app_step_v2 a (PortStateChange p) =
     (if (port_id p, OnStateChange) \<in> listeners (midi a)
      then a\<lparr>midi := onStateChange_v2 p (midi a)\<rparr> else a)"
| "app_step_v2 a (MidiMessage p statusByte data1 data2) =
     (if subscribed (midi a) (port_id p) then deliver (midi_handler_v2 statusByte data1 data2) a
      else a)"

fun env_ok_v2 :: "(nat \<Rightarrow> string) \<Rightarrow> app \<Rightarrow> event \<Rightarrow> bool" where
  "env_ok_v2 name_of a (MidiAccessResolved inputs) =
     (hasMidiApi a \<and> env_ok name_of a (MidiAccessResolved inputs))"
| "env_ok_v2 name_of a e = env_ok name_of a e"

inductive reachable_v2 :: "(nat \<Rightarrow> string) \<Rightarrow> app \<Rightarrow> bool" for name_of where
  init: "reachable_v2 name_of (app_init midi_api audio_ctor)"
| step: "reachable_v2 name_of a \<Longrightarrow> env_ok_v2 name_of a e \<Longrightarrow> reachable_v2 name_of (app_step_v2 a e)"

definition app_inv_v2 :: "app \<Rightarrow> bool" where
  "app_inv_v2 a \<longleftrightarrow>
     synth_inv (synth a) \<and> uncaught a = [] \<and>
     (audioContext (synth a) \<longrightarrow> startDisabled a) \<and>
     (\<not> audioContext (synth a) \<longrightarrow> synth a = synth_init)"

declare onStartBtnClick_v2_eq [simp] midi_handler_v2_eq [simp]

lemma init_v2_never_disables: "init_v2 a = Ret (a\<lparr>midiPending := True, startListener := True\<rparr>)"
  by (simp add: init_v2_def js_property_key_def js_not_string_def navigator_keys_def)

lemma app_inv_v2_init: "app_inv_v2 (app_init midi_api audio_ctor)"
  by (simp add: app_inv_v2_def app_init_def synth_inv_init)

lemma app_inv_v2_StartClick:
  assumes inv: "app_inv_v2 a"
  shows "app_inv_v2 (app_step_v2 a StartClick)"
proof (cases "startListener a \<and> \<not> startDisabled a")
  case True
  then have idle: "\<not> audioContext (synth a)"
    using inv by (auto simp: app_inv_v2_def)
  have "synth_inv (synth a)" and "synth a = synth_init"
    using inv idle by (simp_all add: app_inv_v2_def synth_inv_init)
  with idle have "synth_inv (createAudio (hasAudioCtor a) (synth a)) \<and>
      (\<not> audioContext (createAudio (hasAudioCtor a) (synth a)) \<longrightarrow>
       createAudio (hasAudioCtor a) (synth a) = synth_init)"
    using synth_start_click by metis
  then show ?thesis
    using True inv by (simp add: app_inv_v2_def deliver_def onStartBtnClick_def disableStartBtn_def)
next
  case False
  then have "app_step_v2 a StartClick = a" by auto
  with inv show ?thesis by simp
qed

lemma app_inv_v2_MidiMessage:
  assumes inv: "app_inv_v2 a"
  shows "app_inv_v2 (app_step_v2 a (MidiMessage p st d1 d2))"
proof (cases "subscribed (midi a) (port_id p)")
  case True
  obtain s' where "onMidiMessage st d1 d2 (synth a) = Ret s'" "synth_inv s'"
    "audioContext s' = audioContext (synth a)" "\<not> audioContext s' \<longrightarrow> s' = synth_init"
    using synth_message [of "synth a" st d1 d2] inv by (auto simp: app_inv_v2_def)
  then show ?thesis
    using True inv by (auto simp: app_inv_v2_def deliver_def midi_handler_def)
next
  case False
  then show ?thesis using inv by simp
qed

lemma app_inv_v2_step: "app_inv_v2 a \<Longrightarrow> app_inv_v2 (app_step_v2 a e)"
proof (induction e)
  case DomContentLoaded
  then show ?case by (simp add: app_inv_v2_def deliver_def init_v2_never_disables)
next
  case (MidiAccessResolved inputs)
  then show ?case by (simp add: app_inv_v2_def setupMidi_resolved_v2_def)
next
  case MidiAccessRejected
  then show ?case by (simp add: app_inv_v2_def setupMidi_rejected_def)
next
  case StartClick
  then show ?case by (rule app_inv_v2_StartClick)
next
  case (PortStateChange p)
  then show ?case by (simp add: onStateChange_v2_def)
next
  case (MidiMessage p st d1 d2)
  then show ?case by (rule app_inv_v2_MidiMessage)
qed

lemma reachable_v2_app_inv: "reachable_v2 name_of a \<Longrightarrow> app_inv_v2 a"
  by (induction rule: reachable_v2.induct) (auto intro: app_inv_v2_init app_inv_v2_step)

text \<open>
  C23: in the variant without a registry no exception ever escapes a listener, with or
  without Web MIDI (its no-MIDI branch never runs, so the argument-less
  \<open>disableStartBtn()\<close> is never called), and the synthesiser invariant holds in every
  reachable state.
\<close>

theorem reachable_v2_no_uncaught:
  "reachable_v2 name_of a \<Longrightarrow> uncaught a = [] \<and> synth_inv (synth a)"
  using reachable_v2_app_inv by (simp add: app_inv_v2_def)

theorem reachable_v2_no_uncaught_witness:
  "reachable_v2 (\<lambda>i. replicate i CHR ''k'') (app_step_v2 (app_init False True) DomContentLoaded) \<and>
   uncaught (app_step_v2 (app_init False True) DomContentLoaded) = [] \<and>
   synth_inv (synth (app_step_v2 (app_init False True) DomContentLoaded))"
proof -
  have r: "reachable_v2 (\<lambda>i. replicate i CHR ''k'') (app_step_v2 (app_init False True) DomContentLoaded)"
    by (rule reachable_v2.step [OF reachable_v2.init]) (simp add: app_init_def)
  show ?thesis using reachable_v2_no_uncaught [OF r] r by blast
qed

text \<open>
  C24: the variant subscribes ports only when the access request resolves, and then every
  listed input, whatever its name (duplicates and \<open>Object.prototype\<close> names
  included); no later event adds or removes a subscription, so a device plugged in
  afterwards is never heard and an unplugged one stays subscribed.
\<close>

theorem v2_subscriptions:
  "subscribed (midi (app_step_v2 a e)) i \<longleftrightarrow>
     subscribed (midi a) i \<or> (\<exists>inputs. e = MidiAccessResolved inputs \<and> i \<in> port_id ` set inputs)"
proof -
  have fold: "subscribed (fold enableMidiInput_v2 ps ms) i \<longleftrightarrow> subscribed ms i \<or> i \<in> port_id ` set ps"
    for ps ms by (induction ps arbitrary: ms) (auto simp: enableMidiInput_v2_def subscribed_def)
  show ?thesis
  proof (cases e)
    case (MidiAccessResolved inputs)
    then show ?thesis by (simp add: setupMidi_resolved_v2_def fold)
  next
    case (MidiMessage p st d1 d2)
    obtain r where "onMidiMessage st d1 d2 (synth a) = r" by blast
    then show ?thesis
      using MidiMessage by (cases r) (auto simp: deliver_def midi_handler_def)
  qed (auto simp: deliver_def init_v2_never_disables setupMidi_rejected_def onStateChange_v2_def
         onStartBtnClick_def disableStartBtn_def)
qed

text \<open>
  Without Web MIDI the variant still starts: loading raises nothing, the access
  request fails inside \<open>setupMidi\<close>'s \<open>try\<close>, and a start click creates the
  audio context and disables the button, with no MIDI port subscribed.
\<close>

lemma scenario_v2_no_midi:
  "let a = foldl app_step_v2 (app_init False True) [DomContentLoaded, MidiAccessRejected, StartClick]
   in audioContext (synth a) \<and> startDisabled a \<and> uncaught a = [] \<and> listeners (midi a) = {}"
  by (simp add: app_eval init_v2_never_disables createAudio_def createFilter_def
      ctx_createGain_def ctx_createBiquadFilter_def add_node_def Let_def split_def)

end
