(* ===== verification/First_Variant.thy ===== *)
theory First_Variant
  imports Session
begin

text \<open>
  The first variant of the page in src/unnamed/part_000 (lines 1--244): the globals of
  midiSynth.js, the \<open>else if\<close> message handler (\<open>onMidiMessage_chain\<close>,
  lines 86--114) and device functions that subscribe only \<open>midimessage\<close> (the
  \<open>_v1\<close> functions, lines 52--84). Its listeners, message handler and audio
  functions are one definition each (\<open>_p1\<close>, lines 17--50, 86--114, 136--211 and
  239--244), each calling the others as the code does; the handler and the audio functions
  are shown equal to those of Voice_Synth (\<open>onMidiMessage_p1_eq\<close>). \<open>app_step_p1\<close> is the browser's
  dispatch for this page. \<open>view_sim\<close> relates two page states equal up to
  \<open>midi_view\<close> (the registry and the subscribed ports); \<open>first_variant_equiv\<close> shows
  the variant and midiSynth.js keep that relation on every valid run.
\<close>

definition createOscillator_p1 :: "real \<Rightarrow> audio_graph \<Rightarrow> node_id \<times> audio_graph" where
  "createOscillator_p1 frequency g =
     (let (osc, g1) = ctx_createOscillator g;
          g2 = update_node osc (set_osc_type Square) g1
      in (osc, update_node osc (set_osc_frequency frequency) g2))"

definition createGain_p1 ::
  "real \<Rightarrow> node_id option \<Rightarrow> audio_graph \<Rightarrow> (node_id \<times> audio_graph) js" where
  "createGain_p1 value master g =
     (let (gainNode, g1) = ctx_createGain g
      in case master of
           None \<Rightarrow> Throw TypeError (gainNode, g1)
         | Some m \<Rightarrow>
             Ret (gainNode, update_node gainNode (set_gain_value value)
                              (node_connect gainNode (ToNode m) g1)))"

definition playNote_p1 :: "byte \<Rightarrow> byte \<Rightarrow> synth \<Rightarrow> synth js" where
  "playNote_p1 note velocity s =
     (if \<not> audioContext s then Ret s
      else
        (let freq = midiNoteToFreq note;
             (osc, g1) = createOscillator_p1 freq (audio s);
             gainVal = midiVelocityToGain velocity
         in case createGain_p1 gainVal (masterGainNode s) g1 of
              Throw e (_, g2) \<Rightarrow> Throw e (s\<lparr>audio := g2\<rparr>)
            | Ret (gainNode, g2) \<Rightarrow>
                (let g3 = node_connect osc (ToNode gainNode) g2;
                     s3 = s\<lparr>audio := g3, pressedKeys := (pressedKeys s)(note \<mapsto> osc)\<rparr>
                 in case osc_start osc g3 of
                      Throw e g4 \<Rightarrow> Throw e (s3\<lparr>audio := g4\<rparr>)
                    | Ret g4 \<Rightarrow> Ret (s3\<lparr>audio := g4\<rparr>))))"

definition stopNote_p1 :: "byte \<Rightarrow> synth \<Rightarrow> synth js" where
  "stopNote_p1 note s =
     (case pressedKeys s note of
        None \<Rightarrow> Ret s
      | Some osc \<Rightarrow>
          (case osc_stop osc (audio s) of
             Throw e g \<Rightarrow> Throw e (s\<lparr>audio := g\<rparr>)
           | Ret g \<Rightarrow> Ret (s\<lparr>audio := g, pressedKeys := (pressedKeys s)(note := None)\<rparr>)))"

definition setMasterGain_p1 :: "real \<Rightarrow> synth \<Rightarrow> synth" where
  "setMasterGain_p1 value s =
     (case masterGainNode s of
        None \<Rightarrow> s
      | Some m \<Rightarrow> s\<lparr>audio := update_node m (set_gain_value value) (audio s)\<rparr>)"

definition setMasterFilterFreq_p1 :: "byte \<Rightarrow> synth \<Rightarrow> synth" where
  "setMasterFilterFreq_p1 data s =
     (case masterFilter s of
        None \<Rightarrow> s
      | Some f \<Rightarrow>
          s\<lparr>audio := update_node f (set_filter_frequency (pitchBendToFilterFreq data)) (audio s)\<rparr>)"

definition onMidiMessage_p1 :: "byte \<Rightarrow> byte \<Rightarrow> byte \<Rightarrow> synth \<Rightarrow> synth js" where
  "onMidiMessage_p1 statusByte data1 data2 s =
     (if isNoteOn statusByte then playNote_p1 data1 data2 s
      else if isNoteOff statusByte then stopNote_p1 data1 s
      else if statusByte = 176 then
        Ret (if data1 = 1 then s
             else if data1 = 7 then setMasterGain_p1 (controlVolumeToGain data2) s
             else s)
      else if statusByte = 224 then Ret (setMasterFilterFreq_p1 data2 s)
      else Ret s)"

definition disableStartBtn_p1 :: "string option \<Rightarrow> app \<Rightarrow> app js" where
  "disableStartBtn_p1 arg a =
     (case arg of
        None \<Rightarrow> Throw TypeError a
      | Some btnText \<Rightarrow> Ret (a\<lparr>startDisabled := True\<rparr>))"

definition onDomContentLoaded_p1 :: "app \<Rightarrow> app js" where
  "onDomContentLoaded_p1 a =
     (if \<not> hasMidiApi a then disableStartBtn_p1 None a
      else Ret (a\<lparr>midiPending := True, startListener := True\<rparr>))"

definition createFilter_p1 :: "audio_graph \<Rightarrow> node_id \<times> audio_graph" where
  "createFilter_p1 g =
     (let (filter, g1) = ctx_createBiquadFilter g
      in (filter, update_node filter (set_filter_type Lowpass) g1))"

definition createAudio_p1 :: "bool \<Rightarrow> synth \<Rightarrow> synth" where
  "createAudio_p1 has_ctor s =
     (if \<not> has_ctor then s
      else
        (let (master, g1) = ctx_createGain (audio s);
             g2 = update_node master (set_gain_value 0.5) g1;
             (filter, g3) = createFilter_p1 g2;
             g4 = node_connect master (ToNode filter) g3;
             g5 = node_connect filter ToDestination g4
         in s\<lparr>audio := g5, audioContext := True, masterGainNode := Some master,
              masterFilter := Some filter\<rparr>))"

definition onStartBtnClick_p1 :: "app \<Rightarrow> app js" where
  "onStartBtnClick_p1 a =
     disableStartBtn_p1 (Some ''Synth Running'') (a\<lparr>synth := createAudio_p1 (hasAudioCtor a) (synth a)\<rparr>)"

definition setupMidi_resolved_p1 :: "midi_port list \<Rightarrow> app \<Rightarrow> app" where
  "setupMidi_resolved_p1 inputs a =
     a\<lparr>midiPending := False, accessListener := True,
       midi := fold enableMidiInput_v1 inputs (midi a)\<rparr>"

definition midi_handler_p1 :: "byte \<Rightarrow> byte \<Rightarrow> byte \<Rightarrow> app \<Rightarrow> app js" where
  "midi_handler_p1 statusByte data1 data2 a =
     js_map (\<lambda>s. a\<lparr>synth := s\<rparr>) (onMidiMessage_p1 statusByte data1 data2 (synth a))"

fun app_step_p1 :: "app \<Rightarrow> event \<Rightarrow> app" where
  "app_step_p1 a DomContentLoaded = deliver onDomContentLoaded_p1 (a\<lparr>loaded := True\<rparr>)"
| "app_step_p1 a (MidiAccessResolved inputs) = setupMidi_resolved_p1 inputs a"
| "app_step_p1 a MidiAccessRejected = setupMidi_rejected a"
| "app_step_p1 a StartClick =
     (if startListener a \<and> \<not> startDisabled a then deliver onStartBtnClick_p1 a else a)"
| "app_step_p1 a (PortStateChange p) =
     (if accessListener a then a\<lparr>midi := onStateChange_v1 p (midi a)\<rparr> else a)"
| "app_step_p1 a (MidiMessage p statusByte data1 data2) =
     (if subscribed (midi a) (port_id p) then deliver (midi_handler_p1 statusByte data1 data2) a
      else a)"

definition view_sim :: "app \<Rightarrow> app \<Rightarrow> bool" where
  "view_sim a1 am \<longleftrightarrow>
     midi_view (midi a1) = midi_view (midi am) \<and> a1\<lparr>midi := midi_init\<rparr> = am\<lparr>midi := midi_init\<rparr>"

lemma onMidiMessage_p1_eq: "onMidiMessage_p1 = onMidiMessage_chain"
proof -
  have "createOscillator_p1 = createOscillator" "createGain_p1 = createGain"
    by (simp_all add: fun_eq_iff createOscillator_p1_def createOscillator_def createGain_p1_def
        createGain_def)
  then have "playNote_p1 = playNote" "stopNote_p1 = stopNote" "setMasterGain_p1 = setMasterGain"
    "setMasterFilterFreq_p1 = setMasterFilterFreq"
    by (simp_all add: fun_eq_iff playNote_p1_def playNote_def stopNote_p1_def stopNote_def
        setMasterGain_p1_def setMasterGain_def setMasterFilterFreq_p1_def setMasterFilterFreq_def)
  then show ?thesis
    by (simp add: fun_eq_iff onMidiMessage_p1_def onMidiMessage_chain_def controlChange_def)
qed

lemma disableStartBtn_p1_eq: "disableStartBtn_p1 = disableStartBtn"
  by (simp add: fun_eq_iff disableStartBtn_p1_def disableStartBtn_def)

declare onMidiMessage_p1_eq [simp] disableStartBtn_p1_eq [simp]

lemma view_sim_eq:
  "view_sim a1 am \<Longrightarrow> a1 = am\<lparr>midi := midi a1\<rparr>"
  by (cases a1; cases am) (simp add: view_sim_def)

lemma createAudio_p1_eq: "createAudio_p1 = createAudio"
  by (simp add: fun_eq_iff createAudio_p1_def createAudio_def createFilter_p1_def createFilter_def)

lemma view_sim_step:
  assumes sim: "view_sim a1 am" and inv: "app_inv am"
  shows "view_sim (app_step_p1 a1 e) (app_step am e)"
proof -
  have a1: "a1 = am\<lparr>midi := midi a1\<rparr>" by (rule view_sim_eq [OF sim])
  have v: "midi_view (midi a1) = midi_view (midi am)" using sim by (simp add: view_sim_def)
  show ?thesis
  proof (cases e)
    case DomContentLoaded
    then show ?thesis
      using v by (subst a1) (simp add: view_sim_def deliver_def onDomContentLoaded_p1_def
          onDomContentLoaded_def disableStartBtn_def)
  next
    case (MidiAccessResolved inputs)
    then show ?thesis
      using v by (subst a1) (simp add: view_sim_def setupMidi_resolved_p1_def setupMidi_resolved_def
          midi_view_fold_enable_v1)
  next
    case MidiAccessRejected
    then show ?thesis
      using v by (subst a1) (simp add: view_sim_def setupMidi_rejected_def)
  next
    case StartClick
    then show ?thesis
      using v by (subst a1) (simp add: view_sim_def deliver_def onStartBtnClick_p1_def
          onStartBtnClick_def disableStartBtn_def createAudio_p1_eq)
  next
    case (PortStateChange p)
    have "\<not> accessListener am \<longrightarrow> listeners (midi am) = {}"
      using inv by (simp add: app_inv_def)
    then have m: "app_step am (PortStateChange p) =
        (if accessListener am then am\<lparr>midi := onStateChange p (midi am)\<rparr> else am)"
      by (simp add: app_step_PortStateChange del: app_step.simps)
    show ?thesis
      unfolding PortStateChange m
      using v sim by (subst a1) (simp add: view_sim_def midi_view_onStateChange_v1)
  next
    case (MidiMessage p st d1 d2)
    have h: "onMidiMessage_chain st d1 d2 (synth am) = onMidiMessage st d1 d2 (synth am)"
      by (simp add: onMidiMessage_chain_handle_event onMidiMessage_handle_event)
    have sub: "subscribed (midi a1) (port_id p) = subscribed (midi am) (port_id p)"
      by (rule subscribed_midi_view [OF v])
    show ?thesis
      unfolding MidiMessage
    proof (cases "subscribed (midi am) (port_id p)")
      case True
      obtain r where r: "onMidiMessage st d1 d2 (synth am) = r" by blast
      show "view_sim (app_step_p1 a1 (MidiMessage p st d1 d2)) (app_step am (MidiMessage p st d1 d2))"
        using True sub v h r
        by (subst a1, cases r) (simp_all add: view_sim_def deliver_def midi_handler_p1_def midi_handler_def)
    next
      case False
      then show "view_sim (app_step_p1 a1 (MidiMessage p st d1 d2)) (app_step am (MidiMessage p st d1 d2))"
        using sub sim by simp
    qed
  qed
qed

lemma view_sim_runs:
  "reachable name_of am \<Longrightarrow> view_sim a1 am \<Longrightarrow> valid_run name_of am es \<Longrightarrow>
   view_sim (foldl app_step_p1 a1 es) (foldl app_step am es)"
proof (induction es arbitrary: a1 am)
  case Nil
  then show ?case by simp
next
  case (Cons e es)
  have "view_sim (app_step_p1 a1 e) (app_step am e)"
    using Cons.prems reachable_app_inv by (blast intro: view_sim_step)
  moreover have "reachable name_of (app_step am e)"
    using Cons.prems by (simp add: reachable.step del: app_step.simps)
  ultimately show ?case
    using Cons.prems Cons.IH by (simp del: app_step.simps app_step_p1.simps)
qed

text \<open>
  C22: on every sequence of events the browser can deliver, the first variant of part_000
  and midiSynth.js reach states that are equal except for the listeners on ports: the same
  synthesiser (voices, nodes, connections, master chain, filter at 350 Hz), the same registry
  and subscribed ports, button state and escaped exceptions.
\<close>

theorem first_variant_equiv:
  "valid_run name_of (app_init midi_api audio_ctor) es \<Longrightarrow>
   view_sim (foldl app_step_p1 (app_init midi_api audio_ctor) es)
            (foldl app_step (app_init midi_api audio_ctor) es)"
  by (rule view_sim_runs [OF reachable.init]) (simp add: view_sim_def)



theorem first_variant_equiv_witness:
  "valid_run (\<lambda>i. replicate i CHR ''k'') (app_init True True)
     [DomContentLoaded, MidiAccessResolved [\<lparr>port_id = 1, port_name = ''k'', port_type = Input, port_state = Connected\<rparr>],
      StartClick, MidiMessage \<lparr>port_id = 1, port_name = ''k'', port_type = Input, port_state = Connected\<rparr> 144 60 90] \<and>
   view_sim (foldl app_step_p1 (app_init True True)
     [DomContentLoaded, MidiAccessResolved [\<lparr>port_id = 1, port_name = ''k'', port_type = Input, port_state = Connected\<rparr>],
      StartClick, MidiMessage \<lparr>port_id = 1, port_name = ''k'', port_type = Input, port_state = Connected\<rparr> 144 60 90])
    (foldl app_step (app_init True True)
     [DomContentLoaded, MidiAccessResolved [\<lparr>port_id = 1, port_name = ''k'', port_type = Input, port_state = Connected\<rparr>],
      StartClick, MidiMessage \<lparr>port_id = 1, port_name = ''k'', port_type = Input, port_state = Connected\<rparr> 144 60 90])"
proof -
  have v: "valid_run (\<lambda>i. replicate i CHR ''k'') (app_init True True)
     [DomContentLoaded, MidiAccessResolved [\<lparr>port_id = 1, port_name = ''k'', port_type = Input, port_state = Connected\<rparr>],
      StartClick, MidiMessage \<lparr>port_id = 1, port_name = ''k'', port_type = Input, port_state = Connected\<rparr> 144 60 90]"
    by (simp add: app_eval port_of_def)
  show ?thesis using first_variant_equiv [OF v] v by blast
qed

end
