(* ===== verification/Input_Iteration.thy ===== *)
theory Input_Iteration
  imports Class_Variant NoRegistry_Variant First_Variant "HOL-Library.While_Combinator"
begin

text \<open>
  The loop of \<open>setupMidi\<close>: once the access request resolves, every variant runs
  \<open>access.inputs.forEach(enableMidiInput)\<close> over the \<open>MIDIInputMap\<close> of the access
  object. \<open>forEach_loop\<close> is \<open>Map.prototype.forEach\<close> (ECMAScript, not code of this
  repository): an index runs over the entries in insertion order and the callback is
  applied to each value while the index is below the number of entries; it is written with
  \<open>while_option\<close>, whose \<open>None\<close> is a loop that does not stop. The four
  \<open>setupMidi_loop\<close> definitions are the resolved half of \<open>setupMidi\<close> in each
  variant with this loop in place of the \<open>fold\<close> of the other theories. The lemmas show
  that the loop stops on every input list with the result of \<open>fold\<close>
  (\<open>forEach_loop_fold\<close>, by the measure \<open>length entries - index\<close>), so every
  variant's \<open>setupMidi\<close> returns, with the state its page model uses.
\<close>

definition forEach_loop :: "('a \<Rightarrow> 's \<Rightarrow> 's) \<Rightarrow> 'a list \<Rightarrow> 's \<Rightarrow> 's option" where
  "forEach_loop callbackfn entries s =
     map_option snd
       (while_option (\<lambda>(index, s). index < length entries)
          (\<lambda>(index, s). (Suc index, callbackfn (entries ! index) s)) (0, s))"

definition setupMidi_loop :: "midi_port list \<Rightarrow> app \<Rightarrow> app option" where
  "setupMidi_loop inputs a =
     map_option (\<lambda>ms. a\<lparr>midiPending := False, accessListener := True, midi := ms\<rparr>)
       (forEach_loop enableMidiInput inputs (midi a))"

definition setupMidi_loop_p1 :: "midi_port list \<Rightarrow> app \<Rightarrow> app option" where
  "setupMidi_loop_p1 inputs a =
     map_option (\<lambda>ms. a\<lparr>midiPending := False, accessListener := True, midi := ms\<rparr>)
       (forEach_loop enableMidiInput_v1 inputs (midi a))"

definition setupMidi_loop_class :: "midi_port list \<Rightarrow> app \<Rightarrow> app option" where
  "setupMidi_loop_class inputs a =
     map_option (\<lambda>ms. a\<lparr>midiPending := False, accessListener := True, midi := ms\<rparr>)
       (forEach_loop enableMidiInput_class inputs (midi a))"

definition setupMidi_loop_v2 :: "midi_port list \<Rightarrow> app \<Rightarrow> app option" where
  "setupMidi_loop_v2 inputs a =
     map_option (\<lambda>ms. a\<lparr>midiPending := False, midi := ms\<rparr>)
       (forEach_loop enableMidiInput_v2 inputs (midi a))"

lemma forEach_while:
  "i \<le> length xs \<Longrightarrow>
   while_option (\<lambda>(index, s). index < length xs) (\<lambda>(index, s). (Suc index, f (xs ! index) s)) (i, s) =
     Some (length xs, fold f (drop i xs) s)"
proof (induction "length xs - i" arbitrary: i s)
  case 0
  then show ?case by (subst while_option_unfold) simp
next
  case (Suc k)
  then have i: "i < length xs" by simp
  have "while_option (\<lambda>(index, s). index < length xs) (\<lambda>(index, s). (Suc index, f (xs ! index) s)) (i, s) =
        while_option (\<lambda>(index, s). index < length xs) (\<lambda>(index, s). (Suc index, f (xs ! index) s))
          (Suc i, f (xs ! i) s)"
    using i by (subst while_option_unfold) simp
  also have "\<dots> = Some (length xs, fold f (drop (Suc i) xs) (f (xs ! i) s))"
    using Suc.hyps(1) [of "Suc i"] Suc.hyps(2) i by simp
  also have "\<dots> = Some (length xs, fold f (drop i xs) s)"
    using i by (simp add: Cons_nth_drop_Suc [symmetric])
  finally show ?case .
qed

lemma forEach_loop_fold: "forEach_loop f xs s = Some (fold f xs s)"
  using forEach_while [of 0 xs f s] by (simp add: forEach_loop_def)


text \<open>
  In every variant the \<open>forEach\<close> loop of \<open>setupMidi\<close> stops on every list of
  inputs, and the state it returns is the one the page model of the variant computes.
\<close>

lemma setupMidi_loops_terminate:
  "setupMidi_loop inputs a = Some (setupMidi_resolved inputs a) \<and>
   setupMidi_loop_p1 inputs a = Some (setupMidi_resolved_p1 inputs a) \<and>
   setupMidi_loop_class inputs a = Some (setupMidi_resolved_class inputs a) \<and>
   setupMidi_loop_v2 inputs a = Some (setupMidi_resolved_v2 inputs a)"
  by (simp add: forEach_loop_fold setupMidi_loop_def setupMidi_loop_p1_def setupMidi_loop_class_def
      setupMidi_loop_v2_def setupMidi_resolved_def setupMidi_resolved_p1_def
      setupMidi_resolved_class_def setupMidi_resolved_v2_def)

end
