(* ===== verification/Status_Display.thy ===== *)
theory Status_Display
  imports Session
begin

text \<open>The page's text output in src/midiSynth.js: the status element, appended to by
  \<open>logStatus\<close> (lines 231-236), and the messages element, overwritten by
  \<open>printMessageInfo\<close> (lines 214-229). The \<open>log_*\<close> functions list the messages each
  listener of Session passes to \<open>logStatus\<close>, in the order of its calls; \<open>page_log\<close>
  dispatches them per event and \<open>app_step_logged\<close> pairs the page step with the display.
  Byte values are printed with \<open>string_of_nat\<close> (JavaScript's decimal \<open>Number\<close> to
  string on integers); the frequency of a note, a float, is printed by a parameter
  \<open>num_to_string\<close>, since its shortest round-trip formatting is not modelled.\<close>


record display =
  status_text :: string
  messages_text :: string

definition display_init :: display where
  "display_init = \<lparr>status_text = [], messages_text = []\<rparr>"

fun string_of_nat :: "nat \<Rightarrow> string" where
  "string_of_nat n =
     (if n < 10 then [char_of (48 + n)] else string_of_nat (n div 10) @ [char_of (48 + n mod 10)])"

definition digit_value :: "char \<Rightarrow> nat" where
  "digit_value c = of_char c - 48"

definition nat_of_digits :: "string \<Rightarrow> nat" where
  "nat_of_digits s = foldl (\<lambda>n c. 10 * n + digit_value c) 0 s"

definition is_digit :: "char \<Rightarrow> bool" where
  "is_digit c \<longleftrightarrow> 48 \<le> (of_char c :: nat) \<and> (of_char c :: nat) \<le> 57"

definition logStatus :: "string \<Rightarrow> display \<Rightarrow> display" where
  "logStatus message d = d\<lparr>status_text := status_text d @ message @ ''\<newline>''\<rparr>"

definition printMessageInfo ::
  "(real \<Rightarrow> string) \<Rightarrow> string \<Rightarrow> byte \<Rightarrow> byte \<Rightarrow> byte \<Rightarrow> display \<Rightarrow> display" where
  "printMessageInfo num_to_string name data0 data1 data2 d =
     (let noteFreq = (if isNoteOn data0 \<or> isNoteOff data0
                      then ''('' @ num_to_string (midiNoteToFreq data1) @ '')'' else [])
      in d\<lparr>messages_text :=
             ''\<newline>=====================\<newline>'' @ name @ ''\<newline>---------------------\<newline>'' @
             ''Status: '' @ string_of_nat (unat data0) @ ''\<newline>'' @
             ''Data 1: '' @ string_of_nat (unat data1) @ '' '' @ noteFreq @ ''\<newline>'' @
             ''Data 2: '' @ string_of_nat (unat data2) @ ''\<newline>'' @
             ''=====================\<newline>  ''\<rparr>)"

definition quoted :: "string \<Rightarrow> string" where
  "quoted s = [CHR 0x27] @ s @ [CHR 0x27]"

definition log_enableMidiInput :: "midi_port \<Rightarrow> midi_state \<Rightarrow> string list" where
  "log_enableMidiInput input ms =
     (if js_truthy_get (midiPorts ms) (port_name input) then []
      else [''Found MIDI input: '' @ quoted (port_name input)])"

definition log_disableMidiInput :: "midi_port \<Rightarrow> midi_state \<Rightarrow> string list" where
  "log_disableMidiInput input ms =
     (if \<not> js_truthy_get (midiPorts ms) (port_name input) then []
      else [''Disabling MIDI input: '' @ quoted (port_name input)])"

fun port_state_string :: "port_state \<Rightarrow> string" where
  "port_state_string Connected = ''connected''"
| "port_state_string Disconnected = ''disconnected''"

definition log_onStateChange :: "midi_port \<Rightarrow> midi_state \<Rightarrow> string list" where
  "log_onStateChange port ms =
     [''State change: '' @ port_name port @ '', '' @ port_state_string (port_state port)] @
     (if port_type port = Input then
        (case port_state port of
           Connected \<Rightarrow> log_enableMidiInput port ms
         | Disconnected \<Rightarrow> log_disableMidiInput port ms)
      else [])"

definition log_setupMidi_start :: "string list" where
  "log_setupMidi_start = [''Setting up MIDI...'']"

fun log_setupMidi_resolved :: "midi_port list \<Rightarrow> midi_state \<Rightarrow> string list" where
  "log_setupMidi_resolved [] ms = []"
| "log_setupMidi_resolved (p # ps) ms =
     log_enableMidiInput p ms @ log_setupMidi_resolved ps (enableMidiInput p ms)"

definition log_setupMidi_rejected :: "string \<Rightarrow> string list" where
  "log_setupMidi_rejected message = [''Error setting up MIDI: '' @ message]"

definition log_onDomContentLoaded :: "app \<Rightarrow> string list" where
  "log_onDomContentLoaded a =
     (if \<not> hasMidiApi a then [''No MIDI support available.''] else log_setupMidi_start)"

definition log_createAudio :: "bool \<Rightarrow> string list" where
  "log_createAudio has_ctor =
     ''Starting AudioContext...'' # (if \<not> has_ctor then [''No constructor for AudioContext found.''] else [])"

fun page_log :: "string \<Rightarrow> app \<Rightarrow> event \<Rightarrow> string list" where
  "page_log err a DomContentLoaded = log_onDomContentLoaded a"
| "page_log err a (MidiAccessResolved inputs) = log_setupMidi_resolved inputs (midi a)"
| "page_log err a MidiAccessRejected = log_setupMidi_rejected err"
| "page_log err a StartClick =
     (if startListener a \<and> \<not> startDisabled a then log_createAudio (hasAudioCtor a) else [])"
| "page_log err a (PortStateChange p) =
     (let port_listener = (port_id p, OnStateChange) \<in> listeners (midi a);
          ms1 = (if port_listener then onStateChange p (midi a) else midi a)
      in (if port_listener then log_onStateChange p (midi a) else []) @
         (if accessListener a then log_onStateChange p ms1 else []))"
| "page_log err a (MidiMessage p statusByte data1 data2) = []"

fun app_step_logged ::
  "(real \<Rightarrow> string) \<Rightarrow> string \<Rightarrow> app \<times> display \<Rightarrow> event \<Rightarrow> app \<times> display" where
  "app_step_logged num_to_string err (a, d) e =
     (app_step a e,
      (let d1 = fold logStatus (page_log err a e) d
       in case e of
            MidiMessage p statusByte data1 data2 \<Rightarrow>
              if subscribed (midi a) (port_id p)
              then printMessageInfo num_to_string (port_name p) statusByte data1 data2 d1 else d1
          | _ \<Rightarrow> d1))"

text \<open>
  The number of status lines a log writes for port state changes: the lines that begin
  with the prefix \<open>onStateChange\<close> writes.
\<close>

definition state_change_count :: "string list \<Rightarrow> nat" where
  "state_change_count lines = length (filter (\<lambda>l. take 14 l = ''State change: '') lines)"

declare string_of_nat.simps [simp del]

lemma fst_app_step_logged:
  "fst (foldl (app_step_logged f err) (a, d) es) = foldl app_step a es"
proof (induction es arbitrary: a d)
  case Nil
  then show ?case by simp
next
  case (Cons e es)
  then show ?case by (simp del: app_step.simps)
qed

lemma status_fold_logStatus:
  "status_text (fold logStatus ms d) = status_text d @ concat (map (\<lambda>m. m @ ''\<newline>'') ms)"
  by (induction ms arbitrary: d) (simp_all add: logStatus_def)

lemma status_printMessageInfo [simp]:
  "status_text (printMessageInfo f n x y z d) = status_text d"
  by (simp add: printMessageInfo_def Let_def)

lemma page_log_no_midi:
  assumes r: "reachable name_of a" and api: "\<not> hasMidiApi a" and env: "env_ok name_of a e"
  shows "page_log err a e = (if e = DomContentLoaded then [''No MIDI support available.''] else [])"
proof -
  have i: "\<not> startListener a" "\<not> midiPending a" "\<not> accessListener a" "listeners (midi a) = {}"
    using reachable_app_inv [OF r] api by (auto simp: app_inv_def)
  show ?thesis
    using i api env by (cases e) (simp_all add: log_onDomContentLoaded_def Let_def)
qed

lemma app_step_flags:
  "hasMidiApi (app_step a e) = hasMidiApi a \<and> (loaded (app_step a e) \<longleftrightarrow> loaded a \<or> e = DomContentLoaded)"
proof (cases e)
  case (MidiMessage p st d1 d2)
  obtain r where r: "onMidiMessage st d1 d2 (synth a) = r" by blast
  then show ?thesis
    using MidiMessage by (cases r) (simp_all add: deliver_def midi_handler_def)
qed (simp_all add: deliver_def onDomContentLoaded_def onStartBtnClick_def disableStartBtn_def
       setupMidi_resolved_def setupMidi_rejected_def Let_def)

lemma valid_run_loaded:
  "valid_run name_of a es \<Longrightarrow> loaded a \<Longrightarrow> DomContentLoaded \<notin> set es"
proof (induction es arbitrary: a)
  case (Cons e es)
  then show ?case using app_step_flags [of a e] by (auto simp del: app_step.simps)
qed simp

lemma status_no_midi_run:
  assumes "reachable name_of a" and "\<not> hasMidiApi a" and "valid_run name_of a es"
  shows "status_text (snd (foldl (app_step_logged f err) (a, d) es)) =
         status_text d @ (if DomContentLoaded \<in> set es then ''No MIDI support available.\<newline>'' else [])"
  using assms
proof (induction es arbitrary: a d)
  case Nil
  then show ?case by simp
next
  case (Cons e es)
  have env: "env_ok name_of a e" and rest: "valid_run name_of (app_step a e) es"
    using Cons.prems(3) by simp_all
  have r': "reachable name_of (app_step a e)"
    using Cons.prems(1) env by (rule reachable.step)
  have api': "\<not> hasMidiApi (app_step a e)"
    using app_step_flags [of a e] Cons.prems(2) by simp
  have log: "page_log err a e = (if e = DomContentLoaded then [''No MIDI support available.''] else [])"
    by (rule page_log_no_midi [OF Cons.prems(1,2) env])
  have sub: "\<not> subscribed (midi a) i" for i
    using reachable_app_inv [OF Cons.prems(1)] Cons.prems(2) by (auto simp: app_inv_def subscribed_def)
  have step: "status_text (snd (app_step_logged f err (a, d) e)) =
      status_text d @ (if e = DomContentLoaded then ''No MIDI support available.\<newline>'' else [])"
    using log sub by (cases e) (simp_all add: status_fold_logStatus logStatus_def Let_def)
  have "e = DomContentLoaded \<Longrightarrow> DomContentLoaded \<notin> set es"
    using valid_run_loaded [OF rest] app_step_flags [of a e] by simp
  moreover have "foldl (app_step_logged f err) (a, d) (e # es) =
      foldl (app_step_logged f err) (app_step a e, snd (app_step_logged f err (a, d) e)) es"
    by (simp del: app_step.simps)
  ultimately show ?case
    using Cons.IH [OF r' api' rest, of "snd (app_step_logged f err (a, d) e)"] step
    by (auto simp del: app_step_logged.simps app_step.simps)
qed

text \<open>C27: Without the Web MIDI API the status log of every run is exactly one line,
  "No MIDI support available.", written once the document has loaded, and empty before.\<close>

theorem no_midi_status_once:
  "valid_run name_of (app_init False audio_ctor) es \<Longrightarrow>
   status_text (snd (foldl (app_step_logged num_to_string err) (app_init False audio_ctor, display_init) es)) =
     (if DomContentLoaded \<in> set es then ''No MIDI support available.\<newline>'' else [])"
proof -
  assume v: "valid_run name_of (app_init False audio_ctor) es"
  have r: "reachable name_of (app_init False audio_ctor)" by (rule reachable.init)
  have "\<not> hasMidiApi (app_init False audio_ctor)" by (simp add: app_init_def)
  from status_no_midi_run [OF r this v] show ?thesis
    by (simp add: display_init_def)
qed

lemma digit_char: "d < 10 \<Longrightarrow> digit_value (char_of (48 + d)) = d \<and> is_digit (char_of (48 + d))"
  by (simp add: digit_value_def is_digit_def)

lemma nat_of_digits_snoc: "nat_of_digits (s @ [c]) = 10 * nat_of_digits s + digit_value c"
  by (simp add: nat_of_digits_def)

lemma string_of_nat_roundtrip:
  "nat_of_digits (string_of_nat n) = n \<and> (\<forall>c \<in> set (string_of_nat n). is_digit c) \<and> string_of_nat n \<noteq> []"
proof (induction n rule: string_of_nat.induct)
  case (1 n)
  show ?case
  proof (cases "n < 10")
    case True
    then show ?thesis using digit_char [of n]
      by (subst (1 2 3) string_of_nat.simps) (simp add: nat_of_digits_def)
  next
    case False
    have "n mod 10 < 10" by simp
    with 1 False show ?thesis
      using digit_char [of "n mod 10"]
      by (subst (1 2 3) string_of_nat.simps) (simp add: nat_of_digits_snoc)
  qed
qed


text \<open>C29: The message panel written by printMessageInfo shows the three data bytes as
  decimal digit strings that read back as the byte values, in the fixed template of the
  source.\<close>

theorem printMessageInfo_digits:
  "\<exists>pre mid s0 s1 s2.
     messages_text (printMessageInfo num_to_string name data0 data1 data2 d) =
       pre @ ''Status: '' @ s0 @ ''\<newline>Data 1: '' @ s1 @ mid @ ''\<newline>Data 2: '' @ s2 @
       ''\<newline>=====================\<newline>  '' \<and>
     nat_of_digits s0 = unat data0 \<and> nat_of_digits s1 = unat data1 \<and> nat_of_digits s2 = unat data2 \<and>
     list_all is_digit (s0 @ s1 @ s2)"
proof (intro exI conjI)
  show "messages_text (printMessageInfo num_to_string name data0 data1 data2 d) =
    (''\<newline>=====================\<newline>'' @ name @ ''\<newline>---------------------\<newline>'') @
    ''Status: '' @ string_of_nat (unat data0) @ ''\<newline>Data 1: '' @ string_of_nat (unat data1) @
    ('' '' @ (if isNoteOn data0 \<or> isNoteOff data0
              then ''('' @ num_to_string (midiNoteToFreq data1) @ '')'' else [])) @
    ''\<newline>Data 2: '' @ string_of_nat (unat data2) @ ''\<newline>=====================\<newline>  ''"
    by (simp add: printMessageInfo_def Let_def)
qed (use string_of_nat_roundtrip in \<open>auto simp: list_all_iff\<close>)

lemma state_change_count_append [simp]:
  "state_change_count (xs @ ys) = state_change_count xs + state_change_count ys"
  by (simp add: state_change_count_def)

lemma state_change_count_log_onStateChange [simp]:
  "state_change_count (log_onStateChange p ms) = 1"
  by (simp add: state_change_count_def log_onStateChange_def log_enableMidiInput_def
      log_disableMidiInput_def split: port_state.split)

lemma subscribed_statechange_listener:
  "registry_inv name_of ms \<Longrightarrow> subscribed ms i \<Longrightarrow> (i, OnStateChange) \<in> listeners ms"
  unfolding registry_inv_def subscribed_def by blast

text \<open>
  C28: In every reachable state (port names unique), a state change of a subscribed
  input port is written to the status twice: the port's own \<open>statechange\<close> listener,
  registered by \<open>enableMidiInput\<close>, and the access object's both run
  \<open>onStateChange\<close>, which logs the change before anything else.
\<close>

theorem statechange_logged_twice:
  assumes r: "reachable name_of a" and inj: "inj name_of" and sub: "subscribed (midi a) (port_id p)"
  shows "state_change_count (page_log err a (PortStateChange p)) = 2"
proof -
  have acc: "accessListener a"
    using reachable_app_inv [OF r] sub by (auto simp: app_inv_def subscribed_def)
  have "(port_id p, OnStateChange) \<in> listeners (midi a)"
    using subscribed_statechange_listener [OF reachable_registry_inv_aux [OF r inj] sub] .
  with acc show ?thesis by (simp add: Let_def)
qed

text \<open>
  The run behind it: a keyboard is found at start-up and then unplugged; the
  "Disabling" line sits between the two copies of the state change.
\<close>

lemma scenario_statechange_logged_twice:
  "let kb = \<lparr>port_id = 1, port_name = ''k'', port_type = Input, port_state = Connected\<rparr>
   in status_text (snd (foldl (app_step_logged num_to_string err) (app_init True True, display_init)
        [DomContentLoaded, MidiAccessResolved [kb], PortStateChange (kb\<lparr>port_state := Disconnected\<rparr>)])) =
      ''Setting up MIDI...\<newline>'' @
      ''Found MIDI input: '' @ quoted ''k'' @ ''\<newline>'' @
      ''State change: k, disconnected\<newline>'' @
      ''Disabling MIDI input: '' @ quoted ''k'' @ ''\<newline>'' @
      ''State change: k, disconnected\<newline>''"
  by (simp add: app_eval display_init_def logStatus_def log_onDomContentLoaded_def log_setupMidi_start_def
      log_enableMidiInput_def log_disableMidiInput_def log_onStateChange_def enableMidiInput_def
      disableMidiInput_def onStateChange_def js_truthy_get_def object_prototype_keys_def Let_def)

theorem no_midi_status_once_witness:
  "status_text (snd (foldl (app_step_logged (\<lambda>_. []) [])
      (app_init False False, display_init) [DomContentLoaded, StartClick])) =
   ''No MIDI support available.\<newline>''"
proof -
  have v: "valid_run (\<lambda>_. []) (app_init False False) [DomContentLoaded, StartClick]"
    by (simp add: app_eval)
  show ?thesis
    using no_midi_status_once [OF v] by simp
qed

theorem printMessageInfo_digits_witness:
  "\<exists>pre mid s0 s1 s2.
     messages_text (printMessageInfo (\<lambda>_. []) ''k'' 144 60 100 display_init) =
       pre @ ''Status: '' @ s0 @ ''\<newline>Data 1: '' @ s1 @ mid @ ''\<newline>Data 2: '' @ s2 @
       ''\<newline>=====================\<newline>  '' \<and>
     nat_of_digits s0 = 144 \<and> nat_of_digits s1 = 60 \<and> nat_of_digits s2 = 100 \<and>
     list_all is_digit (s0 @ s1 @ s2)"
  using printMessageInfo_digits [of "\<lambda>_. []" "''k''" 144 60 100 display_init] by simp

theorem statechange_logged_twice_witness:
  "let kb = \<lparr>port_id = 1, port_name = ''k'', port_type = Input, port_state = Connected\<rparr>;
       a = foldl app_step (app_init True True) [DomContentLoaded, MidiAccessResolved [kb]]
   in reachable (\<lambda>i. replicate i CHR ''k'') a \<and> inj (\<lambda>i. replicate i CHR ''k'') \<and>
      subscribed (midi a) (port_id kb) \<and> state_change_count (page_log [] a (PortStateChange kb)) = 2"
proof -
  define kb where "kb = \<lparr>port_id = 1, port_name = ''k'', port_type = Input, port_state = Connected\<rparr>"
  define a where "a = foldl app_step (app_init True True) [DomContentLoaded, MidiAccessResolved [kb]]"
  have r: "reachable (\<lambda>i. replicate i CHR ''k'') a"
    unfolding a_def
    by (rule reachable_valid_run [OF reachable.init]) (simp add: kb_def app_eval port_of_def)
  have s: "subscribed (midi a) (port_id kb)"
    by (simp add: a_def kb_def app_eval enableMidiInput_def js_truthy_get_def
        object_prototype_keys_def subscribed_def)
  have "state_change_count (page_log [] a (PortStateChange kb)) = 2"
    by (rule statechange_logged_twice [OF r inj_name_k s])
  with r s inj_name_k show ?thesis
    unfolding kb_def [symmetric] a_def [symmetric] Let_def by blast
qed

end
