(* ===== verification/Class_Display.thy ===== *)
theory Class_Display
  imports Class_Variant Status_Display
begin

text \<open>
  The text output of the class variant (src/unnamed/part_000 lines 457--707), over the
  record \<open>display\<close> of Status_Display: the methods \<open>logStatus\<close> and
  \<open>printMessageInfo\<close> of the class (their template ends in a tab where midiSynth.js
  has two spaces), the status lines each method writes (the class says "Enabling MIDI
  input" where midiSynth.js says "Found MIDI input"), the per-event dispatch
  \<open>page_log_class\<close> following \<open>app_step_class\<close>, and the page and display run
  together, \<open>app_step_class_logged\<close>.
\<close>

definition logStatus_class :: "string \<Rightarrow> display \<Rightarrow> display" where
  "logStatus_class message d = d\<lparr>status_text := status_text d @ message @ ''\<newline>''\<rparr>"

definition printMessageInfo_class ::
  "(real \<Rightarrow> string) \<Rightarrow> string \<Rightarrow> byte \<Rightarrow> byte \<Rightarrow> byte \<Rightarrow> display \<Rightarrow> display" where
  "printMessageInfo_class num_to_string name data0 data1 data2 d =
     (let noteFreq = (if isNoteOn data0 \<or> isNoteOff data0
                      then ''('' @ num_to_string (midiNoteToFreq data1) @ '')'' else [])
      in d\<lparr>messages_text :=
             ''\<newline>=====================\<newline>'' @ name @ ''\<newline>---------------------\<newline>'' @
             ''Status: '' @ string_of_nat (unat data0) @ ''\<newline>'' @
             ''Data 1: '' @ string_of_nat (unat data1) @ '' '' @ noteFreq @ ''\<newline>'' @
             ''Data 2: '' @ string_of_nat (unat data2) @ ''\<newline>'' @
             ''=====================\<newline>'' @ [CHR 0x09]\<rparr>)"

definition log_enableMidiInput_class :: "midi_port \<Rightarrow> midi_state \<Rightarrow> string list" where
  "log_enableMidiInput_class input this =
     (if js_truthy_get (midiPorts this) (port_name input) then []
      else [''Enabling MIDI input: '' @ quoted (port_name input)])"

definition log_disableMidiInput_class :: "midi_port \<Rightarrow> midi_state \<Rightarrow> string list" where
  "log_disableMidiInput_class input this =
     (if \<not> js_truthy_get (midiPorts this) (port_name input) then []
      else [''Disabling MIDI input: '' @ quoted (port_name input)])"

definition log_onStateChange_class :: "midi_port \<Rightarrow> midi_state \<Rightarrow> string list" where
  "log_onStateChange_class port this =
     [''State change: '' @ port_name port @ '', '' @ port_state_string (port_state port)] @
     (if port_type port = Input then
        (case port_state port of
           Connected \<Rightarrow> log_enableMidiInput_class port this
         | Disconnected \<Rightarrow> log_disableMidiInput_class port this)
      else [])"

definition log_setupMidi_start_class :: "string list" where
  "log_setupMidi_start_class = [''Setting up MIDI...'']"

fun log_setupMidi_resolved_class :: "midi_port list \<Rightarrow> midi_state \<Rightarrow> string list" where
  "log_setupMidi_resolved_class [] this = []"
| "log_setupMidi_resolved_class (p # ps) this =
     log_enableMidiInput_class p this @ log_setupMidi_resolved_class ps (enableMidiInput_class p this)"

definition log_setupMidi_rejected_class :: "string \<Rightarrow> string list" where
  "log_setupMidi_rejected_class message = [''Error setting up MIDI: '' @ message]"

definition log_start_class :: "app \<Rightarrow> string list" where
  "log_start_class a =
     (if \<not> hasMidiApi a then [''No MIDI support available.''] else log_setupMidi_start_class)"

definition log_createAudio_class :: "bool \<Rightarrow> string list" where
  "log_createAudio_class has_ctor =
     ''Starting AudioContext...'' # (if \<not> has_ctor then [''No constructor for AudioContext found.''] else [])"

fun page_log_class :: "string \<Rightarrow> app \<Rightarrow> event \<Rightarrow> string list" where
  "page_log_class err a DomContentLoaded = log_start_class a"
| "page_log_class err a (MidiAccessResolved inputs) = log_setupMidi_resolved_class inputs (midi a)"
| "page_log_class err a MidiAccessRejected = log_setupMidi_rejected_class err"
| "page_log_class err a StartClick =
     (if startListener a \<and> \<not> startDisabled a then log_createAudio_class (hasAudioCtor a) else [])"
| "page_log_class err a (PortStateChange p) =
     (if accessListener a then log_onStateChange_class p (midi a) else [])"
| "page_log_class err a (MidiMessage p statusByte data1 data2) = []"

fun app_step_class_logged ::
  "(real \<Rightarrow> string) \<Rightarrow> string \<Rightarrow> app \<times> display \<Rightarrow> event \<Rightarrow> app \<times> display" where
  "app_step_class_logged num_to_string err (a, d) e =
     (app_step_class a e,
      (let d1 = fold logStatus_class (page_log_class err a e) d
       in case e of
            MidiMessage p statusByte data1 data2 \<Rightarrow>
              if subscribed (midi a) (port_id p)
              then printMessageInfo_class num_to_string (port_name p) statusByte data1 data2 d1 else d1
          | _ \<Rightarrow> d1))"

lemma state_change_count_log_onStateChange_class [simp]:
  "state_change_count (log_onStateChange_class p ms) = 1"
  by (simp add: state_change_count_def log_onStateChange_class_def log_enableMidiInput_class_def
      log_disableMidiInput_class_def split: port_state.split)

text \<open>
  In the class variant a port state change is written to the status once when the
  access object's listener is registered and not at all before: the class subscribes its
  ports to \<open>midimessage\<close> only, so no port-level listener logs it a second time.
\<close>

lemma class_statechange_logged_once:
  "state_change_count (page_log_class err a (PortStateChange p)) = (if accessListener a then 1 else 0)"
  by (simp add: state_change_count_def [of "[]"])

text \<open>
  The run of \<open>scenario_statechange_logged_twice\<close> on the class page: one line for
  the unplugging, followed by the "Disabling" line.
\<close>

lemma scenario_class_statechange_logged_once:
  "let kb = \<lparr>port_id = 1, port_name = ''k'', port_type = Input, port_state = Connected\<rparr>
   in status_text (snd (foldl (app_step_class_logged num_to_string err) (app_init True True, display_init)
        [DomContentLoaded, MidiAccessResolved [kb], PortStateChange (kb\<lparr>port_state := Disconnected\<rparr>)])) =
      ''Setting up MIDI...\<newline>'' @
      ''Enabling MIDI input: '' @ quoted ''k'' @ ''\<newline>'' @
      ''State change: k, disconnected\<newline>'' @
      ''Disabling MIDI input: '' @ quoted ''k'' @ ''\<newline>''"
  by (simp add: app_eval display_init_def logStatus_class_def log_start_class_def log_setupMidi_start_class_def
      log_enableMidiInput_class_def log_disableMidiInput_class_def log_onStateChange_class_def
      enableMidiInput_v1_def disableMidiInput_v1_def onStateChange_v1_def start_class_def
      setupMidi_resolved_class_def disableStartBtn_class_def js_truthy_get_def object_prototype_keys_def Let_def)

end
