(* ===== verification/Variant_Display.thy ===== *)
theory Variant_Display
  imports NoRegistry_Variant First_Variant Class_Display
begin

text \<open>
  The text output of the two variants of src/unnamed/part_000 written with globals: the
  first variant (lines 1--244) and the variant without registry (lines 245--456), over
  the record \<open>display\<close> of Status_Display. For each: \<open>logStatus\<close>,
  \<open>printMessageInfo\<close>, the status lines of each listener in call order, the per-event
  dispatch following the variant's page step, and the page and display run together.
  The lemmas compare the logs of a port state change: the first variant writes what the
  class variant writes (one line per change, "Enabling MIDI input"); the variant without
  registry logs a change only for ports listed when the access request resolved, and then
  once.
\<close>

subsection \<open>First variant (lines 1--244)\<close>

definition logStatus_p1 :: "string \<Rightarrow> display \<Rightarrow> display" where
  "logStatus_p1 message d = d\<lparr>status_text := status_text d @ message @ ''\<newline>''\<rparr>"

definition printMessageInfo_p1 ::
  "(real \<Rightarrow> string) \<Rightarrow> string \<Rightarrow> byte \<Rightarrow> byte \<Rightarrow> byte \<Rightarrow> display \<Rightarrow> display" where
  "printMessageInfo_p1 num_to_string name data0 data1 data2 d =
     (let noteFreq = (if isNoteOn data0 \<or> isNoteOff data0
                      then ''('' @ num_to_string (midiNoteToFreq data1) @ '')'' else [])
      in d\<lparr>messages_text :=
             ''\<newline>=====================\<newline>'' @ name @ ''\<newline>---------------------\<newline>'' @
             ''Status: '' @ string_of_nat (unat data0) @ ''\<newline>'' @
             ''Data 1: '' @ string_of_nat (unat data1) @ '' '' @ noteFreq @ ''\<newline>'' @
             ''Data 2: '' @ string_of_nat (unat data2) @ ''\<newline>'' @
             ''=====================\<newline>  ''\<rparr>)"

definition log_enableMidiInput_p1 :: "midi_port \<Rightarrow> midi_state \<Rightarrow> string list" where
  "log_enableMidiInput_p1 input ms =
     (if js_truthy_get (midiPorts ms) (port_name input) then []
      else [''Enabling MIDI input: '' @ quoted (port_name input)])"

definition log_disableMidiInput_p1 :: "midi_port \<Rightarrow> midi_state \<Rightarrow> string list" where
  "log_disableMidiInput_p1 input ms =
     (if \<not> js_truthy_get (midiPorts ms) (port_name input) then []
      else [''Disabling MIDI input: '' @ quoted (port_name input)])"

definition log_onStateChange_p1 :: "midi_port \<Rightarrow> midi_state \<Rightarrow> string list" where
  "log_onStateChange_p1 port ms =
     [''State change: '' @ port_name port @ '', '' @ port_state_string (port_state port)] @
     (if port_type port = Input then
        (case port_state port of
           Connected \<Rightarrow> log_enableMidiInput_p1 port ms
         | Disconnected \<Rightarrow> log_disableMidiInput_p1 port ms)
      else [])"

definition log_setupMidi_start_p1 :: "string list" where
  "log_setupMidi_start_p1 = [''Setting up MIDI...'']"

fun log_setupMidi_resolved_p1 :: "midi_port list \<Rightarrow> midi_state \<Rightarrow> string list" where
  "log_setupMidi_resolved_p1 [] ms = []"
| "log_setupMidi_resolved_p1 (p # ps) ms =
     log_enableMidiInput_p1 p ms @ log_setupMidi_resolved_p1 ps (enableMidiInput_v1 p ms)"

definition log_setupMidi_rejected_p1 :: "string \<Rightarrow> string list" where
  "log_setupMidi_rejected_p1 message = [''Error setting up MIDI: '' @ message]"

definition log_onDomContentLoaded_p1 :: "app \<Rightarrow> string list" where
  "log_onDomContentLoaded_p1 a =
     (if \<not> hasMidiApi a then [''No MIDI support available.''] else log_setupMidi_start_p1)"

definition log_createAudio_p1 :: "bool \<Rightarrow> string list" where
  "log_createAudio_p1 has_ctor =
     ''Starting AudioContext...'' # (if \<not> has_ctor then [''No constructor for AudioContext found.''] else [])"

fun page_log_p1 :: "string \<Rightarrow> app \<Rightarrow> event \<Rightarrow> string list" where
  "page_log_p1 err a DomContentLoaded = log_onDomContentLoaded_p1 a"
| "page_log_p1 err a (MidiAccessResolved inputs) = log_setupMidi_resolved_p1 inputs (midi a)"
| "page_log_p1 err a MidiAccessRejected = log_setupMidi_rejected_p1 err"
| "page_log_p1 err a StartClick =
     (if startListener a \<and> \<not> startDisabled a then log_createAudio_p1 (hasAudioCtor a) else [])"
| "page_log_p1 err a (PortStateChange p) =
     (if accessListener a then log_onStateChange_p1 p (midi a) else [])"
| "page_log_p1 err a (MidiMessage p statusByte data1 data2) = []"

fun app_step_p1_logged ::
  "(real \<Rightarrow> string) \<Rightarrow> string \<Rightarrow> app \<times> display \<Rightarrow> event \<Rightarrow> app \<times> display" where
  "app_step_p1_logged num_to_string err (a, d) e =
     (app_step_p1 a e,
      (let d1 = fold logStatus_p1 (page_log_p1 err a e) d
       in case e of
            MidiMessage p statusByte data1 data2 \<Rightarrow>
              if subscribed (midi a) (port_id p)
              then printMessageInfo_p1 num_to_string (port_name p) statusByte data1 data2 d1 else d1
          | _ \<Rightarrow> d1))"

subsection \<open>Variant without registry (lines 245--456)\<close>

definition logStatus_v2 :: "string \<Rightarrow> display \<Rightarrow> display" where
  "logStatus_v2 message d = d\<lparr>status_text := status_text d @ message @ ''\<newline>''\<rparr>"

definition printMessageInfo_v2 ::
  "(real \<Rightarrow> string) \<Rightarrow> string \<Rightarrow> byte \<Rightarrow> byte \<Rightarrow> byte \<Rightarrow> display \<Rightarrow> display" where
  "printMessageInfo_v2 num_to_string name data0 data1 data2 d =
     (let noteFreq = (if isNoteOn data0 \<or> isNoteOff data0
                      then ''('' @ num_to_string (midiNoteToFreq data1) @ '')'' else [])
      in d\<lparr>messages_text :=
             ''\<newline>=====================\<newline>'' @ name @ ''\<newline>---------------------\<newline>'' @
             ''Status: '' @ string_of_nat (unat data0) @ ''\<newline>'' @
             ''Data 1: '' @ string_of_nat (unat data1) @ '' '' @ noteFreq @ ''\<newline>'' @
             ''Data 2: '' @ string_of_nat (unat data2) @ ''\<newline>'' @
             ''=====================\<newline>  ''\<rparr>)"

definition log_enableMidiInput_v2 :: "midi_port \<Rightarrow> string list" where
  "log_enableMidiInput_v2 input = [''Found MIDI input: '' @ quoted (port_name input)]"

definition log_onStateChange_v2 :: "midi_port \<Rightarrow> string list" where
  "log_onStateChange_v2 port =
     [''State change: '' @ port_name port @ '', '' @ port_state_string (port_state port)]"

definition log_setupMidi_start_v2 :: "string list" where
  "log_setupMidi_start_v2 = [''Setting up MIDI...'']"

definition log_setupMidi_resolved_v2 :: "midi_port list \<Rightarrow> string list" where
  "log_setupMidi_resolved_v2 inputs = concat (map log_enableMidiInput_v2 inputs)"

definition log_setupMidi_rejected_v2 :: "string \<Rightarrow> string list" where
  "log_setupMidi_rejected_v2 message = [''Error setting up MIDI: '' @ message]"

definition log_init_v2 :: "app \<Rightarrow> string list" where
  "log_init_v2 a =
     (if js_property_key (js_not_string ''requestMIDIAccess'') \<in> navigator_keys a
      then [''No MIDI support available.''] else log_setupMidi_start_v2)"

definition log_createAudio_v2 :: "bool \<Rightarrow> string list" where
  "log_createAudio_v2 has_ctor =
     ''Starting AudioContext...'' # (if \<not> has_ctor then [''No constructor for AudioContext found.''] else [])"

fun page_log_v2 :: "string \<Rightarrow> app \<Rightarrow> event \<Rightarrow> string list" where
  "page_log_v2 err a DomContentLoaded = log_init_v2 a"
| "page_log_v2 err a (MidiAccessResolved inputs) = log_setupMidi_resolved_v2 inputs"
| "page_log_v2 err a MidiAccessRejected = log_setupMidi_rejected_v2 err"
| "page_log_v2 err a StartClick =
     (if startListener a \<and> \<not> startDisabled a then log_createAudio_v2 (hasAudioCtor a) else [])"
| "page_log_v2 err a (PortStateChange p) =
     (if (port_id p, OnStateChange) \<in> listeners (midi a) then log_onStateChange_v2 p else [])"
| "page_log_v2 err a (MidiMessage p statusByte data1 data2) = []"

fun app_step_v2_logged ::
  "(real \<Rightarrow> string) \<Rightarrow> string \<Rightarrow> app \<times> display \<Rightarrow> event \<Rightarrow> app \<times> display" where
  "app_step_v2_logged num_to_string err (a, d) e =
     (app_step_v2 a e,
      (let d1 = fold logStatus_v2 (page_log_v2 err a e) d
       in case e of
            MidiMessage p statusByte data1 data2 \<Rightarrow>
              if subscribed (midi a) (port_id p)
              then printMessageInfo_v2 num_to_string (port_name p) statusByte data1 data2 d1 else d1
          | _ \<Rightarrow> d1))"

subsection \<open>Logs of the variants compared\<close>

lemma log_onStateChange_p1_class: "log_onStateChange_p1 = log_onStateChange_class"
  by (simp add: fun_eq_iff log_onStateChange_p1_def log_onStateChange_class_def
      log_enableMidiInput_p1_def log_enableMidiInput_class_def log_disableMidiInput_p1_def
      log_disableMidiInput_class_def split: port_state.split)

lemma page_log_p1_class: "page_log_p1 err a e = page_log_class err a e"
proof (cases e)
  case (MidiAccessResolved inputs)
  have "log_setupMidi_resolved_p1 ps ms = log_setupMidi_resolved_class ps ms" for ps ms
    by (induction ps arbitrary: ms)
       (simp_all add: log_enableMidiInput_p1_def log_enableMidiInput_class_def)
  then show ?thesis using MidiAccessResolved by simp
qed (simp_all add: log_onStateChange_p1_class log_onDomContentLoaded_p1_def log_start_class_def
       log_setupMidi_start_p1_def log_setupMidi_start_class_def log_setupMidi_rejected_p1_def
       log_setupMidi_rejected_class_def log_createAudio_p1_def log_createAudio_class_def)

lemma p1_statechange_logged_once:
  "state_change_count (page_log_p1 err a (PortStateChange p)) = (if accessListener a then 1 else 0)"
  by (simp add: log_onStateChange_p1_class state_change_count_def [of "[]"])

lemma v2_statechange_logged:
  "state_change_count (page_log_v2 err a (PortStateChange p)) =
     (if (port_id p, OnStateChange) \<in> listeners (midi a) then 1 else 0)"
  by (simp add: state_change_count_def log_onStateChange_v2_def)

end
