(* ===== verification/Spec2Isabelle.thy ===== *)
theory Spec2Isabelle
  imports Input_Iteration Variant_Display
begin

text \<open>
  \<^bold>\<open>Verification of js-midi-synth.\<close>

  \<^medskip>\<^bold>\<open>The program.\<close> src/midiSynth.js is a browser page that turns the
  messages of MIDI keyboards into sound. Its parts: the start-up listeners
  (\<open>onDomContentLoaded\<close>, \<open>onStartBtnClick\<close>, the asynchronous
  \<open>setupMidi\<close>, \<open>disableStartBtn\<close>); the device registry (\<open>midiPorts\<close>
  with \<open>enableMidiInput\<close>, \<open>disableMidiInput\<close>, \<open>onStateChange\<close>); the
  message handler \<open>onMidiMessage\<close> with the decoding helpers \<open>isNoteOn\<close>,
  \<open>isNoteOff\<close>; the numeric conversions \<open>midiNoteToFreq\<close>,
  \<open>midiVelocityToGain\<close>; the audio side (\<open>createAudio\<close>, \<open>createFilter\<close>,
  \<open>playNote\<close>, \<open>stopNote\<close>, \<open>createOscillator\<close>, \<open>createGain\<close>,
  \<open>setMasterGain\<close>, \<open>setMasterFilterFreq\<close>) over the voice registry
  \<open>pressedKeys\<close> and the master gain and filter nodes. The browser delivers events
  one at a time to the listeners the page registered: the document load, the settling of
  the MIDI access request, clicks, port state changes and MIDI messages.
  src/unnamed/part_000 holds three variants of the same page: one with an
  \<open>else if\<close> message handler and device functions that subscribe only
  \<open>midimessage\<close> (lines 1--244), one without a device registry (lines 245--456),
  and a class \<open>MidiSynth\<close> (lines 457--714).

  \<^medskip>\<^bold>\<open>Theories.\<close>
  \<^item> \<open>Synth_Prelude\<close>: bytes as \<open>8 word\<close>, JavaScript completions
    \<open>'s js\<close> (a normal result, or an exception with the state reached when it was
    thrown), object-literal truthiness \<open>js_truthy_get\<close>, and the map and
    injectivity lemmas the components share.
  \<^item> \<open>Midi_Decoder\<close>: \<open>isNoteOn\<close>, \<open>isNoteOff\<close>, and \<open>decode\<close>, the
    branch of \<open>onMidiMessage\<close> a status byte selects, as a \<open>midi_event\<close>; the
    encoder \<open>encode_event\<close> of a keyboard and the round trip \<open>decode_encode\<close>
    (notes on all 16 channels, control change and pitch bend only on channel 1).
  \<^item> \<open>Param_Mappers\<close>: the four conversions over the reals, with monotonicity
    and bounds; the tuning formula \<open>freqToNote\<close> inverts \<open>midiNoteToFreq\<close>; the
    velocity curve is linear.
  \<^item> \<open>Audio_Engine\<close>: the Web Audio API the code calls, modelled from the
    specification and the API defaults (it is not code of this repository): a store of
    nodes with fresh addresses, connections, attribute writers, and oscillator
    \<open>start\<close>/\<open>stop\<close> with their \<open>InvalidStateError\<close>s. The typing of
    connections \<open>graph_typed\<close> (oscillator to gain, gain to gain or filter, filter to
    destination, between allocated nodes) and the frame lemmas that carry it through node
    creation, attribute writes and typed connections.
  \<^item> \<open>Voice_Synth\<close>: the globals \<open>audioContext\<close>, \<open>masterGainNode\<close>,
    \<open>masterFilter\<close>, \<open>pressedKeys\<close> as the record \<open>synth\<close>; one definition
    per audio function of midiSynth.js (lines 82--210), the \<open>else if\<close> handler
    \<open>onMidiMessage_chain\<close> and \<open>createFilter_class\<close> of part_000. Lemmas: the
    invariant \<open>synth_inv\<close> (master nodes of the right kinds, every registered voice a
    started or stopped oscillator, registry injective, store well formed) holds
    initially and after \<open>createAudio\<close> and every message, and under it no message
    throws; both handlers equal the typed dispatch \<open>handle_event\<close> after
    \<open>decode\<close> (refinement); the effect of each message kind; the voice leak of a
    repeated NoteOn (\<open>leak_free\<close> fails exactly there: \<open>noteOn_held_orphans\<close>
    shows the held note's oscillator is left sounding and unregistered, and
    \<open>orphan_keeps_sounding\<close> that no later message stops it); every operation keeps the audio graph typed.
  \<^item> \<open>Device_Registry\<close>: \<open>midiPorts\<close> and the listeners on ports as the
    record \<open>midi_state\<close>; the device functions of midiSynth.js and of the two
    part_000 variants (\<open>_v1\<close>, \<open>_v2\<close>). Lemmas: the registry invariant
    \<open>registry_inv\<close> under unique names, connect/disconnect subscription, the
    \<open>Object.prototype\<close> name bug, what a shared device name does to the registry (\<open>duplicate_name_shadowing\<close>), and agreement of
    midiSynth.js with the \<open>_v1\<close> variant.
  \<^item> \<open>Session\<close>: the page as a state machine. The record \<open>app\<close> joins
    \<open>synth\<close>, \<open>midi_state\<close>, the two browser capabilities the code tests, the
    listeners registered on the document, button and access object, the button state, and
    the exceptions that escaped listeners. Each listener of midiSynth.js is a definition;
    \<open>app_step\<close> is the browser's dispatch of one \<open>event\<close>; \<open>env_ok\<close>
    restricts events to those the browser can produce (the document loads once, the access
    request settles once, port names come from a function \<open>name_of\<close> of the port
    identity); \<open>reachable\<close> is the set of states of all runs. Lemmas: the page
    invariant \<open>app_inv\<close> holds in every reachable state (rule induction), so the
    synthesiser invariant always holds, no exception escapes when Web MIDI exists,
    without Web MIDI the page stays silent after one \<open>TypeError\<close>, the synthesiser
    is untouched until the start click, \<open>createAudio\<close> runs at most once, MIDI
    messages are routed exactly by \<open>midiPorts\<close> (unique names), the double delivery
    of state changes has the effect of one, the audio graph stays typed
    (\<open>reachable_graph_typed\<close>), a held note can always be released
    (\<open>release_progress\<close>); two end-to-end runs are lemmas. \<open>valid_run\<close> is the same
    environment as a list of events.
  \<^item> \<open>Class_Methods\<close>: the methods of the class \<open>MidiSynth\<close> of part_000 that change
    state, one definition each (\<open>onMidiMessage_class\<close> calling \<open>playNote_class\<close>,
    \<open>stopNote_class\<close>, \<open>setMasterGain_class\<close>, \<open>setMasterFilterFreq_class\<close>;
    \<open>onStateChange_class\<close> calling \<open>enableMidiInput_class\<close> and
    \<open>disableMidiInput_class\<close>; \<open>createOscillator_class\<close>, \<open>createGain_class\<close>,
    \<open>disableStartBtn_class\<close>), over the instance fields as the records \<open>synth\<close> and
    \<open>midi_state\<close>. Each is shown equal to its counterpart in midiSynth.js or in the
    first variant (\<open>class_methods_eq\<close>).
  \<^item> \<open>Class_Variant\<close>: the class \<open>MidiSynth\<close> of part_000 as its own page
    (\<open>app_step_class\<close>, with \<open>createAudio_class\<close>, \<open>start_class\<close>,
    \<open>onStartBtnClick_class\<close>, \<open>setupMidi_resolved_class\<close>,
    \<open>midi_handler_class\<close>). A forward simulation \<open>page_sim\<close>, proved one event at a
    time under the page invariant, shows that on every valid run it reaches the states of
    midiSynth.js up to the filter's frequency and Q (\<open>blind_synth\<close>) and the
    port-level \<open>statechange\<close> listeners (\<open>midi_view\<close>). On every sequence of
    events the class registers no \<open>statechange\<close> listener on a port
    (\<open>class_no_port_statechange_listener\<close>).
  \<^item> \<open>NoRegistry_Methods\<close>: the audio functions, message handler and start
    listener of the variant without registry. Its \<open>playNote\<close> assigns the undeclared
    name \<open>osc\<close> (line 382), a global of the classic script; its globals are the record
    \<open>synth_v2\<close>, \<open>synth\<close> extended by \<open>osc\<close>. Lemmas: \<open>osc\<close> is written and
    never read (forgetting it commutes with every handler), and the listeners equal those
    of midiSynth.js.
  \<^item> \<open>NoRegistry_Variant\<close>: the variant of part_000 without a registry
    (\<open>init_v2\<close> with its \<open>!'requestMIDIAccess' in navigator\<close> test,
    \<open>setupMidi_resolved_v2\<close>, \<open>app_step_v2\<close>, \<open>reachable_v2\<close>). Lemmas: its
    no-MIDI branch never runs, so no exception ever escapes and the page starts without
    Web MIDI; subscriptions change only when the access request resolves.
  \<^item> \<open>First_Variant\<close>: the first variant of part_000 (lines 1--244) as its own
    page \<open>app_step_p1\<close>, with its listeners \<open>onDomContentLoaded_p1\<close>,
    \<open>onStartBtnClick_p1\<close>, \<open>setupMidi_resolved_p1\<close>, \<open>createAudio_p1\<close>,
    \<open>createFilter_p1\<close>, \<open>midi_handler_p1\<close> running the else-if handler
    \<open>onMidiMessage_p1\<close> over its own audio functions (\<open>playNote_p1\<close> to
    \<open>setMasterFilterFreq_p1\<close>, shown equal to \<open>onMidiMessage_chain\<close>), and the
    \<open>_v1\<close> device functions. The simulation
    \<open>view_sim\<close> shows it reaches the states of midiSynth.js on every valid run, up to
    the port-level \<open>statechange\<close> listeners (\<open>first_variant_equiv\<close>).
  \<^item> \<open>Input_Iteration\<close>: the loop \<open>access.inputs.forEach(enableMidiInput)\<close> of
    \<open>setupMidi\<close> in all four variants, with \<open>Map.prototype.forEach\<close> written as a
    \<open>while_option\<close> over an index into the input list (\<open>forEach_loop\<close>). The loop
    stops on every list, by the measure \<open>length - index\<close>, with the result of the
    \<open>fold\<close> the page models use (\<open>forEach_loop_fold\<close>, a fact of the iteration
    scheme rather than of the callbacks).
  \<^item> \<open>Status_Display\<close>: the page's text output, the status element appended to by
    \<open>logStatus\<close> and the messages element written by \<open>printMessageInfo\<close>, as the
    record \<open>display\<close>. The \<open>log_*\<close> functions list the \<open>logStatus\<close>
    messages of each listener in call order, \<open>page_log\<close> collects them per event as
    \<open>app_step\<close> dispatches it, and \<open>app_step_logged\<close> runs page and display
    together (printMessageInfo first, as \<open>onMidiMessage\<close> calls it). Lemmas: without
    Web MIDI the status is one line; the byte fields of the message panel are decimal and
    read back as the bytes (\<open>string_of_nat\<close>, \<open>nat_of_digits\<close>); a state change
    of a subscribed port is logged twice in every reachable state
    (\<open>statechange_logged_twice\<close>).
  \<^item> \<open>Class_Display\<close>: the same for the class variant (its \<open>logStatus\<close>,
    \<open>printMessageInfo\<close> and the status lines of each method, \<open>page_log_class\<close>,
    \<open>app_step_class_logged\<close>); there a state change is logged once.
  \<^item> \<open>Variant_Display\<close>: the same for the first variant (\<open>page_log_p1\<close>, which
    writes what the class variant writes) and for the variant without registry
    (\<open>page_log_v2\<close>, which logs a state change only for the ports listed when the access
    request resolved).

  \<^medskip>\<^bold>\<open>Modelling choices.\<close> JavaScript numbers in the conversions are
  reals: every input is a byte and no intermediate value leaves the range of doubles,
  so the lemmas are about the exact values the floating-point code approximates.
  Exceptions are values (\<open>Throw\<close>); the browser's reporting of an exception that
  escapes a listener is the list \<open>uncaught\<close>. Every definition is total and
  executable. Objects compared by identity (ports, nodes) are addressed by natural numbers.
  The only loop of the program is the
  \<open>forEach\<close> over the inputs; it is modelled as \<open>fold\<close> in the page models and as a
  \<open>while_option\<close> in Input_Iteration, which proves that it stops, so no fuel is needed.
  The other recursive definitions are the structural \<open>log_setupMidi_resolved\<close> and the
  decimal printer \<open>string_of_nat\<close>, whose termination (argument divided by ten)
  Isabelle proves. The browser's order of the two
  \<open>statechange\<close> deliveries of an enabled port is the port's listener first.

  \<^medskip>\<^bold>\<open>Not modelled.\<close> The console copy of each status line; the text of
  a floating-point number (the note frequency in the message panel is printed by a parameter
  \<open>num_to_string\<close>, as JavaScript's shortest round-trip formatting is not modelled);
  the browser's rendering of \<open>innerText\<close> (the texts are the strings the code assigns).
  The Web MIDI and Web Audio implementations are represented by the events they deliver and
  the interface the code calls. The DOM lookups of the elements (\<open>getElementById\<close>)
  always succeed on the page the scripts belong to and are not modelled; the page state
  holds no DOM references. The pure helpers \<open>isNoteOn\<close>, \<open>isNoteOff\<close>,
  \<open>midiNoteToFreq\<close> and \<open>midiVelocityToGain\<close> of the three part_000 variants have
  the bodies of their midiSynth.js namesakes and use those definitions. Every other
  function of src/ is a definition of the development.
\<close>

end
